(* ===== verification/Prelude.thy ===== *)
theory Prelude
  imports Complex_Main
begin

text \<open>
  Shared vocabulary of the development: the Python exceptions the sources raise or
  propagate, the JSON values that \<open>json.dump\<close>/\<open>json.load\<close> exchange with the
  \<open>to_dict\<close>/\<open>from_dict\<close> methods, Python dictionaries as insertion-ordered
  association lists, the result-threading combinator \<open>rbind\<close>, the builtins
  \<open>str(int)\<close>, \<open>int(str)\<close> and \<open>str.split\<close> with their round trip, and the
  runtime services the sources call but do not implement (\<open>hashlib.sha1\<close>,
  \<open>datetime\<close> formatting and parsing), passed as a record of functions.
\<close>

named_theorems dict_simps "equations of the Python dictionary model"
named_theorems result_simps "equations of the exception-threading combinators"

section \<open>Exceptions and results\<close>

datatype py_error =
    FileNotFoundError string
  | KeyError string
  | TypeError
  | ValueError string
  | IndexError
  | AttributeError string
  | JSONDecodeError

type_synonym 'a result = "py_error + 'a"

definition rbind :: "'a result \<Rightarrow> ('a \<Rightarrow> 'b result) \<Rightarrow> 'b result" where
  "rbind m f = (case m of Inl e \<Rightarrow> Inl e | Inr a \<Rightarrow> f a)"

text \<open>A list comprehension \<open>[f(x) for x in xs]\<close> whose element computation may raise:
  the first exception aborts the whole comprehension.\<close>

fun rmap :: "('a \<Rightarrow> 'b result) \<Rightarrow> 'a list \<Rightarrow> 'b list result" where
  "rmap f [] = Inr []"
| "rmap f (x # xs) = rbind (f x) (\<lambda>y. rbind (rmap f xs) (\<lambda>ys. Inr (y # ys)))"

lemma rbind_Inl [simp, result_simps]: "rbind (Inl e) f = Inl e"
  by (simp add: rbind_def)

lemma rbind_Inr [simp, result_simps]: "rbind (Inr a) f = f a"
  by (simp add: rbind_def)

lemma rbind_eq_Inr [result_simps]:
  "rbind m f = Inr b \<longleftrightarrow> (\<exists>a. m = Inr a \<and> f a = Inr b)"
  by (cases m) auto

lemma rmap_map:
  assumes "\<And>x. x \<in> set xs \<Longrightarrow> f (g x) = Inr (h x)"
  shows "rmap f (map g xs) = Inr (map h xs)"
  using assms by (induction xs) auto

lemma rmap_inverse:
  assumes "\<And>x. x \<in> set xs \<Longrightarrow> f (g x) = Inr x"
  shows "rmap f (map g xs) = Inr xs"
  using assms by (induction xs) auto

section \<open>JSON values\<close>

text \<open>
  The values \<open>json.load\<close> produces. An object is the decoded Python dict, listed in
  its insertion order (keys are distinct in every object the development builds).
\<close>

datatype json =
    JNull
  | JBool bool
  | JInt int
  | JStr string
  | JList "json list"
  | JObj "(string \<times> json) list"

text \<open>\<open>bool(v)\<close> for a JSON value.\<close>

fun py_truthy :: "json \<Rightarrow> bool" where
  "py_truthy JNull = False"
| "py_truthy (JBool b) = b"
| "py_truthy (JInt i) = (i \<noteq> 0)"
| "py_truthy (JStr s) = (s \<noteq> [])"
| "py_truthy (JList xs) = (xs \<noteq> [])"
| "py_truthy (JObj kvs) = (kvs \<noteq> [])"

text \<open>\<open>data[k]\<close>: a missing key raises \<open>KeyError\<close>, indexing a non-dict by a string
  raises \<open>TypeError\<close>.\<close>

fun json_get :: "json \<Rightarrow> string \<Rightarrow> json result" where
  "json_get (JObj kvs) k = (case map_of kvs k of None \<Rightarrow> Inl (KeyError k) | Some v \<Rightarrow> Inr v)"
| "json_get _ k = Inl TypeError"

fun json_str :: "json \<Rightarrow> string result" where
  "json_str (JStr s) = Inr s"
| "json_str _ = Inl TypeError"

fun json_opt_str :: "json \<Rightarrow> string option result" where
  "json_opt_str JNull = Inr None"
| "json_opt_str (JStr s) = Inr (Some s)"
| "json_opt_str _ = Inl TypeError"

fun json_str_list :: "json \<Rightarrow> string list result" where
  "json_str_list (JList xs) = rmap json_str xs"
| "json_str_list _ = Inl TypeError"

text \<open>\<open>decode(data[k])\<close>: read a key of a dict and decode its value.\<close>

definition json_field :: "json \<Rightarrow> string \<Rightarrow> (json \<Rightarrow> 'a result) \<Rightarrow> 'a result" where
  "json_field data k dec = rbind (json_get data k) dec"

lemma json_field_JObj [simp]:
  "map_of kvs k = Some v \<Longrightarrow> json_field (JObj kvs) k dec = dec v"
  by (simp add: json_field_def)

text \<open>\<open>for x in v\<close> over a decoded JSON value: a list yields its items, a dict its
  keys, a string its characters; other values are not iterable.\<close>

fun json_iter :: "json \<Rightarrow> json list result" where
  "json_iter (JList xs) = Inr xs"
| "json_iter (JObj kvs) = Inr (map (\<lambda>kv. JStr (fst kv)) kvs)"
| "json_iter (JStr s) = Inr (map (\<lambda>c. JStr [c]) s)"
| "json_iter _ = Inl TypeError"

definition opt_json :: "string option \<Rightarrow> json" where
  "opt_json v = (case v of None \<Rightarrow> JNull | Some s \<Rightarrow> JStr s)"

lemma json_opt_str_opt_json [simp]: "json_opt_str (opt_json v) = Inr v"
  by (cases v) (simp_all add: opt_json_def)

lemma rmap_json_str_map [simp]: "rmap json_str (map JStr xs) = Inr xs"
  by (simp add: rmap_inverse)

lemma json_get_JObj_Some [simp]:
  "map_of kvs k = Some v \<Longrightarrow> json_get (JObj kvs) k = Inr v"
  by simp

section \<open>Python dictionaries\<close>

text \<open>
  A dict is the list of its items in insertion order. \<open>d[k] = v\<close> overwrites the
  value in place when \<open>k\<close> is present and appends the item otherwise; \<open>d.get(k)\<close>
  is \<^const>\<open>map_of\<close>.
\<close>

type_synonym ('k, 'v) pydict = "('k \<times> 'v) list"

fun dict_set :: "('k, 'v) pydict \<Rightarrow> 'k \<Rightarrow> 'v \<Rightarrow> ('k, 'v) pydict" where
  "dict_set [] k v = [(k, v)]"
| "dict_set ((k', v') # d) k v =
     (if k' = k then (k, v) # d else (k', v') # dict_set d k v)"

text \<open>\<open>{k: v for k, v in items}\<close>: later items overwrite earlier ones.\<close>

definition dict_from_items :: "('k \<times> 'v) list \<Rightarrow> ('k, 'v) pydict" where
  "dict_from_items items = fold (\<lambda>(k, v) d. dict_set d k v) items []"

lemma map_of_dict_set [simp, dict_simps]:
  "map_of (dict_set d k v) = (map_of d)(k \<mapsto> v)"
  by (induction d) (auto simp: fun_eq_iff)

lemma keys_dict_set [dict_simps]:
  "map fst (dict_set d k v) = (if k \<in> set (map fst d) then map fst d else map fst d @ [k])"
  by (induction d) force+

lemma set_keys_dict_set [simp, dict_simps]:
  "fst ` set (dict_set d k v) = insert k (fst ` set d)"
proof -
  have "set (map fst (dict_set d k v)) = insert k (set (map fst d))"
    by (auto simp: keys_dict_set)
  then show ?thesis by simp
qed

lemma distinct_dict_set [simp, dict_simps]:
  "distinct (map fst d) \<Longrightarrow> distinct (map fst (dict_set d k v))"
  by (induction d) auto

lemma dict_set_fresh [dict_simps]:
  "k \<notin> fst ` set d \<Longrightarrow> dict_set d k v = d @ [(k, v)]"
  by (induction d) auto

lemma set_dict_set_subset [dict_simps]:
  "set (dict_set d k v) \<subseteq> insert (k, v) (set d)"
  by (induction d) (auto split: if_splits)

lemma dict_from_items_append:
  "distinct (map fst (acc @ items)) \<Longrightarrow>
   fold (\<lambda>(k, v) d. dict_set d k v) items acc = acc @ items"
proof (induction items arbitrary: acc)
  case Nil
  then show ?case by simp
next
  case (Cons kv items)
  obtain k v where kv: "kv = (k, v)" by fastforce
  with Cons.prems have "k \<notin> fst ` set acc" by auto
  then have "dict_set acc k v = acc @ [(k, v)]" by (rule dict_set_fresh)
  with Cons.IH [of "acc @ [(k, v)]"] Cons.prems kv show ?case by simp
qed

lemma dict_from_items_distinct [dict_simps]:
  "distinct (map fst items) \<Longrightarrow> dict_from_items items = items"
  using dict_from_items_append [of "[]" items] by (simp add: dict_from_items_def)

section \<open>The builtins str(int), int(str), str.split and str.strip\<close>

definition digit_char :: "nat \<Rightarrow> char" where
  "digit_char d = char_of (48 + d)"

fun string_of_nat :: "nat \<Rightarrow> string" where
  "string_of_nat n =
     (if n < 10 then [digit_char n] else string_of_nat (n div 10) @ [digit_char (n mod 10)])"

declare string_of_nat.simps [simp del]

text \<open>\<open>str(i)\<close> for a Python int.\<close>

definition py_str_int :: "int \<Rightarrow> string" where
  "py_str_int i = (if i < 0 then CHR ''-'' # string_of_nat (nat (- i)) else string_of_nat (nat i))"

definition is_digit :: "char \<Rightarrow> bool" where
  "is_digit c \<longleftrightarrow> 48 \<le> (of_char c :: nat) \<and> (of_char c :: nat) \<le> 57"

fun digits_value :: "nat \<Rightarrow> string \<Rightarrow> nat" where
  "digits_value acc [] = acc"
| "digits_value acc (c # cs) = digits_value (10 * acc + (of_char c - 48)) cs"

text \<open>
  \<open>int(s)\<close> on a string: an optional sign followed by decimal digits; anything else
  raises \<open>ValueError\<close>. (Python also strips surrounding whitespace and accepts
  underscores between digits; no string the development parses contains either.)
\<close>

definition py_int :: "string \<Rightarrow> int result" where
  "py_int s =
     (case s of
        [] \<Rightarrow> Inl (ValueError s)
      | c # cs \<Rightarrow>
          if (c = CHR ''-'' \<or> c = CHR ''+'') \<and> cs \<noteq> [] \<and> list_all is_digit cs
          then Inr ((if c = CHR ''-'' then -1 else 1) * int (digits_value 0 cs))
          else if list_all is_digit s then Inr (int (digits_value 0 s))
          else Inl (ValueError s))"

lemma py_str_int_nonneg: "0 \<le> i \<Longrightarrow> py_str_int i = string_of_nat (nat i)"
  by (simp add: py_str_int_def)

text \<open>\<open>s.split(sep)\<close> for a one-character separator.\<close>

fun py_split :: "char \<Rightarrow> string \<Rightarrow> string list" where
  "py_split c [] = [[]]"
| "py_split c (x # xs) =
     (let ws = py_split c xs in if x = c then [] # ws else (x # hd ws) # tl ws)"

text \<open>\<open>xs[i]\<close> for a natural index: \<open>IndexError\<close> out of range.\<close>

definition py_index :: "'a list \<Rightarrow> nat \<Rightarrow> 'a result" where
  "py_index xs i = (if i < length xs then Inr (xs ! i) else Inl IndexError)"

text \<open>\<open>str.strip()\<close> and \<open>str.split()\<close> without arguments: the whitespace of
  \<open>str.isspace\<close> on one-byte characters; \<open>split()\<close> drops empty words.\<close>

definition is_py_space :: "char \<Rightarrow> bool" where
  "is_py_space c \<longleftrightarrow> of_char c \<in> {9, 10, 11, 12, 13, 28, 29, 30, 31, 32, 133, 160 :: nat}"

definition py_strip :: "string \<Rightarrow> string" where
  "py_strip s = rev (dropWhile is_py_space (rev (dropWhile is_py_space s)))"

fun py_words_aux :: "string \<Rightarrow> string \<Rightarrow> string list" where
  "py_words_aux cur [] = (if cur = [] then [] else [rev cur])"
| "py_words_aux cur (c # cs) =
     (if is_py_space c then (if cur = [] then py_words_aux [] cs else rev cur # py_words_aux [] cs)
      else py_words_aux (c # cur) cs)"

definition py_words :: "string \<Rightarrow> string list" where
  "py_words s = py_words_aux [] s"

text \<open>The line break \<open>"\n"\<close> of the f-strings.\<close>

definition py_nl :: string where
  "py_nl = [CHR 0x0A]"

lemma digit_char_simps [simp]:
  "digit_char 0 = CHR ''0''" "digit_char 1 = CHR ''1''" "digit_char (Suc 0) = CHR ''1''"
  "digit_char 2 = CHR ''2''" "digit_char 3 = CHR ''3''" "digit_char 4 = CHR ''4''"
  "digit_char 5 = CHR ''5''" "digit_char 6 = CHR ''6''" "digit_char 7 = CHR ''7''"
  "digit_char 8 = CHR ''8''" "digit_char 9 = CHR ''9''"
  by (simp_all add: digit_char_def char_of_def bit_simps)

lemma digits_value_append:
  "digits_value acc (xs @ ys) = digits_value (digits_value acc xs) ys"
  by (induction xs arbitrary: acc) auto

lemma of_char_digit_char: "d < 10 \<Longrightarrow> (of_char (digit_char d) :: nat) = 48 + d"
  by (simp add: digit_char_def)

lemma is_digit_digit_char [simp]: "d < 10 \<Longrightarrow> is_digit (digit_char d)"
  by (simp add: is_digit_def of_char_digit_char)

lemma digits_value_string_of_nat: "digits_value acc (string_of_nat n) = 10 ^ length (string_of_nat n) * acc + n"
proof (induction n arbitrary: acc rule: string_of_nat.induct)
  case (1 n)
  show ?case
  proof (cases "n < 10")
    case True
    then show ?thesis by (simp add: string_of_nat.simps [of n] of_char_digit_char)
  next
    case False
    then have "digits_value acc (string_of_nat n) =
        10 * digits_value acc (string_of_nat (n div 10)) + n mod 10"
      by (simp add: string_of_nat.simps [of n] digits_value_append of_char_digit_char)
    also have "\<dots> = 10 ^ length (string_of_nat n) * acc + n"
      using "1.IH" [of acc] False by (simp add: string_of_nat.simps [of n] algebra_simps)
    finally show ?thesis .
  qed
qed

lemma digits_value_string_of_nat_0 [simp]: "digits_value 0 (string_of_nat n) = n"
  using digits_value_string_of_nat [of 0 n] by simp

lemma string_of_nat_digits [simp]: "list_all is_digit (string_of_nat n)"
  by (induction n rule: string_of_nat.induct) (subst string_of_nat.simps, simp)

lemma string_of_nat_not_Nil [simp]: "string_of_nat n \<noteq> []"
  by (subst string_of_nat.simps) simp

lemma minus_not_digit [simp]: "\<not> is_digit CHR ''-''" and plus_not_digit [simp]: "\<not> is_digit CHR ''+''"
  by (simp_all add: is_digit_def)

lemma string_of_nat_no_minus [simp]: "CHR ''-'' \<notin> set (string_of_nat n)"
  using string_of_nat_digits [of n] by (auto simp: list_all_iff)

text \<open>The round trip of the builtins: \<open>int(str(n)) == n\<close>.\<close>

lemma py_int_string_of_nat [simp]: "py_int (string_of_nat n) = Inr (int n)"
proof -
  obtain c cs where s: "string_of_nat n = c # cs"
    by (cases "string_of_nat n") auto
  from string_of_nat_digits [of n] s have "is_digit c" by simp
  then have "c \<noteq> CHR ''-'' \<and> c \<noteq> CHR ''+''" by auto
  with s show ?thesis
    using digits_value_string_of_nat [of 0 n] string_of_nat_digits [of n]
    by (simp add: py_int_def)
qed

lemma find_append_cases:
  "find P (xs @ ys) = (case find P xs of None \<Rightarrow> find P ys | Some x \<Rightarrow> Some x)"
  by (induction xs) auto

lemma find_key_distinct:
  "distinct (map key xs) \<Longrightarrow> x \<in> set xs \<Longrightarrow> find (\<lambda>y. key y = key x) xs = Some x"
  by (induction xs) (auto simp: image_iff)

lemma py_split_no_sep [simp]: "c \<notin> set s \<Longrightarrow> py_split c s = [s]"
  by (induction s) (auto simp: Let_def)

lemma py_split_append_sep:
  "c \<notin> set a \<Longrightarrow> py_split c (a @ c # b) = a # py_split c b"
  by (induction a) (auto simp: Let_def)

section \<open>Runtime services\<close>

text \<open>
  What the sources call in the standard library and do not implement:
  \<open>hashlib.sha1(...).hexdigest()\<close> (on a string, or on the bytes of a file: HOL
  characters are bytes), and for \<open>datetime\<close> values \<open>str(d)\<close>,
  \<open>d.isoformat()\<close> and \<open>datetime.fromisoformat(s)\<close>. The datetime type is the
  parameter \<open>'d\<close>.
\<close>

record 'd runtime =
  sha1 :: "string \<Rightarrow> string"
  dt_str :: "'d \<Rightarrow> string"
  dt_iso :: "'d \<Rightarrow> string"
  dt_fromiso :: "string \<Rightarrow> 'd result"

text \<open>The library's contract used by the round-trip theorems:
  \<open>datetime.fromisoformat(d.isoformat()) == d\<close>.\<close>

definition iso_roundtrip :: "'d runtime \<Rightarrow> bool" where
  "iso_roundtrip R \<longleftrightarrow> (\<forall>d. dt_fromiso R (dt_iso R d) = Inr d)"

lemma iso_roundtripD [simp]: "iso_roundtrip R \<Longrightarrow> dt_fromiso R (dt_iso R d) = Inr d"
  by (simp add: iso_roundtrip_def)

end
