(* ===== verification/PullRequest.thy ===== *)
theory PullRequest
  imports Prelude
begin

text \<open>
  Pull requests of \<open>src/proyecto1/pull_request.py\<close> (class \<open>PullRequest\<close>): the
  record, its mutators (\<open>add_reviewer\<close>, \<open>add_comment\<close>, \<open>approve\<close>,
  \<open>reject\<close>, \<open>merge\<close>, \<open>add_tag\<close>) and the JSON round trip. The status is the
  string the code stores. The mutators are gathered into the datatype \<open>pr_op\<close> with
  the step function \<open>pr_step\<close>, and the pull requests the program can produce are
  the inductive set \<open>pr_reachable\<close>: created by the constructor, then changed by any
  sequence of mutator calls, since the code checks no transition.
\<close>

section \<open>State and operations\<close>

record 'd pull_request =
  pr_id :: string
  title :: string
  description :: string
  author :: string
  source_branch :: string
  target_branch :: string
  created_at :: 'd
  pr_status :: string
  reviewers :: "string list"
  comments :: "string list"
  pr_commits :: "string list"
  merged_at :: "'d option"
  tags :: "string list"

text \<open>\<open>PullRequest.__init__\<close>; \<open>now\<close> is the value of \<open>datetime.now()\<close>.\<close>

definition new_pull_request ::
  "string \<Rightarrow> string \<Rightarrow> string \<Rightarrow> string \<Rightarrow> string \<Rightarrow> string \<Rightarrow> 'd \<Rightarrow> 'd pull_request" where
  "new_pull_request i t d a sb tb now =
     \<lparr>pr_id = i, title = t, description = d, author = a, source_branch = sb,
      target_branch = tb, created_at = now, pr_status = ''open'', reviewers = [],
      comments = [], pr_commits = [], merged_at = None, tags = []\<rparr>"

definition add_reviewer :: "string \<Rightarrow> 'd pull_request \<Rightarrow> 'd pull_request" where
  "add_reviewer r pr = pr\<lparr>reviewers := reviewers pr @ [r]\<rparr>"

definition add_comment :: "string \<Rightarrow> 'd pull_request \<Rightarrow> 'd pull_request" where
  "add_comment c pr = pr\<lparr>comments := comments pr @ [c]\<rparr>"

definition approve :: "'d pull_request \<Rightarrow> 'd pull_request" where
  "approve pr = pr\<lparr>pr_status := ''approved''\<rparr>"

definition reject :: "'d pull_request \<Rightarrow> 'd pull_request" where
  "reject pr = pr\<lparr>pr_status := ''rejected''\<rparr>"

definition merge :: "'d \<Rightarrow> 'd pull_request \<Rightarrow> 'd pull_request" where
  "merge now pr = pr\<lparr>pr_status := ''merged'', merged_at := Some now\<rparr>"

definition add_tag :: "string \<Rightarrow> 'd pull_request \<Rightarrow> 'd pull_request" where
  "add_tag t pr = pr\<lparr>tags := tags pr @ [t]\<rparr>"

datatype 'd pr_op =
    AddReviewer string | AddComment string | Approve | Reject | Merge 'd | AddTag string

fun pr_step :: "'d pr_op \<Rightarrow> 'd pull_request \<Rightarrow> 'd pull_request" where
  "pr_step (AddReviewer r) pr = add_reviewer r pr"
| "pr_step (AddComment c) pr = add_comment c pr"
| "pr_step Approve pr = approve pr"
| "pr_step Reject pr = reject pr"
| "pr_step (Merge now) pr = merge now pr"
| "pr_step (AddTag t) pr = add_tag t pr"

inductive pr_reachable :: "'d pull_request \<Rightarrow> bool" where
  created: "pr_reachable (new_pull_request i t d a sb tb now)"
| step: "pr_reachable pr \<Longrightarrow> pr_reachable (pr_step op pr)"

text \<open>What every pull request the program creates satisfies: one of the four statuses
  the methods set, and a merge time whenever it is merged.\<close>

definition pr_inv :: "'d pull_request \<Rightarrow> bool" where
  "pr_inv pr \<longleftrightarrow>
     pr_status pr \<in> {''open'', ''approved'', ''rejected'', ''merged''} \<and>
     (pr_status pr = ''merged'' \<longrightarrow> merged_at pr \<noteq> None)"

section \<open>Serialisation\<close>

definition pr_to_dict :: "'d runtime \<Rightarrow> 'd pull_request \<Rightarrow> json" where
  "pr_to_dict R pr = JObj
     [(''id'', JStr (pr_id pr)),
      (''title'', JStr (title pr)),
      (''description'', JStr (description pr)),
      (''author'', JStr (author pr)),
      (''source_branch'', JStr (source_branch pr)),
      (''target_branch'', JStr (target_branch pr)),
      (''created_at'', JStr (dt_iso R (created_at pr))),
      (''status'', JStr (pr_status pr)),
      (''reviewers'', JList (map JStr (reviewers pr))),
      (''comments'', JList (map JStr (comments pr))),
      (''commits'', JList (map JStr (pr_commits pr))),
      (''merged_at'', case merged_at pr of None \<Rightarrow> JNull | Some m \<Rightarrow> JStr (dt_iso R m)),
      (''tags'', JList (map JStr (tags pr)))]"

text \<open>\<open>datetime.fromisoformat(data['merged_at']) if data['merged_at'] else None\<close>:
  any false value (\<open>None\<close>, the empty string) reads as not merged.\<close>

definition json_merged_at :: "'d runtime \<Rightarrow> json \<Rightarrow> 'd option result" where
  "json_merged_at R v =
     (if py_truthy v then rbind (json_str v) (\<lambda>s. rbind (dt_fromiso R s) (\<lambda>m. Inr (Some m)))
      else Inr None)"

text \<open>\<open>PullRequest.from_dict\<close>: the constructor reads six keys (and the clock, whose
  value is overwritten), then the remaining attributes are assigned in source order.\<close>

definition pr_from_dict :: "'d runtime \<Rightarrow> json \<Rightarrow> 'd pull_request result" where
  "pr_from_dict R data =
     rbind (json_field data ''id'' json_str) (\<lambda>i.
     rbind (json_field data ''title'' json_str) (\<lambda>t.
     rbind (json_field data ''description'' json_str) (\<lambda>d.
     rbind (json_field data ''author'' json_str) (\<lambda>a.
     rbind (json_field data ''source_branch'' json_str) (\<lambda>sb.
     rbind (json_field data ''target_branch'' json_str) (\<lambda>tb.
     rbind (json_field data ''created_at'' (\<lambda>v. rbind (json_str v) (dt_fromiso R))) (\<lambda>ca.
     rbind (json_field data ''status'' json_str) (\<lambda>st.
     rbind (json_field data ''reviewers'' json_str_list) (\<lambda>rs.
     rbind (json_field data ''comments'' json_str_list) (\<lambda>cs.
     rbind (json_field data ''commits'' json_str_list) (\<lambda>cms.
     rbind (json_field data ''merged_at'' (json_merged_at R)) (\<lambda>ma.
     rbind (json_field data ''tags'' json_str_list) (\<lambda>tg.
       Inr \<lparr>pr_id = i, title = t, description = d, author = a, source_branch = sb,
            target_branch = tb, created_at = ca, pr_status = st, reviewers = rs,
            comments = cs, pr_commits = cms, merged_at = ma, tags = tg\<rparr>)))))))))))))"

section \<open>Lemmas\<close>

lemma pr_inv_step: "pr_inv pr \<Longrightarrow> pr_inv (pr_step op pr)"
  by (cases op)
     (simp_all add: pr_inv_def add_reviewer_def add_comment_def approve_def reject_def merge_def add_tag_def)

lemma pr_reachable_inv: "pr_reachable pr \<Longrightarrow> pr_inv pr"
proof (induction rule: pr_reachable.induct)
  case (created i t d a sb tb now)
  show ?case by (simp add: pr_inv_def new_pull_request_def)
next
  case (step pr op)
  from step.IH show ?case by (rule pr_inv_step)
qed

text \<open>C13: every pull request the program can produce that has status \<open>merged\<close>
  carries a merge time: \<open>merge\<close> is the only method that sets the status and it
  stamps \<open>merged_at\<close>, which no method clears.\<close>

theorem pr_merged_has_timestamp:
  assumes "pr_reachable pr" and "pr_status pr = ''merged''"
  shows "merged_at pr \<noteq> None"
  using pr_reachable_inv [OF assms(1)] assms(2) by (simp add: pr_inv_def)

lemma pr_from_to_dict:
  assumes "iso_roundtrip R" and "\<And>m. merged_at pr = Some m \<Longrightarrow> dt_iso R m \<noteq> []"
  shows "pr_from_dict R (pr_to_dict R pr) = Inr pr"
proof -
  have "json_merged_at R (case merged_at pr of None \<Rightarrow> JNull | Some m \<Rightarrow> JStr (dt_iso R m)) =
      Inr (merged_at pr)"
    using assms by (cases "merged_at pr") (simp_all add: json_merged_at_def)
  with assms(1) show ?thesis by (simp add: pr_from_dict_def pr_to_dict_def)
qed

text \<open>C14: \<open>PullRequest.from_dict(pr.to_dict())\<close> restores every field, provided no
  merge time prints as the empty string (which \<open>if data['merged_at']\<close> would read as
  not merged).\<close>

theorem pr_roundtrip:
  assumes "iso_roundtrip R" and "\<And>m. merged_at pr = Some m \<Longrightarrow> dt_iso R m \<noteq> []"
  shows "pr_from_dict R (pr_to_dict R pr) = Inr pr"
  using assms by (rule pr_from_to_dict)

theorem pr_merged_has_timestamp_witness:
  "pr_reachable (merge ''t1'' (new_pull_request ''PR-1'' ''Fix bug'' ''desc'' ''alice'' ''fix-1'' ''main'' ''t0'')) \<and> pr_status (merge ''t1'' (new_pull_request ''PR-1'' ''Fix bug'' ''desc'' ''alice'' ''fix-1'' ''main'' ''t0'')) = ''merged'' \<and> merged_at (merge ''t1'' (new_pull_request ''PR-1'' ''Fix bug'' ''desc'' ''alice'' ''fix-1'' ''main'' ''t0'')) \<noteq> None"
proof -
  have h1: "pr_reachable (merge ''t1'' (new_pull_request ''PR-1'' ''Fix bug'' ''desc'' ''alice'' ''fix-1'' ''main'' ''t0''))"
    using pr_reachable.step [OF pr_reachable.created, of "Merge ''t1''"] by simp
  have h2: "pr_status (merge ''t1'' (new_pull_request ''PR-1'' ''Fix bug'' ''desc'' ''alice'' ''fix-1'' ''main'' ''t0'')) = ''merged''" by (simp add: merge_def)
  show ?thesis using h1 h2 pr_merged_has_timestamp [OF h1 h2] by blast
qed

theorem pr_roundtrip_witness:
  "iso_roundtrip (\<lparr>sha1 = (\<lambda>s. s), dt_str = (\<lambda>d. d), dt_iso = (\<lambda>d. d), dt_fromiso = Inr\<rparr> :: string runtime) \<and> merged_at (merge ''t1'' (new_pull_request ''PR-1'' ''Fix bug'' ''desc'' ''alice'' ''fix-1'' ''main'' ''t0'')) = Some ''t1'' \<and>
   dt_iso (\<lparr>sha1 = (\<lambda>s. s), dt_str = (\<lambda>d. d), dt_iso = (\<lambda>d. d), dt_fromiso = Inr\<rparr> :: string runtime) ''t1'' \<noteq> [] \<and>
   pr_from_dict (\<lparr>sha1 = (\<lambda>s. s), dt_str = (\<lambda>d. d), dt_iso = (\<lambda>d. d), dt_fromiso = Inr\<rparr> :: string runtime) (pr_to_dict \<lparr>sha1 = (\<lambda>s. s), dt_str = (\<lambda>d. d), dt_iso = (\<lambda>d. d), dt_fromiso = Inr\<rparr> (merge ''t1'' (new_pull_request ''PR-1'' ''Fix bug'' ''desc'' ''alice'' ''fix-1'' ''main'' ''t0''))) = Inr (merge ''t1'' (new_pull_request ''PR-1'' ''Fix bug'' ''desc'' ''alice'' ''fix-1'' ''main'' ''t0''))"
proof -
  have h1: "iso_roundtrip (\<lparr>sha1 = (\<lambda>s. s), dt_str = (\<lambda>d. d), dt_iso = (\<lambda>d. d), dt_fromiso = Inr\<rparr> :: string runtime)" by (simp add: iso_roundtrip_def)
  have h2: "\<And>m. merged_at (merge ''t1'' (new_pull_request ''PR-1'' ''Fix bug'' ''desc'' ''alice'' ''fix-1'' ''main'' ''t0'')) = Some m \<Longrightarrow> dt_iso (\<lparr>sha1 = (\<lambda>s. s), dt_str = (\<lambda>d. d), dt_iso = (\<lambda>d. d), dt_fromiso = Inr\<rparr> :: string runtime) m \<noteq> []"
    by (simp add: merge_def)
  have h3: "pr_from_dict (\<lparr>sha1 = (\<lambda>s. s), dt_str = (\<lambda>d. d), dt_iso = (\<lambda>d. d), dt_fromiso = Inr\<rparr> :: string runtime) (pr_to_dict \<lparr>sha1 = (\<lambda>s. s), dt_str = (\<lambda>d. d), dt_iso = (\<lambda>d. d), dt_fromiso = Inr\<rparr> (merge ''t1'' (new_pull_request ''PR-1'' ''Fix bug'' ''desc'' ''alice'' ''fix-1'' ''main'' ''t0''))) = Inr (merge ''t1'' (new_pull_request ''PR-1'' ''Fix bug'' ''desc'' ''alice'' ''fix-1'' ''main'' ''t0''))"
    by (rule pr_roundtrip [OF h1 h2])
  have h4: "merged_at (merge ''t1'' (new_pull_request ''PR-1'' ''Fix bug'' ''desc'' ''alice'' ''fix-1'' ''main'' ''t0'')) = Some ''t1''" by (simp add: merge_def)
  have h5: "dt_iso (\<lparr>sha1 = (\<lambda>s. s), dt_str = (\<lambda>d. d), dt_iso = (\<lambda>d. d), dt_fromiso = Inr\<rparr> :: string runtime) ''t1'' \<noteq> []" by simp
  show ?thesis using h1 h3 h4 h5 by blast
qed

end
