(* ===== verification/PRQueue.thy ===== *)
theory PRQueue
  imports PullRequest
begin

text \<open>
  The pull-request queue of \<open>src/proyecto1/pull_request.py\<close> (class
  \<open>PullRequestQueue\<close>): a list used as a FIFO queue and the id counter \<open>next_id\<close>
  (a Python int). \<open>create_pr\<close> allocates \<open>"PR-" + str(next_id)\<close> and enqueues,
  \<open>process_next_pr\<close> dequeues, \<open>get_next_pr\<close> peeks, \<open>get_pr_by_id\<close> and
  \<open>list_prs\<close> search, \<open>clear_queue\<close> empties; \<open>save_to_file\<close> and
  \<open>load_from_file\<close> write and read the JSON list (the file's decoded contents, or the
  exception \<open>json.load\<close> or \<open>open\<close> raised, are the input of \<open>load_from_file\<close>).
  \<open>load_from_file\<close> can raise after it has replaced the queue, so it returns the
  state after the call together with the exception it raised, if any.
\<close>

section \<open>State and operations\<close>

record 'd pr_queue =
  queue :: "'d pull_request list"
  next_id :: int

definition new_queue :: "'d pr_queue" where
  "new_queue = \<lparr>queue = [], next_id = 1\<rparr>"

definition create_pr ::
  "'d \<Rightarrow> string \<Rightarrow> string \<Rightarrow> string \<Rightarrow> string \<Rightarrow> string \<Rightarrow> 'd pr_queue \<Rightarrow>
   'd pr_queue \<times> 'd pull_request" where
  "create_pr now t d a sb tb q =
     (let pr = new_pull_request (''PR-'' @ py_str_int (next_id q)) t d a sb tb now
      in (q\<lparr>next_id := next_id q + 1, queue := queue q @ [pr]\<rparr>, pr))"

definition get_next_pr :: "'d pr_queue \<Rightarrow> 'd pull_request option" where
  "get_next_pr q = (case queue q of [] \<Rightarrow> None | pr # _ \<Rightarrow> Some pr)"

definition process_next_pr :: "'d pr_queue \<Rightarrow> 'd pr_queue \<times> 'd pull_request option" where
  "process_next_pr q =
     (case queue q of [] \<Rightarrow> (q, None) | pr # rest \<Rightarrow> (q\<lparr>queue := rest\<rparr>, Some pr))"

definition get_pr_by_id :: "string \<Rightarrow> 'd pr_queue \<Rightarrow> 'd pull_request option" where
  "get_pr_by_id i q = find (\<lambda>pr. pr_id pr = i) (queue q)"

text \<open>\<open>if status:\<close> is false for \<open>None\<close> and for the empty string.\<close>

definition list_prs :: "string option \<Rightarrow> 'd pr_queue \<Rightarrow> 'd pull_request list" where
  "list_prs st q =
     (case st of
        Some s \<Rightarrow> if s \<noteq> [] then filter (\<lambda>pr. pr_status pr = s) (queue q) else queue q
      | None \<Rightarrow> queue q)"

definition clear_queue :: "'d pr_queue \<Rightarrow> 'd pr_queue" where
  "clear_queue q = q\<lparr>queue := []\<rparr>"

definition save_to_file :: "'d runtime \<Rightarrow> 'd pr_queue \<Rightarrow> json" where
  "save_to_file R q = JList (map (pr_to_dict R) (queue q))"

text \<open>\<open>int(pr_id.split('-')[1])\<close>.\<close>

definition pr_id_number :: "string \<Rightarrow> int result" where
  "pr_id_number s = rbind (py_index (py_split CHR ''-'' s) 1) py_int"

definition load_from_file ::
  "'d runtime \<Rightarrow> json result \<Rightarrow> 'd pr_queue \<Rightarrow> 'd pr_queue \<times> py_error option" where
  "load_from_file R file q =
     (case rbind file (\<lambda>data. rbind (json_iter data) (rmap (pr_from_dict R))) of
        Inl (FileNotFoundError f) \<Rightarrow> (q, None)
      | Inl e \<Rightarrow> (q, Some e)
      | Inr prs \<Rightarrow>
          let q1 = q\<lparr>queue := prs\<rparr>
          in if prs = [] then (q1, None)
             else (case pr_id_number (pr_id (last prs)) of
                     Inl e \<Rightarrow> (q1, Some e)
                   | Inr last_id \<Rightarrow> (q1\<lparr>next_id := last_id + 1\<rparr>, None)))"

section \<open>Runs of queue operations\<close>

datatype 'd queue_op =
    CreatePR 'd string string string string string
  | ProcessNext
  | ClearQueue

fun queue_step :: "'d queue_op \<Rightarrow> 'd pr_queue \<Rightarrow> 'd pr_queue" where
  "queue_step (CreatePR now t d a sb tb) q = fst (create_pr now t d a sb tb q)"
| "queue_step ProcessNext q = fst (process_next_pr q)"
| "queue_step ClearQueue q = clear_queue q"

fun queue_run :: "'d queue_op list \<Rightarrow> 'd pr_queue \<Rightarrow> 'd pr_queue" where
  "queue_run [] q = q"
| "queue_run (op # ops) q = queue_run ops (queue_step op q)"

text \<open>A caller that creates pull requests from a list of requests, and one that
  processes the queue \<open>n\<close> times, collecting what \<open>process_next_pr\<close> returns.\<close>

fun create_all ::
  "'d \<Rightarrow> (string \<times> string \<times> string \<times> string \<times> string) list \<Rightarrow> 'd pr_queue \<Rightarrow>
   'd pr_queue \<times> 'd pull_request list" where
  "create_all now [] q = (q, [])"
| "create_all now ((t, d, a, sb, tb) # reqs) q =
     (let (q1, pr) = create_pr now t d a sb tb q;
          (q2, prs) = create_all now reqs q1
      in (q2, pr # prs))"

fun process_n :: "nat \<Rightarrow> 'd pr_queue \<Rightarrow> 'd pr_queue \<times> 'd pull_request option list" where
  "process_n 0 q = (q, [])"
| "process_n (Suc n) q =
     (let (q1, r) = process_next_pr q;
          (q2, rs) = process_n n q1
      in (q2, r # rs))"

section \<open>Invariant\<close>

text \<open>The number of an id \<open>"PR-n"\<close> as the queue reads it back.\<close>

definition id_num :: "string \<Rightarrow> nat" where
  "id_num s = digits_value 0 (drop 3 s)"

text \<open>Every id is \<open>"PR-" + str(n)\<close>, the numbers increase along the queue and stay
  below the counter, and the last one is the counter's predecessor.\<close>

definition queue_inv :: "'d pr_queue \<Rightarrow> bool" where
  "queue_inv q \<longleftrightarrow>
     1 \<le> next_id q \<and>
     list_all (\<lambda>pr. pr_id pr = ''PR-'' @ string_of_nat (id_num (pr_id pr))) (queue q) \<and>
     sorted_wrt (<) (map (\<lambda>pr. id_num (pr_id pr)) (queue q)) \<and>
     list_all (\<lambda>pr. int (id_num (pr_id pr)) < next_id q) (queue q) \<and>
     (queue q \<noteq> [] \<longrightarrow> int (id_num (pr_id (last (queue q)))) + 1 = next_id q)"

section \<open>Lemmas\<close>

lemma id_num_Cons3 [simp]: "id_num (a # b # c # s) = digits_value 0 s"
  by (simp add: id_num_def)

lemma pr_id_number_pr [simp]: "pr_id_number (''PR-'' @ string_of_nat n) = Inr (int n)"
proof -
  have "py_split CHR ''-'' (''PR-'' @ string_of_nat n) = [''PR'', string_of_nat n]"
    using py_split_append_sep [of "CHR ''-''" "''PR''" "string_of_nat n"] by simp
  then show ?thesis by (simp add: pr_id_number_def py_index_def)
qed

lemma create_pr_id:
  "1 \<le> next_id q \<Longrightarrow> pr_id (snd (create_pr now t d a sb tb q)) = ''PR-'' @ string_of_nat (nat (next_id q))"
  by (simp add: create_pr_def Let_def new_pull_request_def py_str_int_nonneg)

lemma queue_inv_create:
  assumes "queue_inv q"
  shows "queue_inv (fst (create_pr now t d a sb tb q))"
proof -
  let ?n = "nat (next_id q)"
  have pos: "1 \<le> next_id q" using assms by (simp add: queue_inv_def)
  then have n: "int ?n = next_id q" by simp
  have "sorted_wrt (<) (map (\<lambda>pr. id_num (pr_id pr)) (queue q) @ [?n])"
    using assms n by (auto simp: queue_inv_def sorted_wrt_append list_all_iff)
  with assms pos n show ?thesis
    by (auto simp: queue_inv_def create_pr_def Let_def new_pull_request_def py_str_int_nonneg
             list_all_iff)
qed

lemma queue_inv_process:
  assumes "queue_inv q"
  shows "queue_inv (fst (process_next_pr q))"
proof (cases "queue q")
  case Nil
  with assms show ?thesis by (simp add: process_next_pr_def)
next
  case (Cons pr rest)
  with assms show ?thesis
    by (auto simp: queue_inv_def process_next_pr_def)
qed

lemma queue_inv_clear: "queue_inv q \<Longrightarrow> queue_inv (clear_queue q)"
  by (simp add: queue_inv_def clear_queue_def)

lemma queue_inv_step: "queue_inv q \<Longrightarrow> queue_inv (queue_step op q)"
  by (cases op) (simp_all add: queue_inv_create queue_inv_process queue_inv_clear)

lemma queue_inv_run: "queue_inv q \<Longrightarrow> queue_inv (queue_run ops q)"
  by (induction ops arbitrary: q) (simp_all add: queue_inv_step)

lemma queue_inv_new [simp]: "queue_inv new_queue"
  by (simp add: queue_inv_def new_queue_def)

lemma queue_inv_distinct_ids:
  assumes "queue_inv q"
  shows "distinct (map pr_id (queue q))"
proof -
  have "distinct (map (\<lambda>pr. id_num (pr_id pr)) (queue q))"
    using assms by (simp add: queue_inv_def strict_sorted_iff)
  then have "distinct (map id_num (map pr_id (queue q)))" by (simp add: comp_def)
  then have "distinct (map pr_id (queue q)) \<and> inj_on id_num (set (map pr_id (queue q)))"
    by (simp only: distinct_map)
  then show ?thesis by (rule conjunct1)
qed

text \<open>C16: in every queue reached from a new \<open>PullRequestQueue\<close> by \<open>create_pr\<close>,
  \<open>process_next_pr\<close> and \<open>clear_queue\<close> calls, the ids are distinct and every id's
  number is below \<open>next_id\<close>.\<close>

theorem queue_ids_unique_below_counter:
  "distinct (map pr_id (queue (queue_run ops new_queue))) \<and>
   list_all (\<lambda>pr. int (id_num (pr_id pr)) < next_id (queue_run ops new_queue)) (queue (queue_run ops new_queue))"
  using queue_inv_run [OF queue_inv_new, of ops] queue_inv_distinct_ids
  by (simp add: queue_inv_def)

lemma create_all_queue:
  "queue (fst (create_all now reqs q)) = queue q @ snd (create_all now reqs q)"
proof (induction reqs arbitrary: q)
  case Nil
  show ?case by simp
next
  case (Cons r reqs)
  obtain t d a sb tb where r: "r = (t, d, a, sb, tb)" by (cases r) auto
  let ?c = "create_pr now t d a sb tb q"
  have "create_all now (r # reqs) q =
      (fst (create_all now reqs (fst ?c)), snd ?c # snd (create_all now reqs (fst ?c)))"
    by (simp add: r case_prod_beta Let_def)
  moreover have "queue (fst ?c) = queue q @ [snd ?c]" by (simp add: create_pr_def Let_def)
  ultimately show ?case using Cons.IH [of "fst ?c"] by simp
qed

lemma process_n_queue:
  "process_n (length (queue q)) q = (q\<lparr>queue := []\<rparr>, map Some (queue q))"
proof (induction "queue q" arbitrary: q)
  case Nil
  then show ?case by simp
next
  case (Cons pr rest)
  have "process_next_pr q = (q\<lparr>queue := rest\<rparr>, Some pr)"
    using Cons.hyps(2) by (simp add: process_next_pr_def flip: Cons.hyps(2))
  with Cons.hyps(1) [of "q\<lparr>queue := rest\<rparr>"] Cons.hyps(2) show ?case
    by (simp flip: Cons.hyps(2))
qed

text \<open>C15: the queue is FIFO: creating pull requests appends them, and processing the
  queue as many times as it is long returns its old contents and then the new pull
  requests, in creation order, leaving it empty.\<close>

theorem fifo_order:
  "case create_all now reqs q of (q1, prs) \<Rightarrow>
     queue q1 = queue q @ prs \<and>
     process_n (length (queue q1)) q1 = (q1\<lparr>queue := []\<rparr>, map Some (queue q @ prs))"
proof (cases "create_all now reqs q")
  case (Pair q1 prs)
  with create_all_queue [of now reqs q] have "queue q1 = queue q @ prs" by simp
  with Pair show ?thesis by (simp add: process_n_queue)
qed

text \<open>C17: in a queue satisfying the invariant, \<open>get_pr_by_id\<close> finds every queued
  pull request by its id (ids are unique, so the first match is the one).\<close>

theorem get_pr_by_id_finds:
  assumes "queue_inv q" and "pr \<in> set (queue q)"
  shows "get_pr_by_id (pr_id pr) q = Some pr"
proof -
  have "distinct (map pr_id (queue q))" using assms(1) by (rule queue_inv_distinct_ids)
  with assms(2) show ?thesis by (simp add: get_pr_by_id_def find_key_distinct)
qed

text \<open>C20: the id parser of \<open>load_from_file\<close>, \<open>int(pr_id.split('-')[1])\<close>,
  inverts the id printer \<open>"PR-" + str(n)\<close> on every non-negative counter.\<close>

theorem pr_id_number_roundtrip:
  assumes "0 \<le> n"
  shows "pr_id_number (''PR-'' @ py_str_int n) = Inr n"
  using assms pr_id_number_pr [of "nat n"] by (simp add: py_str_int_nonneg)

text \<open>C18: saving a non-empty queue and loading the file gives back the queue and the
  counter: the counter is recomputed from the last id, which the invariant makes the
  counter's predecessor.\<close>

theorem save_load_roundtrip:
  assumes "iso_roundtrip R" and "queue_inv q" and "queue q \<noteq> []"
    and "\<forall>pr \<in> set (queue q). \<forall>m. merged_at pr = Some m \<longrightarrow> dt_iso R m \<noteq> []"
  shows "load_from_file R (Inr (save_to_file R q)) q' = (q, None)"
proof -
  have prs: "rmap (pr_from_dict R) (map (pr_to_dict R) (queue q)) = Inr (queue q)"
    using assms(1,4) by (intro rmap_inverse pr_from_to_dict) auto
  let ?l = "last (queue q)"
  from assms(2,3) have l: "pr_id ?l = ''PR-'' @ string_of_nat (id_num (pr_id ?l))"
    and nid: "int (id_num (pr_id ?l)) + 1 = next_id q"
    by (auto simp: queue_inv_def list_all_iff)
  have "pr_id_number (pr_id ?l) = Inr (int (id_num (pr_id ?l)))"
    by (subst l) (rule pr_id_number_pr)
  with prs assms(3) nid show ?thesis
    by (cases q, cases q') (simp add: load_from_file_def save_to_file_def Let_def)
qed

text \<open>C19: the counter is not persisted. For every queue whose list is empty, whatever
  its counter (after every pull request has been processed it is one more than the last
  id issued), saving it and loading the file in a fresh queue gives back \<open>next_id = 1\<close>,
  so the next \<open>create_pr\<close> issues \<open>PR-1\<close> again.\<close>

theorem id_reused_after_reload:
  assumes "queue q = []"
  shows "fst (load_from_file R (Inr (save_to_file R q)) new_queue) = new_queue \<and>
         snd (load_from_file R (Inr (save_to_file R q)) new_queue) = None \<and>
         pr_id (snd (create_pr now t d a sb tb (fst (load_from_file R (Inr (save_to_file R q)) new_queue)))) =
           ''PR-1''"
  using assms
  by (simp add: save_to_file_def load_from_file_def new_queue_def create_pr_def Let_def
      new_pull_request_def py_str_int_def string_of_nat.simps)

theorem get_pr_by_id_finds_witness:
  "queue_inv (fst (create_pr ''t0'' ''Fix bug'' ''desc'' ''alice'' ''fix-1'' ''main'' (new_queue :: string pr_queue))) \<and> snd (create_pr ''t0'' ''Fix bug'' ''desc'' ''alice'' ''fix-1'' ''main'' (new_queue :: string pr_queue)) \<in> set (queue (fst (create_pr ''t0'' ''Fix bug'' ''desc'' ''alice'' ''fix-1'' ''main'' (new_queue :: string pr_queue)))) \<and>
   get_pr_by_id (pr_id (snd (create_pr ''t0'' ''Fix bug'' ''desc'' ''alice'' ''fix-1'' ''main'' (new_queue :: string pr_queue)))) (fst (create_pr ''t0'' ''Fix bug'' ''desc'' ''alice'' ''fix-1'' ''main'' (new_queue :: string pr_queue))) = Some (snd (create_pr ''t0'' ''Fix bug'' ''desc'' ''alice'' ''fix-1'' ''main'' (new_queue :: string pr_queue)))"
proof -
  have h1: "queue_inv (fst (create_pr ''t0'' ''Fix bug'' ''desc'' ''alice'' ''fix-1'' ''main'' (new_queue :: string pr_queue)))"
    by (simp add: queue_inv_def create_pr_def new_queue_def Let_def new_pull_request_def py_str_int_def
        string_of_nat.simps)
  have h2: "snd (create_pr ''t0'' ''Fix bug'' ''desc'' ''alice'' ''fix-1'' ''main'' (new_queue :: string pr_queue)) \<in> set (queue (fst (create_pr ''t0'' ''Fix bug'' ''desc'' ''alice'' ''fix-1'' ''main'' (new_queue :: string pr_queue))))" by (simp add: create_pr_def new_queue_def Let_def)
  show ?thesis using h1 h2 get_pr_by_id_finds [OF h1 h2] by blast
qed

theorem pr_id_number_roundtrip_witness:
  "0 \<le> (12::int) \<and> pr_id_number (''PR-'' @ py_str_int 12) = Inr 12"
proof -
  have h: "0 \<le> (12::int)" by simp
  show ?thesis using h pr_id_number_roundtrip [OF h] by blast
qed

theorem save_load_roundtrip_witness:
  "iso_roundtrip (\<lparr>sha1 = (\<lambda>s. s), dt_str = (\<lambda>d. d), dt_iso = (\<lambda>d. d), dt_fromiso = Inr\<rparr> :: string runtime) \<and> queue_inv (fst (create_pr ''t0'' ''Fix bug'' ''desc'' ''alice'' ''fix-1'' ''main'' (new_queue :: string pr_queue))) \<and> queue (fst (create_pr ''t0'' ''Fix bug'' ''desc'' ''alice'' ''fix-1'' ''main'' (new_queue :: string pr_queue))) \<noteq> [] \<and>
   list_all (\<lambda>pr. merged_at pr = None) (queue (fst (create_pr ''t0'' ''Fix bug'' ''desc'' ''alice'' ''fix-1'' ''main'' (new_queue :: string pr_queue)))) \<and>
   load_from_file (\<lparr>sha1 = (\<lambda>s. s), dt_str = (\<lambda>d. d), dt_iso = (\<lambda>d. d), dt_fromiso = Inr\<rparr> :: string runtime) (Inr (save_to_file \<lparr>sha1 = (\<lambda>s. s), dt_str = (\<lambda>d. d), dt_iso = (\<lambda>d. d), dt_fromiso = Inr\<rparr> (fst (create_pr ''t0'' ''Fix bug'' ''desc'' ''alice'' ''fix-1'' ''main'' (new_queue :: string pr_queue))))) new_queue = (fst (create_pr ''t0'' ''Fix bug'' ''desc'' ''alice'' ''fix-1'' ''main'' (new_queue :: string pr_queue)), None)"
proof -
  have h1: "iso_roundtrip (\<lparr>sha1 = (\<lambda>s. s), dt_str = (\<lambda>d. d), dt_iso = (\<lambda>d. d), dt_fromiso = Inr\<rparr> :: string runtime)" by (simp add: iso_roundtrip_def)
  have h2: "queue_inv (fst (create_pr ''t0'' ''Fix bug'' ''desc'' ''alice'' ''fix-1'' ''main'' (new_queue :: string pr_queue)))"
    by (simp add: queue_inv_def create_pr_def new_queue_def Let_def new_pull_request_def py_str_int_def
        string_of_nat.simps)
  have h3: "queue (fst (create_pr ''t0'' ''Fix bug'' ''desc'' ''alice'' ''fix-1'' ''main'' (new_queue :: string pr_queue))) \<noteq> []" by (simp add: create_pr_def Let_def)
  have h4: "\<forall>pr \<in> set (queue (fst (create_pr ''t0'' ''Fix bug'' ''desc'' ''alice'' ''fix-1'' ''main'' (new_queue :: string pr_queue)))). \<forall>m. merged_at pr = Some m \<longrightarrow> dt_iso (\<lparr>sha1 = (\<lambda>s. s), dt_str = (\<lambda>d. d), dt_iso = (\<lambda>d. d), dt_fromiso = Inr\<rparr> :: string runtime) m \<noteq> []"
    by (simp add: create_pr_def new_queue_def Let_def new_pull_request_def)
  have h5: "list_all (\<lambda>pr. merged_at pr = None) (queue (fst (create_pr ''t0'' ''Fix bug'' ''desc'' ''alice'' ''fix-1'' ''main'' (new_queue :: string pr_queue))))"
    by (simp add: create_pr_def new_queue_def Let_def new_pull_request_def)
  show ?thesis using h1 h2 h3 h5 save_load_roundtrip [OF h1 h2 h3 h4] by blast
qed

theorem id_reused_after_reload_witness:
  "queue (fst (process_next_pr (fst (create_pr ''t0'' ''Fix bug'' ''desc'' ''alice'' ''fix-1'' ''main'' (new_queue :: string pr_queue))))) = [] \<and>
   next_id (fst (process_next_pr (fst (create_pr ''t0'' ''Fix bug'' ''desc'' ''alice'' ''fix-1'' ''main'' (new_queue :: string pr_queue))))) = 2 \<and>
   pr_id (snd (create_pr ''t0'' ''Fix bug'' ''desc'' ''alice'' ''fix-1'' ''main'' (new_queue :: string pr_queue))) = ''PR-1'' \<and>
   pr_id (snd (create_pr ''t1'' ''Other'' ''desc'' ''bob'' ''fix-2'' ''main''
     (fst (load_from_file (\<lparr>sha1 = (\<lambda>s. s), dt_str = (\<lambda>d. d), dt_iso = (\<lambda>d. d), dt_fromiso = Inr\<rparr> :: string runtime) (Inr (save_to_file (\<lparr>sha1 = (\<lambda>s. s), dt_str = (\<lambda>d. d), dt_iso = (\<lambda>d. d), dt_fromiso = Inr\<rparr> :: string runtime) (fst (process_next_pr (fst (create_pr ''t0'' ''Fix bug'' ''desc'' ''alice'' ''fix-1'' ''main'' (new_queue :: string pr_queue))))))) new_queue)))) = ''PR-1''"
proof -
  have h: "queue (fst (process_next_pr (fst (create_pr ''t0'' ''Fix bug'' ''desc'' ''alice'' ''fix-1'' ''main'' (new_queue :: string pr_queue))))) = []"
    by (simp add: process_next_pr_def create_pr_def new_queue_def Let_def)
  have "next_id (fst (process_next_pr (fst (create_pr ''t0'' ''Fix bug'' ''desc'' ''alice'' ''fix-1'' ''main'' (new_queue :: string pr_queue))))) = 2 \<and>
      pr_id (snd (create_pr ''t0'' ''Fix bug'' ''desc'' ''alice'' ''fix-1'' ''main'' (new_queue :: string pr_queue))) = ''PR-1''"
    by (simp add: process_next_pr_def create_pr_def new_queue_def Let_def new_pull_request_def
        py_str_int_def string_of_nat.simps)
  moreover have "pr_id (snd (create_pr ''t1'' ''Other'' ''desc'' ''bob'' ''fix-2'' ''main''
     (fst (load_from_file (\<lparr>sha1 = (\<lambda>s. s), dt_str = (\<lambda>d. d), dt_iso = (\<lambda>d. d), dt_fromiso = Inr\<rparr> :: string runtime) (Inr (save_to_file (\<lparr>sha1 = (\<lambda>s. s), dt_str = (\<lambda>d. d), dt_iso = (\<lambda>d. d), dt_fromiso = Inr\<rparr> :: string runtime) (fst (process_next_pr (fst (create_pr ''t0'' ''Fix bug'' ''desc'' ''alice'' ''fix-1'' ''main'' (new_queue :: string pr_queue))))))) new_queue)))) = ''PR-1''"
    using id_reused_after_reload [OF h, where R = "(\<lparr>sha1 = (\<lambda>s. s), dt_str = (\<lambda>d. d), dt_iso = (\<lambda>d. d), dt_fromiso = Inr\<rparr> :: string runtime)" and now = "''t1''" and t = "''Other''"
        and d = "''desc''" and a = "''bob''" and sb = "''fix-2''" and tb = "''main''"]
    by (elim conjE)
  ultimately show ?thesis using h by (intro conjI) simp_all
qed

end
