(* ===== verification/Staging.thy ===== *)
theory Staging
  imports Prelude
begin

text \<open>
  The staging area of \<open>src/proyecto1/staging.py\<close> (class \<open>StagingArea\<close>): a list of
  staged-file entries in insertion order. \<open>add_file\<close> reads the file from the
  file system (modelled as a map from paths to contents and modification times) and
  appends an entry, raising \<open>FileNotFoundError\<close> for a missing path; \<open>remove_file\<close>
  drops the first entry with the given name; \<open>get_files\<close>, \<open>clear\<close> and \<open>status\<close>
  read and reset the list. The method results (status messages) are a datatype.
\<close>

section \<open>State\<close>

text \<open>What \<open>os.path.exists\<close>, \<open>open(f, 'rb').read()\<close>, \<open>os.path.getsize\<close> and
  \<open>os.path.getmtime\<close> observe of one regular file.\<close>

record file_stat =
  fcontent :: string
  fmtime :: real

type_synonym filesystem = "string \<Rightarrow> file_stat option"

text \<open>The \<open>file_info\<close> dict of \<open>add_file\<close>; its nested \<open>metadata\<close> dict is flattened
  into the last two fields.\<close>

record staged_file =
  filename :: string
  file_status :: string
  checksum :: string
  file_size :: nat
  last_modified :: real

record staging_area =
  files :: "staged_file list"

definition new_staging :: staging_area where
  "new_staging = \<lparr>files = []\<rparr>"

datatype staging_msg = FileAdded string | FileRemoved string | NotInStaging string

datatype staging_report = NoStagedFiles | StagedListing "(string \<times> string) list"

section \<open>Operations\<close>

definition add_file ::
  "(string \<Rightarrow> string) \<Rightarrow> filesystem \<Rightarrow> string \<Rightarrow> string \<Rightarrow> staging_area \<Rightarrow>
   (staging_area \<times> staging_msg) result" where
  "add_file hash_fn fs fname st s =
     (case fs fname of
        None \<Rightarrow> Inl (FileNotFoundError fname)
      | Some fi \<Rightarrow>
          Inr (s\<lparr>files := files s @
                  [\<lparr>filename = fname, file_status = st, checksum = hash_fn (fcontent fi),
                    file_size = length (fcontent fi), last_modified = fmtime fi\<rparr>]\<rparr>,
               FileAdded fname))"

text \<open>The \<open>for i, file_info in enumerate(self.files)\<close> search of \<open>remove_file\<close>:
  \<open>None\<close> when the loop finishes without a match, otherwise the list after
  \<open>self.files.pop(i)\<close> at the first match.\<close>

fun remove_first :: "string \<Rightarrow> staged_file list \<Rightarrow> staged_file list option" where
  "remove_first f [] = None"
| "remove_first f (x # xs) =
     (if filename x = f then Some xs else map_option (Cons x) (remove_first f xs))"

definition remove_file :: "string \<Rightarrow> staging_area \<Rightarrow> staging_area \<times> staging_msg" where
  "remove_file f s =
     (case remove_first f (files s) of
        None \<Rightarrow> (s, NotInStaging f)
      | Some fs' \<Rightarrow> (s\<lparr>files := fs'\<rparr>, FileRemoved f))"

definition get_files :: "staging_area \<Rightarrow> string list" where
  "get_files s = map filename (files s)"

definition clear :: "staging_area \<Rightarrow> staging_area" where
  "clear s = s\<lparr>files := []\<rparr>"

definition status :: "staging_area \<Rightarrow> staging_report" where
  "status s =
     (if files s = [] then NoStagedFiles
      else StagedListing (map (\<lambda>f. (file_status f, filename f)) (files s)))"

section \<open>Lemmas\<close>

lemma remove_first_None_iff: "remove_first f xs = None \<longleftrightarrow> f \<notin> set (map filename xs)"
  by (induction xs) auto

lemma map_filename_remove_first:
  "remove_first f xs = Some ys \<Longrightarrow> map filename ys = remove1 f (map filename xs)"
  by (induction xs arbitrary: ys) (auto split: if_splits)

lemma remove_first_append_fresh:
  "f \<notin> set (map filename xs) \<Longrightarrow> remove_first f (xs @ [x]) =
     (if filename x = f then Some xs else None)"
  by (induction xs) auto

lemma get_files_clear [simp]: "get_files (clear s) = []"
  by (simp add: get_files_def clear_def)

text \<open>C3: \<open>add_file\<close> on an existing path appends exactly one entry for it, with the
  checksum, size and modification time of the file read, and reports the name.\<close>

theorem add_file_appends:
  assumes "fs fname = Some fi"
  shows "\<exists>s'. add_file hash_fn fs fname st s = Inr (s', FileAdded fname) \<and>
           get_files s' = get_files s @ [fname] \<and>
           files s' = files s @ [\<lparr>filename = fname, file_status = st,
              checksum = hash_fn (fcontent fi), file_size = length (fcontent fi),
              last_modified = fmtime fi\<rparr>]"
  using assms by (simp add: add_file_def get_files_def)

theorem add_file_appends_witness:
  "\<exists>s'. add_file rev (\<lambda>p. if p = ''README.md'' then Some \<lparr>fcontent = ''0123456789'', fmtime = 1\<rparr> else None)
            ''README.md'' ''A'' new_staging = Inr (s', FileAdded ''README.md'') \<and>
        get_files s' = get_files new_staging @ [''README.md''] \<and>
        files s' = files new_staging @ [\<lparr>filename = ''README.md'', file_status = ''A'',
              checksum = rev ''0123456789'', file_size = length ''0123456789'', last_modified = 1\<rparr>]"
proof -
  have h: "(\<lambda>p. if p = ''README.md'' then Some \<lparr>fcontent = ''0123456789'', fmtime = 1\<rparr> else None)
      ''README.md'' = Some \<lparr>fcontent = ''0123456789'', fmtime = (1::real)\<rparr>"
    by simp
  show ?thesis
    using add_file_appends [where fs = "\<lambda>p. if p = ''README.md'' then Some \<lparr>fcontent = ''0123456789'', fmtime = 1\<rparr> else None"
          and fname = "''README.md''" and hash_fn = rev and st = "''A''" and s = new_staging, OF h] by simp
qed

text \<open>C4: \<open>add_file\<close> on a path that does not exist raises \<open>FileNotFoundError\<close>
  and leaves the staging area untouched (no state is returned).\<close>

theorem add_file_missing:
  assumes "fs fname = None"
  shows "add_file hash_fn fs fname st s = Inl (FileNotFoundError fname)"
  using assms by (simp add: add_file_def)

theorem add_file_missing_witness:
  "add_file (\<lambda>c. c) (\<lambda>_. None) ''nope.txt'' ''A'' new_staging = Inl (FileNotFoundError ''nope.txt'')"
  by (rule add_file_missing) simp

text \<open>C5: \<open>remove_file\<close> acts on the staged file names as the list function
  \<^const>\<open>remove1\<close> (drop the first occurrence) and reports whether it found one.\<close>

theorem remove_file_remove1:
  "get_files (fst (remove_file f s)) = remove1 f (get_files s) \<and>
   snd (remove_file f s) = (if f \<in> set (get_files s) then FileRemoved f else NotInStaging f)"
proof (cases "remove_first f (files s)")
  case None
  then have "f \<notin> set (get_files s)"
    using remove_first_None_iff [of f "files s"] by (simp add: get_files_def)
  with None show ?thesis
    by (simp add: remove_file_def remove1_idem)
next
  case (Some ys)
  then have "f \<in> set (get_files s)"
    using remove_first_None_iff [of f "files s"] by (auto simp: get_files_def)
  with Some show ?thesis
    by (simp add: remove_file_def get_files_def map_filename_remove_first)
qed

text \<open>C6: adding a file whose name is not staged and then removing it finds the entry
  \<open>add_file\<close> appended, reports it removed and gives back the staging area as it was.\<close>

theorem add_then_remove:
  assumes "fname \<notin> set (get_files s)"
    and "add_file hash_fn fs fname st s = Inr (s', m)"
  shows "remove_file fname s' = (s, FileRemoved fname)"
  using assms
  by (auto simp: add_file_def remove_file_def get_files_def remove_first_append_fresh
           split: option.splits)

theorem add_then_remove_witness:
  "''a.txt'' \<notin> set (get_files new_staging) \<and>
   add_file (\<lambda>c. c) (\<lambda>_. Some \<lparr>fcontent = ''x'', fmtime = 0\<rparr>) ''a.txt'' ''A'' new_staging =
     Inr (\<lparr>files = [\<lparr>filename = ''a.txt'', file_status = ''A'', checksum = ''x'', file_size = 1, last_modified = 0\<rparr>]\<rparr>, FileAdded ''a.txt'') \<and>
   remove_file ''a.txt'' \<lparr>files = [\<lparr>filename = ''a.txt'', file_status = ''A'', checksum = ''x'', file_size = 1, last_modified = 0\<rparr>]\<rparr> = (new_staging, FileRemoved ''a.txt'')"
proof -
  have h1: "''a.txt'' \<notin> set (get_files new_staging)"
    by (simp add: get_files_def new_staging_def)
  have h2: "add_file (\<lambda>c. c) (\<lambda>_. Some \<lparr>fcontent = ''x'', fmtime = 0\<rparr>) ''a.txt'' ''A'' new_staging =
     Inr (\<lparr>files = [\<lparr>filename = ''a.txt'', file_status = ''A'', checksum = ''x'', file_size = 1, last_modified = 0\<rparr>]\<rparr>, FileAdded ''a.txt'')"
    by (simp add: add_file_def new_staging_def)
  show ?thesis using h1 h2 add_then_remove [OF h1 h2] by simp
qed

end
