(* ===== verification/Commit.thy ===== *)
theory Commit
  imports Prelude
begin

text \<open>
  Commits of \<open>src/proyecto1/commit.py\<close>: the record \<open>Commit\<close> with its
  \<open>__str__\<close> and its \<open>to_dict\<close>/\<open>from_dict\<close> JSON round trip, the linked list \<open>CommitHistory\<close>
  (\<open>add_commit\<close>, \<open>get_history\<close>), and the history traversal of
  \<open>GitLogCommand.execute\<close> (\<open>src/proyecto1/commands.py\<close>), which follows
  \<open>parent_hash\<close> links through a repository's commit store with no bound; it is a
  \<open>partial_function (option)\<close>, \<open>None\<close> meaning that the loop never ends.
\<close>

section \<open>Commits\<close>

text \<open>The field \<open>files\<close> of \<open>Commit\<close> is called \<open>commit_files\<close> here, since the
  staging area already has a field \<open>files\<close>.\<close>

record 'd commit =
  hash :: string
  date :: 'd
  author_email :: string
  message :: string
  parent_hash :: "string option"
  commit_files :: "string list"
  branch :: string

text \<open>\<open>Commit.__str__\<close>; \<open>{self.date}\<close> is \<open>str(datetime)\<close>.\<close>

definition commit_str :: "'d runtime \<Rightarrow> 'd commit \<Rightarrow> string" where
  "commit_str R c =
     ''Commit: '' @ take 6 (hash c) @ py_nl @
     ''Author: '' @ author_email c @ py_nl @
     ''Date:   '' @ dt_str R (date c) @ py_nl @
     ''Branch: '' @ branch c @ py_nl @
     py_nl @ ''    '' @ message c @ py_nl"

definition commit_to_dict :: "'d runtime \<Rightarrow> 'd commit \<Rightarrow> json" where
  "commit_to_dict R c = JObj
     [(''hash'', JStr (hash c)),
      (''date'', JStr (dt_iso R (date c))),
      (''author_email'', JStr (author_email c)),
      (''message'', JStr (message c)),
      (''parent_hash'', opt_json (parent_hash c)),
      (''files'', JList (map JStr (commit_files c))),
      (''branch'', JStr (branch c))]"

text \<open>\<open>Commit.from_dict\<close>: the constructor arguments are evaluated left to right, so
  the first missing key (or malformed date) is the exception raised.\<close>

definition commit_from_dict :: "'d runtime \<Rightarrow> json \<Rightarrow> 'd commit result" where
  "commit_from_dict R data =
     rbind (json_field data ''hash'' json_str) (\<lambda>h.
     rbind (json_field data ''date'' (\<lambda>v. rbind (json_str v) (dt_fromiso R))) (\<lambda>d.
     rbind (json_field data ''author_email'' json_str) (\<lambda>a.
     rbind (json_field data ''message'' json_str) (\<lambda>m.
     rbind (json_field data ''parent_hash'' json_opt_str) (\<lambda>p.
     rbind (json_field data ''files'' json_str_list) (\<lambda>fs.
     rbind (json_field data ''branch'' json_str) (\<lambda>b.
       Inr \<lparr>hash = h, date = d, author_email = a, message = m, parent_hash = p,
            commit_files = fs, branch = b\<rparr>)))))))"

section \<open>CommitHistory\<close>

text \<open>\<open>if current.parent_hash\<close>: \<open>None\<close> and the empty string are false.\<close>

definition parent_link :: "string option \<Rightarrow> string option" where
  "parent_link p = (case p of None \<Rightarrow> None | Some h \<Rightarrow> if h = [] then None else Some h)"

record 'd commit_history =
  hist_head :: "'d commit option"

definition new_history :: "'d commit_history" where
  "new_history = \<lparr>hist_head = None\<rparr>"

text \<open>\<open>add_commit\<close> overwrites the parent of the commit it is given with the current
  head's hash and makes it the head.\<close>

definition add_commit :: "'d commit \<Rightarrow> 'd commit_history \<Rightarrow> 'd commit_history" where
  "add_commit c h =
     h\<lparr>hist_head := Some (c\<lparr>parent_hash := map_option hash (hist_head h)\<rparr>)\<rparr>"

text \<open>
  The loop of \<open>get_history\<close>, with the parent lookup \<open>self.commits.get(...)\<close> as a
  parameter: the loop appends the current commit, then looks its parent up when the
  parent link is set, and stops at \<open>max_commits\<close> iterations.
\<close>

function history_loop ::
  "(string \<Rightarrow> 'd commit option result) \<Rightarrow> int \<Rightarrow> int \<Rightarrow> 'd commit option \<Rightarrow>
   'd commit list \<Rightarrow> 'd commit list result" where
  "history_loop lookup max_commits count cur acc =
     (case cur of
        None \<Rightarrow> Inr acc
      | Some c \<Rightarrow>
          if count < max_commits then
            rbind (case parent_link (parent_hash c) of None \<Rightarrow> Inr None | Some p \<Rightarrow> lookup p)
              (\<lambda>nxt. history_loop lookup max_commits (count + 1) nxt (acc @ [c]))
          else Inr acc)"
  by pat_completeness auto
termination
  by (relation "measure (\<lambda>(lookup, mx, count, cur, acc). nat (mx - count))") auto

declare history_loop.simps [simp del]

text \<open>\<open>CommitHistory\<close> has no attribute \<open>commits\<close>: evaluating
  \<open>self.commits\<close> raises \<open>AttributeError\<close>.\<close>

definition get_history :: "int \<Rightarrow> 'd commit_history \<Rightarrow> 'd commit list result" where
  "get_history max_commits h =
     history_loop (\<lambda>_. Inl (AttributeError ''commits'')) max_commits 0 (hist_head h) []"

section \<open>History traversal of the log command\<close>

text \<open>One step of the traversal: \<open>commits.get(c.parent_hash) if c.parent_hash else None\<close>.\<close>

definition next_commit :: "(string, 'd commit) pydict \<Rightarrow> 'd commit \<Rightarrow> 'd commit option" where
  "next_commit cs c = (case parent_link (parent_hash c) of None \<Rightarrow> None | Some p \<Rightarrow> map_of cs p)"

text \<open>\<open>while current: ... current = next\<close>, collecting the commits visited.\<close>

partial_function (option) log_walk ::
  "(string, 'd commit) pydict \<Rightarrow> 'd commit option \<Rightarrow> 'd commit list option" where
  "log_walk cs cur =
     (case cur of
        None \<Rightarrow> Some []
      | Some c \<Rightarrow> Option.bind (log_walk cs (next_commit cs c)) (\<lambda>l. Some (c # l)))"

section \<open>Well-formed commit stores\<close>

text \<open>A store is well formed when its keys are distinct and each commit is stored
  under its own hash; it is ordered when every parent link that resolves points to a
  commit stored earlier.\<close>

definition store_ok :: "(string, 'd commit) pydict \<Rightarrow> bool" where
  "store_ok cs \<longleftrightarrow> distinct (map fst cs) \<and> (\<forall>(h, c) \<in> set cs. hash c = h)"

definition chain_ordered :: "(string, 'd commit) pydict \<Rightarrow> bool" where
  "chain_ordered cs \<longleftrightarrow>
     (\<forall>i < length cs. case parent_link (parent_hash (snd (cs ! i))) of
         None \<Rightarrow> True
       | Some p \<Rightarrow> (\<exists>j < i. fst (cs ! j) = p))"

section \<open>Lemmas\<close>

lemma commit_from_dict_to_dict [simp]:
  "iso_roundtrip R \<Longrightarrow> commit_from_dict R (commit_to_dict R c) = Inr c"
  by (simp add: commit_from_dict_def commit_to_dict_def)

text \<open>C11: \<open>Commit.from_dict(c.to_dict())\<close> reproduces the commit, every field
  included, whenever \<open>datetime.fromisoformat\<close> inverts \<open>isoformat\<close>.\<close>

theorem commit_roundtrip:
  assumes "iso_roundtrip R"
  shows "commit_from_dict R (commit_to_dict R c) = Inr c"
  using assms by (rule commit_from_dict_to_dict)

lemma history_loop_step:
  "count < mx \<Longrightarrow> history_loop lookup mx count (Some c) acc =
     rbind (case parent_link (parent_hash c) of None \<Rightarrow> Inr None | Some p \<Rightarrow> lookup p)
       (\<lambda>nxt. history_loop lookup mx (count + 1) nxt (acc @ [c]))"
  by (simp add: history_loop.simps [of lookup mx count "Some c"])

lemma get_history_attribute_error:
  assumes "hist_head h = Some c" and "parent_link (parent_hash c) \<noteq> None" and "0 < mx"
  shows "get_history mx h = Inl (AttributeError ''commits'')"
  using assms by (auto simp: get_history_def history_loop_step)

text \<open>C12: \<open>CommitHistory.get_history\<close> is unusable as soon as the history holds
  two commits: after two \<open>add_commit\<close> calls the head has a parent link, and the loop
  evaluates \<open>self.commits\<close>, which the class never defines, so the call raises
  \<open>AttributeError\<close> instead of returning the history.\<close>

theorem get_history_two_commits:
  assumes "hash c1 \<noteq> []"
  shows "get_history 10 (add_commit c2 (add_commit c1 new_history)) = Inl (AttributeError ''commits'')"
  using assms by (simp add: get_history_attribute_error add_commit_def new_history_def parent_link_def)

lemma log_walk_None [simp]: "log_walk cs None = Some []"
  by (simp add: log_walk.simps)

lemma log_walk_Some:
  "log_walk cs (Some c) = Option.bind (log_walk cs (next_commit cs c)) (\<lambda>l. Some (c # l))"
  by (simp add: log_walk.simps [of cs "Some c"])

lemma log_walk_self_loop:
  assumes "next_commit cs c = Some c"
  shows "log_walk cs (Some c) = None"
proof (rule ccontr)
  assume "log_walk cs (Some c) \<noteq> None"
  then obtain l where ret: "log_walk cs (Some c) = Some l" by auto
  have "cs' = cs \<longrightarrow> cur \<noteq> Some c" if "log_walk cs' cur = Some r" for cs' cur r
  proof (rule log_walk.raw_induct [where P = "\<lambda>cs' cur r. cs' = cs \<longrightarrow> cur \<noteq> Some c", OF _ that])
    fix f cs' cur r
    assume IH: "\<And>cs' cur r. f cs' cur = Some r \<Longrightarrow> cs' = cs \<longrightarrow> cur \<noteq> Some c"
      and eq: "(case cur of None \<Rightarrow> Some [] | Some c \<Rightarrow> Option.bind (f cs' (next_commit cs' c)) (\<lambda>l. Some (c # l))) = Some r"
    show "cs' = cs \<longrightarrow> cur \<noteq> Some c"
    proof
      assume "cs' = cs"
      show "cur \<noteq> Some c"
      proof
        assume "cur = Some c"
        with eq \<open>cs' = cs\<close> assms obtain r' where "f cs (Some c) = Some r'"
          by (auto split: Option.bind_splits)
        with IH show False by blast
      qed
    qed
  qed
  with ret show False by blast
qed

lemma store_ok_nth:
  "store_ok cs \<Longrightarrow> i < length cs \<Longrightarrow> cs ! i = (hash (snd (cs ! i)), snd (cs ! i))"
  by (cases "cs ! i") (auto simp: store_ok_def dest!: nth_mem)

lemma store_ok_index_eq:
  "store_ok cs \<Longrightarrow> i < length cs \<Longrightarrow> k < length cs \<Longrightarrow> fst (cs ! k) = fst (cs ! i) \<Longrightarrow> k = i"
  using nth_eq_iff_index_eq [of "map fst cs" k i] by (simp add: store_ok_def)

lemma log_walk_from_index:
  assumes ok: "store_ok cs" and ord: "chain_ordered cs"
  shows "i < length cs \<Longrightarrow> \<exists>l. log_walk cs (Some (snd (cs ! i))) = Some l \<and>
           (\<forall>x \<in> set l. \<exists>j \<le> i. cs ! j = (hash x, x)) \<and> distinct (map hash l)"
proof (induction i rule: less_induct)
  case (less i)
  let ?c = "snd (cs ! i)"
  have ci: "cs ! i = (hash ?c, ?c)" using ok less.prems by (rule store_ok_nth)
  show ?case
  proof (cases "next_commit cs ?c")
    case None
    then show ?thesis using ci by (auto simp: log_walk_Some)
  next
    case (Some c')
    then obtain p where p: "parent_link (parent_hash ?c) = Some p" "map_of cs p = Some c'"
      by (auto simp: next_commit_def split: option.splits)
    with ord less.prems obtain j where j0: "j < i" "fst (cs ! j) = p"
      by (force simp: chain_ordered_def)
    with less.prems have "(p, snd (cs ! j)) \<in> set cs"
      by (metis nth_mem order.strict_trans prod.collapse)
    with ok p(2) have "c' = snd (cs ! j)"
      by (simp add: store_ok_def map_of_is_SomeI)
    with ok j0 less.prems have j: "j < i" "cs ! j = (hash c', c')"
      using store_ok_nth [of cs j] by auto
    then have c': "c' = snd (cs ! j)" by simp
    from less.IH [OF j(1)] less.prems j(1) c' obtain l where
      l: "log_walk cs (Some c') = Some l"
      and lj: "\<forall>x\<in>set l. \<exists>k\<le>j. cs ! k = (hash x, x)" and dl: "distinct (map hash l)"
      by auto
    have fresh: "hash ?c \<notin> hash ` set l"
    proof
      assume "hash ?c \<in> hash ` set l"
      then obtain x where x: "x \<in> set l" "hash x = hash ?c" by auto
      with lj obtain k where k: "k \<le> j" "cs ! k = (hash x, x)" by auto
      with j(1) less.prems have "k < length cs" by simp
      have "fst (cs ! k) = fst (cs ! i)" using k(2) x(2) ci by (metis fst_conv)
      with ok less.prems \<open>k < length cs\<close> have "k = i" by (rule store_ok_index_eq)
      with k(1) j(1) show False by simp
    qed
    have "\<forall>x\<in>set (?c # l). \<exists>k\<le>i. cs ! k = (hash x, x)"
    proof
      fix x
      assume "x \<in> set (?c # l)"
      then consider "x = ?c" | "x \<in> set l" by auto
      then show "\<exists>k\<le>i. cs ! k = (hash x, x)"
      proof cases
        case 1
        with ci show ?thesis by blast
      next
        case 2
        with lj obtain k where "k \<le> j" "cs ! k = (hash x, x)" by blast
        with j(1) show ?thesis by (meson le_less_trans less_imp_le)
      qed
    qed
    with Some l dl fresh show ?thesis by (simp add: log_walk_Some)
  qed
qed

text \<open>On a well-formed store whose parent links only point to earlier commits, the
  unbounded traversal from any stored commit terminates, never visits a hash twice,
  and only visits stored commits.\<close>

lemma log_walk_terminates:
  assumes "store_ok cs" and "chain_ordered cs" and "(hash c, c) \<in> set cs"
  shows "\<exists>l. log_walk cs (Some c) = Some l \<and> distinct (map hash l) \<and> set l \<subseteq> snd ` set cs"
proof -
  from assms(3) obtain i where i: "i < length cs" "cs ! i = (hash c, c)"
    by (auto simp: in_set_conv_nth)
  from log_walk_from_index [OF assms(1,2) i(1)] i(2) obtain l where
    "log_walk cs (Some c) = Some l" "\<forall>x \<in> set l. \<exists>j \<le> i. cs ! j = (hash x, x)" "distinct (map hash l)"
    by auto
  moreover have "set l \<subseteq> snd ` set cs"
  proof
    fix x
    assume "x \<in> set l"
    with calculation(2) obtain j where "j \<le> i" "cs ! j = (hash x, x)" by auto
    with i(1) have "(hash x, x) \<in> set cs" by (metis le_less_trans nth_mem)
    then show "x \<in> snd ` set cs" by force
  qed
  ultimately show ?thesis by blast
qed


text \<open>A store is closed when every parent link resolves in it; an ordered store is.\<close>

lemma chain_ordered_closed:
  assumes "chain_ordered cs" and "(k, c) \<in> set cs" and "parent_link (parent_hash c) = Some p"
  shows "p \<in> fst ` set cs"
proof -
  from assms(2) obtain i where i: "i < length cs" "cs ! i = (k, c)" by (auto simp: in_set_conv_nth)
  with assms(1,3) obtain j where "j < i" "fst (cs ! j) = p"
    by (force simp: chain_ordered_def)
  with i(1) show ?thesis by (metis image_eqI nth_mem order.strict_trans)
qed

text \<open>Appending an entry to a closed store does not change a traversal that starts at a
  stored commit: every parent it looks up is found before the new entry.\<close>

lemma log_walk_append:
  assumes "log_walk cs cur = Some l"
    and closed: "\<And>k c p. (k, c) \<in> set cs \<Longrightarrow> parent_link (parent_hash c) = Some p \<Longrightarrow>
                   p \<in> fst ` set cs"
    and "case cur of None \<Rightarrow> True | Some c \<Rightarrow> c \<in> snd ` set cs"
  shows "log_walk (cs @ [x]) cur = Some l"
proof -
  have "cs' = cs \<longrightarrow> (case cur of None \<Rightarrow> True | Some c \<Rightarrow> c \<in> snd ` set cs) \<longrightarrow>
        log_walk (cs @ [x]) cur = Some l"
    if "log_walk cs' cur = Some l" for cs' cur l
  proof (rule log_walk.raw_induct [where P = "\<lambda>cs' cur l. cs' = cs \<longrightarrow>
        (case cur of None \<Rightarrow> True | Some c \<Rightarrow> c \<in> snd ` set cs) \<longrightarrow>
        log_walk (cs @ [x]) cur = Some l", OF _ that])
    fix f cs' cur l
    assume IH: "\<And>cs' cur l. f cs' cur = Some l \<Longrightarrow> cs' = cs \<longrightarrow>
        (case cur of None \<Rightarrow> True | Some c \<Rightarrow> c \<in> snd ` set cs) \<longrightarrow>
        log_walk (cs @ [x]) cur = Some l"
      and eq: "(case cur of None \<Rightarrow> Some [] | Some c \<Rightarrow>
          Option.bind (f cs' (next_commit cs' c)) (\<lambda>l. Some (c # l))) = Some l"
    show "cs' = cs \<longrightarrow> (case cur of None \<Rightarrow> True | Some c \<Rightarrow> c \<in> snd ` set cs) \<longrightarrow>
        log_walk (cs @ [x]) cur = Some l"
    proof (intro impI)
      assume cs': "cs' = cs" and cur: "case cur of None \<Rightarrow> True | Some c \<Rightarrow> c \<in> snd ` set cs"
      show "log_walk (cs @ [x]) cur = Some l"
      proof (cases cur)
        case None
        with eq show ?thesis by simp
      next
        case (Some c)
        with eq cs' obtain l' where rec: "f cs (next_commit cs c) = Some l'" and l: "l = c # l'"
          by (auto split: Option.bind_splits)
        from Some cur obtain k where kc: "(k, c) \<in> set cs" by force
        have nxt: "next_commit (cs @ [x]) c = next_commit cs c"
        proof (cases "parent_link (parent_hash c)")
          case (Some p)
          from closed [OF kc Some] have "map_of cs p \<noteq> None"
            by (simp add: map_of_eq_None_iff)
          with Some show ?thesis by (auto simp: next_commit_def map_of_append)
        qed (simp add: next_commit_def)
        have "case next_commit cs c of None \<Rightarrow> True | Some c' \<Rightarrow> c' \<in> snd ` set cs"
          by (auto simp: next_commit_def split: option.split dest!: map_of_SomeD) force
        with IH [OF rec] have "log_walk (cs @ [x]) (next_commit cs c) = Some l'" by simp
        with Some nxt l show ?thesis by (simp add: log_walk_Some)
      qed
    qed
  qed
  with assms(1,3) show ?thesis by blast
qed

theorem commit_roundtrip_witness:
  "iso_roundtrip (\<lparr>sha1 = (\<lambda>s. s), dt_str = (\<lambda>d. d), dt_iso = (\<lambda>d. d), dt_fromiso = Inr\<rparr> :: string runtime) \<and>
   commit_from_dict (\<lparr>sha1 = (\<lambda>s. s), dt_str = (\<lambda>d. d), dt_iso = (\<lambda>d. d), dt_fromiso = Inr\<rparr> :: string runtime) (commit_to_dict \<lparr>sha1 = (\<lambda>s. s), dt_str = (\<lambda>d. d), dt_iso = (\<lambda>d. d), dt_fromiso = Inr\<rparr> \<lparr>hash = ''h2'', date = ''d2'', author_email = ''a@b.com'', message = ''m2'', parent_hash = Some ''h1'', commit_files = [''x''], branch = ''main''\<rparr>) = Inr \<lparr>hash = ''h2'', date = ''d2'', author_email = ''a@b.com'', message = ''m2'', parent_hash = Some ''h1'', commit_files = [''x''], branch = ''main''\<rparr>"
proof -
  have h: "iso_roundtrip (\<lparr>sha1 = (\<lambda>s. s), dt_str = (\<lambda>d. d), dt_iso = (\<lambda>d. d), dt_fromiso = Inr\<rparr> :: string runtime)" by (simp add: iso_roundtrip_def)
  show ?thesis using h commit_roundtrip [OF h, of "\<lparr>hash = ''h2'', date = ''d2'', author_email = ''a@b.com'', message = ''m2'', parent_hash = Some ''h1'', commit_files = [''x''], branch = ''main''\<rparr>"] by simp
qed

theorem get_history_two_commits_witness:
  "hash (\<lparr>hash = ''h1'', date = ''d1'', author_email = ''a@b.com'', message = ''m1'', parent_hash = None, commit_files = [''README.md''], branch = ''main''\<rparr>) \<noteq> [] \<and>
   get_history 10 (add_commit \<lparr>hash = ''h2'', date = ''d2'', author_email = ''a@b.com'', message = ''m2'', parent_hash = Some ''h1'', commit_files = [''x''], branch = ''main''\<rparr> (add_commit \<lparr>hash = ''h1'', date = ''d1'', author_email = ''a@b.com'', message = ''m1'', parent_hash = None, commit_files = [''README.md''], branch = ''main''\<rparr> new_history)) = Inl (AttributeError ''commits'')"
proof -
  have h: "hash (\<lparr>hash = ''h1'', date = ''d1'', author_email = ''a@b.com'', message = ''m1'', parent_hash = None, commit_files = [''README.md''], branch = ''main''\<rparr>) \<noteq> []" by simp
  show ?thesis using h get_history_two_commits [OF h, of "\<lparr>hash = ''h2'', date = ''d2'', author_email = ''a@b.com'', message = ''m2'', parent_hash = Some ''h1'', commit_files = [''x''], branch = ''main''\<rparr>"] by simp
qed

lemma history_loop_length:
  "history_loop lookup mx cnt cur acc = Inr l \<Longrightarrow> length l \<le> length acc + nat (mx - cnt)"
proof (induction lookup mx cnt cur acc arbitrary: l rule: history_loop.induct)
  case (1 lookup mx cnt cur acc)
  show ?case
  proof (cases cur)
    case None
    with "1.prems" show ?thesis by (simp add: history_loop.simps)
  next
    case (Some c)
    show ?thesis
    proof (cases "cnt < mx")
      case True
      with "1.prems" Some obtain nxt where
        "history_loop lookup mx (cnt + 1) nxt (acc @ [c]) = Inr l"
        by (auto simp: history_loop.simps [of lookup mx cnt] rbind_eq_Inr)
      from "1.IH" [OF Some True this] True show ?thesis by simp
    next
      case False
      with "1.prems" Some show ?thesis by (simp add: history_loop.simps)
    qed
  qed
qed

lemma history_loop_stop:
  "\<not> count < mx \<Longrightarrow> history_loop lookup mx count cur acc = Inr acc"
  by (simp add: history_loop.simps [of lookup mx count] split: option.split)

text \<open>C31: the loop of \<open>get_history\<close> returns at most \<open>max_commits\<close> commits, whatever
  parent lookup it is given: the \<open>self.commits\<close> lookup of the code, which raises, or
  the lookup in the commit store that the code means.\<close>

theorem history_loop_bounded:
  assumes "history_loop lookup mx 0 cur [] = Inr l"
  shows "length l \<le> nat mx"
  using history_loop_length [OF assms] by simp

theorem history_loop_bounded_witness:
  "history_loop (\<lambda>p. Inr (map_of [(''h1'', (\<lparr>hash = ''h1'', date = ''d1'', author_email = ''a@b.com'', message = ''m1'', parent_hash = None, commit_files = [''a''], branch = ''main''\<rparr> :: string commit)), (''h2'', (\<lparr>hash = ''h2'', date = ''d2'', author_email = ''a@b.com'', message = ''m2'', parent_hash = Some ''h1'', commit_files = [''b''], branch = ''main''\<rparr> :: string commit))] p)) 2 0 (Some (\<lparr>hash = ''h3'', date = ''d3'', author_email = ''a@b.com'', message = ''m3'', parent_hash = Some ''h2'', commit_files = [''c''], branch = ''main''\<rparr> :: string commit)) [] = Inr [(\<lparr>hash = ''h3'', date = ''d3'', author_email = ''a@b.com'', message = ''m3'', parent_hash = Some ''h2'', commit_files = [''c''], branch = ''main''\<rparr> :: string commit), (\<lparr>hash = ''h2'', date = ''d2'', author_email = ''a@b.com'', message = ''m2'', parent_hash = Some ''h1'', commit_files = [''b''], branch = ''main''\<rparr> :: string commit)] \<and>
   length [(\<lparr>hash = ''h3'', date = ''d3'', author_email = ''a@b.com'', message = ''m3'', parent_hash = Some ''h2'', commit_files = [''c''], branch = ''main''\<rparr> :: string commit), (\<lparr>hash = ''h2'', date = ''d2'', author_email = ''a@b.com'', message = ''m2'', parent_hash = Some ''h1'', commit_files = [''b''], branch = ''main''\<rparr> :: string commit)] \<le> nat 2"
proof -
  have h: "history_loop (\<lambda>p. Inr (map_of [(''h1'', (\<lparr>hash = ''h1'', date = ''d1'', author_email = ''a@b.com'', message = ''m1'', parent_hash = None, commit_files = [''a''], branch = ''main''\<rparr> :: string commit)), (''h2'', (\<lparr>hash = ''h2'', date = ''d2'', author_email = ''a@b.com'', message = ''m2'', parent_hash = Some ''h1'', commit_files = [''b''], branch = ''main''\<rparr> :: string commit))] p)) 2 0 (Some (\<lparr>hash = ''h3'', date = ''d3'', author_email = ''a@b.com'', message = ''m3'', parent_hash = Some ''h2'', commit_files = [''c''], branch = ''main''\<rparr> :: string commit)) [] = Inr [(\<lparr>hash = ''h3'', date = ''d3'', author_email = ''a@b.com'', message = ''m3'', parent_hash = Some ''h2'', commit_files = [''c''], branch = ''main''\<rparr> :: string commit), (\<lparr>hash = ''h2'', date = ''d2'', author_email = ''a@b.com'', message = ''m2'', parent_hash = Some ''h1'', commit_files = [''b''], branch = ''main''\<rparr> :: string commit)]"
    by (simp add: history_loop_step history_loop_stop parent_link_def)
  show ?thesis using h history_loop_bounded [OF h] by simp
qed

end
