(* ===== verification/Repository.thy ===== *)
theory Repository
  imports Staging Commit
begin

text \<open>
  The repository of \<open>src/proyecto1/repository.py\<close> (class \<open>Repository\<close>): a name
  and path, the branch pointers \<open>branches\<close> (a dict from branch names to a commit hash
  or \<open>None\<close>), the current branch, one staging area, the commit store \<open>commits\<close>
  (a dict from hashes to commits) and the head commit. \<open>add_file\<close> delegates to
  the staging area; \<open>commit\<close> turns the staged files into a commit, advances the
  current branch and the head, and clears the staging area; \<open>to_dict\<close>/\<open>from_dict\<close>
  serialise everything but the staging area. The operations are also gathered into a
  datatype of steps with a run function, over which the invariant is proved.
\<close>

section \<open>State\<close>

record 'd repository =
  name :: string
  path :: string
  branches :: "(string, string option) pydict"
  current_branch :: string
  staging_area :: staging_area
  commits :: "(string, 'd commit) pydict"
  head :: "'d commit option"

definition new_repository :: "string \<Rightarrow> string \<Rightarrow> 'd repository" where
  "new_repository nm p =
     \<lparr>name = nm, path = p, branches = [(''main'', None)], current_branch = ''main'',
      staging_area = new_staging, commits = [], head = None\<rparr>"

datatype commit_msg = NothingToCommit | CommitCreated string string

section \<open>Operations\<close>

definition repo_add_file ::
  "'d runtime \<Rightarrow> filesystem \<Rightarrow> string \<Rightarrow> 'd repository \<Rightarrow> 'd repository result" where
  "repo_add_file R fs fname r =
     rbind (add_file (sha1 R) fs fname ''A'' (staging_area r))
       (\<lambda>(s', _). Inr (r\<lparr>staging_area := s'\<rparr>))"

definition generate_hash :: "'d runtime \<Rightarrow> string \<Rightarrow> string" where
  "generate_hash R data = sha1 R data"

text \<open>
  \<open>commit\<close> reads the clock twice: \<open>now1\<close> for the hash input
  \<open>message + author_email + str(datetime.now())\<close>, \<open>now2\<close> for the commit's date.
\<close>

definition repo_commit ::
  "'d runtime \<Rightarrow> 'd \<Rightarrow> 'd \<Rightarrow> string \<Rightarrow> string \<Rightarrow> 'd repository \<Rightarrow>
   'd repository \<times> commit_msg" where
  "repo_commit R now1 now2 msg email r =
     (if files (staging_area r) = [] then (r, NothingToCommit)
      else
        let h = generate_hash R (msg @ email @ dt_str R now1);
            c = \<lparr>hash = h, date = now2, author_email = email, message = msg,
                 parent_hash = map_option hash (head r),
                 commit_files = get_files (staging_area r), branch = current_branch r\<rparr>
        in (r\<lparr>commits := dict_set (commits r) h c,
              branches := dict_set (branches r) (current_branch r) (Some h),
              head := Some c,
              staging_area := clear (staging_area r)\<rparr>,
            CommitCreated (take 6 h) (current_branch r)))"

definition repo_to_dict :: "'d runtime \<Rightarrow> 'd repository \<Rightarrow> json" where
  "repo_to_dict R r = JObj
     [(''name'', JStr (name r)),
      (''path'', JStr (path r)),
      (''branches'', JObj (map (\<lambda>(b, h). (b, opt_json h)) (branches r))),
      (''current_branch'', JStr (current_branch r)),
      (''head'', opt_json (map_option hash (head r))),
      (''commits'', JObj (map (\<lambda>(h, c). (h, commit_to_dict R c)) (commits r)))]"

fun json_branches :: "json \<Rightarrow> (string, string option) pydict result" where
  "json_branches (JObj kvs) = rmap (\<lambda>(b, v). rbind (json_opt_str v) (\<lambda>h. Inr (b, h))) kvs"
| "json_branches _ = Inl TypeError"

text \<open>\<open>{hash: Commit.from_dict(cd) for hash, cd in data['commits'].items()}\<close>;
  \<open>.items()\<close> on a non-dict raises \<open>AttributeError\<close>.\<close>

fun json_commits :: "'d runtime \<Rightarrow> json \<Rightarrow> (string, 'd commit) pydict result" where
  "json_commits R (JObj kvs) =
     rbind (rmap (\<lambda>(h, cd). rbind (commit_from_dict R cd) (\<lambda>c. Inr (h, c))) kvs)
       (\<lambda>items. Inr (dict_from_items items))"
| "json_commits R _ = Inl (AttributeError ''items'')"

text \<open>\<open>repo.commits.get(data['head'])\<close>: a string is looked up, an unhashable
  list or dict raises \<open>TypeError\<close>, any other value is absent from the store.\<close>

fun head_lookup :: "(string, 'd commit) pydict \<Rightarrow> json \<Rightarrow> 'd commit option result" where
  "head_lookup cs (JStr h) = Inr (map_of cs h)"
| "head_lookup cs (JList _) = Inl TypeError"
| "head_lookup cs (JObj _) = Inl TypeError"
| "head_lookup cs _ = Inr None"

definition repo_from_dict :: "'d runtime \<Rightarrow> json \<Rightarrow> 'd repository result" where
  "repo_from_dict R data =
     rbind (json_field data ''name'' json_str) (\<lambda>nm.
     rbind (json_field data ''path'' json_str) (\<lambda>p.
     rbind (json_field data ''branches'' json_branches) (\<lambda>bs.
     rbind (json_field data ''current_branch'' json_str) (\<lambda>cb.
     rbind (json_field data ''commits'' (json_commits R)) (\<lambda>cs.
     rbind (json_field data ''head'' (head_lookup cs)) (\<lambda>hd.
       Inr ((new_repository nm p)
              \<lparr>branches := bs, current_branch := cb, commits := cs, head := hd\<rparr>)))))))"

section \<open>Steps\<close>

datatype 'd repo_op = OpAddFile filesystem string | OpCommit 'd 'd string string

fun repo_step :: "'d runtime \<Rightarrow> 'd repo_op \<Rightarrow> 'd repository \<Rightarrow> 'd repository result" where
  "repo_step R (OpAddFile fs f) r = repo_add_file R fs f r"
| "repo_step R (OpCommit now1 now2 msg email) r = Inr (fst (repo_commit R now1 now2 msg email r))"

text \<open>A sequence of calls; the first exception propagates and ends the sequence.\<close>

fun repo_run :: "'d runtime \<Rightarrow> 'd repo_op list \<Rightarrow> 'd repository \<Rightarrow> 'd repository result" where
  "repo_run R [] r = Inr r"
| "repo_run R (op # ops) r = rbind (repo_step R op r) (repo_run R ops)"

section \<open>Invariant\<close>

text \<open>Runs in which no commit reuses a hash already in the store: the
  precondition under which the history stays acyclic.\<close>

fun fresh_run :: "'d runtime \<Rightarrow> 'd repo_op list \<Rightarrow> 'd repository \<Rightarrow> bool" where
  "fresh_run R [] r = True"
| "fresh_run R (op # ops) r =
     ((case op of
         OpCommit now1 now2 msg email \<Rightarrow>
           files (staging_area r) \<noteq> [] \<longrightarrow>
           generate_hash R (msg @ email @ dt_str R now1) \<notin> fst ` set (commits r)
       | OpAddFile fs f \<Rightarrow> True) \<and>
      (case repo_step R op r of Inl e \<Rightarrow> True | Inr r' \<Rightarrow> fresh_run R ops r'))"

section \<open>Invariant of a repository\<close>

text \<open>The store is well formed, branch names are distinct, the current branch points
  at the head's hash (\<open>None\<close> before the first commit) and the head is stored.\<close>

definition repo_inv :: "'d repository \<Rightarrow> bool" where
  "repo_inv r \<longleftrightarrow>
     store_ok (commits r) \<and> distinct (map fst (branches r)) \<and>
     map_of (branches r) (current_branch r) = Some (map_option hash (head r)) \<and>
     (case head r of None \<Rightarrow> True | Some c \<Rightarrow> map_of (commits r) (hash c) = Some c)"

section \<open>Lemmas\<close>

text \<open>C2: \<open>commit\<close> with an empty staging area reports "nothing to commit" and
  changes nothing: no commit, no branch move, no head move.\<close>

theorem commit_empty_staging:
  assumes "files (staging_area r) = []"
  shows "repo_commit R now1 now2 msg email r = (r, NothingToCommit)"
  using assms by (simp add: repo_commit_def)

text \<open>C1: \<open>commit\<close> with staged files creates one commit whose hash is the hash of
  message, author and timestamp, whose files are the staged names in insertion order and
  whose parent is the previous head; it stores it under its hash, points the current
  branch and the head at it, empties the staging area and reports the truncated hash.\<close>

theorem commit_nonempty:
  assumes "files (staging_area r) \<noteq> []"
  shows "case repo_commit R now1 now2 msg email r of (r', m) \<Rightarrow>
         (\<exists>c. head r' = Some c \<and>
           hash c = generate_hash R (msg @ email @ dt_str R now1) \<and>
           commit_files c = get_files (staging_area r) \<and>
           parent_hash c = map_option hash (head r) \<and>
           branch c = current_branch r \<and>
           author_email c = email \<and> message c = msg \<and> date c = now2 \<and>
           map_of (commits r') (hash c) = Some c \<and>
           commits r' = dict_set (commits r) (hash c) c \<and>
           map_of (branches r') (current_branch r') = Some (Some (hash c)) \<and>
           branches r' = dict_set (branches r) (current_branch r) (Some (hash c)) \<and>
           current_branch r' = current_branch r \<and> name r' = name r \<and> path r' = path r \<and>
           get_files (staging_area r') = [] \<and>
           m = CommitCreated (take 6 (hash c)) (current_branch r))"
  using assms by (simp add: repo_commit_def Let_def)

lemma store_ok_dict_set:
  "store_ok cs \<Longrightarrow> hash c = h \<Longrightarrow> store_ok (dict_set cs h c)"
  unfolding store_ok_def using set_dict_set_subset [of cs h c] by auto

lemma repo_inv_commit:
  assumes "repo_inv r"
  shows "repo_inv (fst (repo_commit R now1 now2 msg email r))"
proof (cases "files (staging_area r) = []")
  case True
  with assms show ?thesis by (simp add: repo_commit_def)
next
  case False
  with assms show ?thesis
    by (simp add: repo_commit_def Let_def repo_inv_def store_ok_dict_set del: map_of_eq_Some_iff)
qed

lemma repo_inv_add_file:
  assumes "repo_inv r" and "repo_add_file R fs f r = Inr r'"
  shows "repo_inv r'"
  using assms by (auto simp: repo_add_file_def add_file_def repo_inv_def split: option.splits)

lemma repo_inv_step:
  "repo_inv r \<Longrightarrow> repo_step R op r = Inr r' \<Longrightarrow> repo_inv r'"
  by (cases op) (auto intro: repo_inv_add_file repo_inv_commit)

lemma repo_inv_run:
  "repo_inv r \<Longrightarrow> repo_run R ops r = Inr r' \<Longrightarrow> repo_inv r'"
  by (induction ops arbitrary: r) (auto simp: rbind_eq_Inr intro: repo_inv_step)

lemma repo_inv_new [simp]: "repo_inv (new_repository nm p)"
  by (simp add: repo_inv_def new_repository_def store_ok_def)

text \<open>C7: every repository reached from \<open>Repository(name, path)\<close> by any sequence of
  \<open>add_file\<close> and \<open>commit\<close> calls satisfies the invariant: a well-formed store, distinct
  branch names, the current branch pointing at the head's hash, and a stored head.\<close>

theorem repo_inv_after_run:
  "case repo_run R ops (new_repository nm p) of Inl e \<Rightarrow> True | Inr r \<Rightarrow> repo_inv r"
  using repo_inv_run [OF repo_inv_new [of nm p], of R ops] by (simp split: sum.split)

lemma chain_ordered_Nil [simp]: "chain_ordered []"
  by (simp add: chain_ordered_def)

lemma chain_ordered_snoc:
  assumes "chain_ordered cs"
    and "\<And>p. parent_link (parent_hash c) = Some p \<Longrightarrow> p \<in> fst ` set cs"
  shows "chain_ordered (cs @ [(h, c)])"
  unfolding chain_ordered_def
proof (intro allI impI)
  fix i
  assume i: "i < length (cs @ [(h, c)])"
  show "case parent_link (parent_hash (snd ((cs @ [(h, c)]) ! i))) of None \<Rightarrow> True
          | Some p \<Rightarrow> \<exists>j<i. fst ((cs @ [(h, c)]) ! j) = p"
  proof (cases "i < length cs")
    case True
    with assms(1) have "case parent_link (parent_hash (snd (cs ! i))) of None \<Rightarrow> True
        | Some p \<Rightarrow> \<exists>j<i. fst (cs ! j) = p"
      by (simp add: chain_ordered_def)
    moreover from True have "(cs @ [(h, c)]) ! i = cs ! i" by (simp add: nth_append)
    moreover have "\<exists>j<i. fst ((cs @ [(h, c)]) ! j) = p" if "\<exists>j<i. fst (cs ! j) = p" for p
    proof -
      from that obtain j where j: "j < i" "fst (cs ! j) = p" by blast
      with True have "j < length cs" by simp
      with j have "fst ((cs @ [(h, c)]) ! j) = p" by (simp add: nth_append)
      with j(1) show ?thesis by blast
    qed
    ultimately show ?thesis by (simp split: option.splits)
  next
    case False
    with i have "i = length cs" by simp
    then have last: "(cs @ [(h, c)]) ! i = (h, c)" by simp
    have "\<exists>j<i. fst ((cs @ [(h, c)]) ! j) = p" if "parent_link (parent_hash c) = Some p" for p
    proof -
      from assms(2) [OF that] obtain x where "x \<in> set cs" "fst x = p" by auto
      then obtain j where "j < length cs" "fst (cs ! j) = p" by (auto simp: in_set_conv_nth)
      with \<open>i = length cs\<close> show ?thesis by (auto simp: nth_append)
    qed
    with last show ?thesis by (simp split: option.splits)
  qed
qed

lemma chain_ordered_commit:
  assumes "repo_inv r" and "chain_ordered (commits r)"
    and "files (staging_area r) \<noteq> [] \<Longrightarrow>
         generate_hash R (msg @ email @ dt_str R now1) \<notin> fst ` set (commits r)"
  shows "chain_ordered (commits (fst (repo_commit R now1 now2 msg email r)))"
proof (cases "files (staging_area r) = []")
  case True
  with assms(2) show ?thesis by (simp add: repo_commit_def)
next
  case False
  let ?h = "generate_hash R (msg @ email @ dt_str R now1)"
  have parent: "p \<in> fst ` set (commits r)"
    if "parent_link (map_option hash (head r)) = Some p" for p
  proof -
    from that obtain c0 where "head r = Some c0" "p = hash c0"
      by (auto simp: parent_link_def split: option.splits if_splits)
    with assms(1) have "map_of (commits r) p = Some c0" by (simp add: repo_inv_def)
    then show ?thesis by (force dest: map_of_SomeD)
  qed
  have snoc: "chain_ordered (commits r @ [(h', c')])"
    if "parent_hash c' = map_option hash (head r)" for h' c'
    by (rule chain_ordered_snoc [OF assms(2)]) (use that parent in simp)
  from False assms(3) have "?h \<notin> fst ` set (commits r)" by blast
  with False show ?thesis
    by (simp add: repo_commit_def Let_def dict_set_fresh snoc)
qed

lemma chain_ordered_run:
  "repo_inv r \<Longrightarrow> chain_ordered (commits r) \<Longrightarrow> fresh_run R ops r \<Longrightarrow>
   repo_run R ops r = Inr r' \<Longrightarrow> chain_ordered (commits r')"
proof (induction ops arbitrary: r)
  case Nil
  then show ?case by simp
next
  case (Cons op ops)
  from Cons.prems(4) obtain r1 where r1: "repo_step R op r = Inr r1" "repo_run R ops r1 = Inr r'"
    by (auto simp: rbind_eq_Inr)
  have inv1: "repo_inv r1" using Cons.prems(1) r1(1) by (rule repo_inv_step)
  have ch1: "chain_ordered (commits r1)"
  proof (cases op)
    case (OpAddFile fs f)
    with r1(1) Cons.prems(2) show ?thesis
      by (auto simp: repo_add_file_def add_file_def split: option.splits)
  next
    case (OpCommit now1 now2 msg email)
    with Cons.prems(3) have "files (staging_area r) \<noteq> [] \<Longrightarrow>
        generate_hash R (msg @ email @ dt_str R now1) \<notin> fst ` set (commits r)" by simp
    with OpCommit r1(1) Cons.prems(1,2) show ?thesis
      using chain_ordered_commit [of r R msg email now1 now2] by auto
  qed
  from Cons.prems(3) r1(1) have "fresh_run R ops r1" by simp
  with Cons.IH inv1 ch1 r1(2) show ?case by blast
qed

lemma log_terminates_inv:
  assumes "repo_inv r" and "chain_ordered (commits r)"
  shows "\<exists>l. log_walk (commits r) (head r) = Some l \<and> distinct (map hash l) \<and>
           set l \<subseteq> snd ` set (commits r)"
proof (cases "head r")
  case None
  then show ?thesis by simp
next
  case (Some c)
  with assms(1) have "map_of (commits r) (hash c) = Some c" by (simp add: repo_inv_def)
  then have "(hash c, c) \<in> set (commits r)" by (rule map_of_SomeD)
  with assms Some show ?thesis
    using log_walk_terminates [of "commits r" c] by (simp add: repo_inv_def)
qed

text \<open>C8: when no commit of a run reuses a hash already in the store, the unbounded
  \<open>git log\<close> loop on the resulting repository terminates, lists no hash twice and
  lists only stored commits.\<close>

theorem log_terminates_after_run:
  assumes "fresh_run R ops (new_repository nm p)"
  shows "case repo_run R ops (new_repository nm p) of
           Inl e \<Rightarrow> True
         | Inr r \<Rightarrow> (\<exists>l. log_walk (commits r) (head r) = Some l \<and> distinct (map hash l) \<and>
                      set l \<subseteq> snd ` set (commits r))"
proof (cases "repo_run R ops (new_repository nm p)")
  case (Inl e)
  then show ?thesis by simp
next
  case (Inr r)
  have inv: "repo_inv r" using repo_inv_run [OF repo_inv_new Inr] .
  have "chain_ordered (commits r)"
    using repo_inv_new [of nm p] _ assms Inr
    by (rule chain_ordered_run) (simp add: new_repository_def)
  with inv Inr show ?thesis by (simp add: log_terminates_inv)
qed

text \<open>C9: two commits with the same message and author within one clock tick get the
  same hash; the second then overwrites the first in the store and becomes its own
  parent, and the \<open>git log\<close> loop, which has no cycle guard, never ends.\<close>

theorem commit_same_inputs_log_diverges:
  assumes "head r = Some c0" and "hash c0 = generate_hash R (msg @ email @ dt_str R now1)"
    and "hash c0 \<noteq> []" and "files (staging_area r) \<noteq> []"
  shows "log_walk (commits (fst (repo_commit R now1 now2 msg email r)))
                  (head (fst (repo_commit R now1 now2 msg email r))) = None"
proof -
  let ?r' = "fst (repo_commit R now1 now2 msg email r)"
  obtain c where c: "head ?r' = Some c" "parent_hash c = Some (hash c0)" "hash c = hash c0"
      "map_of (commits ?r') (hash c) = Some c"
    using assms by (simp add: repo_commit_def Let_def)
  with assms(3) have "next_commit (commits ?r') c = Some c"
    by (simp add: next_commit_def parent_link_def)
  with c(1) show ?thesis by (simp add: log_walk_self_loop)
qed

lemma rmap_branches_roundtrip [simp]:
  "rmap (\<lambda>(b, v). rbind (json_opt_str v) (\<lambda>h. Inr (b, h))) (map (\<lambda>(b, h). (b, opt_json h)) bs) = Inr bs"
  by (rule rmap_inverse) auto

lemma rmap_commits_roundtrip [simp]:
  "iso_roundtrip R \<Longrightarrow>
   rmap (\<lambda>(h, cd). rbind (commit_from_dict R cd) (\<lambda>c. Inr (h, c))) (map (\<lambda>(h, c). (h, commit_to_dict R c)) cs) = Inr cs"
  by (rule rmap_inverse) auto

lemma repo_from_to_dict:
  assumes "iso_roundtrip R" and "repo_inv r"
  shows "repo_from_dict R (repo_to_dict R r) = Inr (r\<lparr>staging_area := new_staging\<rparr>)"
proof -
  from assms(2) have d: "distinct (map fst (commits r))" by (simp add: repo_inv_def store_ok_def)
  have hd: "head_lookup (commits r) (opt_json (map_option hash (head r))) = Inr (head r)"
    using assms(2) by (cases "head r") (simp_all add: opt_json_def repo_inv_def)
  show ?thesis
    using assms(1) d hd
    by (cases r) (simp add: repo_from_dict_def repo_to_dict_def new_repository_def dict_from_items_distinct)
qed

text \<open>C10: \<open>Repository.from_dict(repo.to_dict())\<close> gives back the repository with
  every field but the staging area, which comes back empty.\<close>

theorem repo_roundtrip:
  assumes "iso_roundtrip R" and "repo_inv r"
  shows "repo_from_dict R (repo_to_dict R r) = Inr (r\<lparr>staging_area := new_staging\<rparr>)"
  using assms by (rule repo_from_to_dict)

theorem commit_empty_staging_witness:
  "files (staging_area (new_repository ''demo'' ''./demo'' :: string repository)) = [] \<and>
   repo_commit (\<lparr>sha1 = (\<lambda>s. s), dt_str = (\<lambda>d. d), dt_iso = (\<lambda>d. d), dt_fromiso = Inr\<rparr> :: string runtime) ''t1'' ''t2'' ''m'' ''a'' (new_repository ''demo'' ''./demo'') =
     (new_repository ''demo'' ''./demo'', NothingToCommit)"
proof -
  have h: "files (staging_area (new_repository ''demo'' ''./demo'' :: string repository)) = []"
    by (simp add: new_repository_def new_staging_def)
  show ?thesis using h commit_empty_staging [OF h] by simp
qed

text \<open>C28: \<open>commit\<close> puts exactly the new commit on top of the history: when the
  repository satisfies the invariant, its store is ordered, something is staged, the new
  hash is fresh and the head's hash is non-empty (a SHA-1 digest is), \<open>git log\<close> after the
  commit shows the new commit followed by what it showed before.\<close>

theorem commit_extends_log:
  assumes "repo_inv r" and "chain_ordered (commits r)" and "files (staging_area r) \<noteq> []"
    and "generate_hash R (msg @ email @ dt_str R now1) \<notin> fst ` set (commits r)"
    and "case head r of None \<Rightarrow> True | Some c0 \<Rightarrow> hash c0 \<noteq> []"
  shows "\<exists>c l. log_walk (commits r) (head r) = Some l \<and>
           head (fst (repo_commit R now1 now2 msg email r)) = Some c \<and>
           log_walk (commits (fst (repo_commit R now1 now2 msg email r)))
                    (head (fst (repo_commit R now1 now2 msg email r))) = Some (c # l)"
proof -
  let ?h = "generate_hash R (msg @ email @ dt_str R now1)"
  let ?c = "\<lparr>hash = ?h, date = now2, author_email = email, message = msg,
             parent_hash = map_option hash (head r),
             commit_files = get_files (staging_area r), branch = current_branch r\<rparr>"
  have r': "head (fst (repo_commit R now1 now2 msg email r)) = Some ?c"
    "commits (fst (repo_commit R now1 now2 msg email r)) = commits r @ [(?h, ?c)]"
    using assms(3,4) by (simp_all add: repo_commit_def Let_def dict_set_fresh)
  obtain l where l: "log_walk (commits r) (head r) = Some l"
    using log_terminates_inv [OF assms(1,2)] by blast
  have closed: "\<And>k c p. (k, c) \<in> set (commits r) \<Longrightarrow> parent_link (parent_hash c) = Some p \<Longrightarrow>
      p \<in> fst ` set (commits r)"
    using chain_ordered_closed [OF assms(2)] by blast
  have "log_walk (commits r @ [(?h, ?c)]) (Some ?c) = Some (?c # l)"
  proof (cases "head r")
    case None
    with l show ?thesis by (simp add: log_walk_Some next_commit_def parent_link_def)
  next
    case (Some c0)
    with assms(1) have st: "map_of (commits r) (hash c0) = Some c0" by (simp add: repo_inv_def)
    then have "c0 \<in> snd ` set (commits r)" by (force dest: map_of_SomeD)
    with l Some have "log_walk (commits r @ [(?h, ?c)]) (Some c0) = Some l"
      using log_walk_append [of "commits r" "Some c0" l, OF _ closed] by simp
    moreover have "next_commit (commits r @ [(?h, ?c)]) ?c = Some c0"
      using Some assms(5) st by (simp add: next_commit_def parent_link_def map_of_append)
    ultimately show ?thesis by (simp add: log_walk_Some)
  qed
  with r' l show ?thesis by auto
qed

theorem commit_nonempty_witness:
  "files (staging_area (\<lparr>name = ''demo'', path = ''./demo'', branches = [(''main'', None)], current_branch = ''main'', staging_area = \<lparr>files = [\<lparr>filename = ''README.md'', file_status = ''A'', checksum = ''c'', file_size = 10, last_modified = 0\<rparr>]\<rparr>, commits = [], head = None\<rparr> :: string repository)) \<noteq> [] \<and>
   (case repo_commit (\<lparr>sha1 = (\<lambda>s. s), dt_str = (\<lambda>d. d), dt_iso = (\<lambda>d. d), dt_fromiso = Inr\<rparr> :: string runtime) ''t1'' ''t2'' ''m'' ''a'' (\<lparr>name = ''demo'', path = ''./demo'', branches = [(''main'', None)], current_branch = ''main'', staging_area = \<lparr>files = [\<lparr>filename = ''README.md'', file_status = ''A'', checksum = ''c'', file_size = 10, last_modified = 0\<rparr>]\<rparr>, commits = [], head = None\<rparr> :: string repository) of (r', m) \<Rightarrow>
         (\<exists>c. head r' = Some c \<and>
           hash c = generate_hash (\<lparr>sha1 = (\<lambda>s. s), dt_str = (\<lambda>d. d), dt_iso = (\<lambda>d. d), dt_fromiso = Inr\<rparr> :: string runtime) (''m'' @ ''a'' @ dt_str (\<lparr>sha1 = (\<lambda>s. s), dt_str = (\<lambda>d. d), dt_iso = (\<lambda>d. d), dt_fromiso = Inr\<rparr> :: string runtime) ''t1'') \<and>
           commit_files c = get_files (staging_area (\<lparr>name = ''demo'', path = ''./demo'', branches = [(''main'', None)], current_branch = ''main'', staging_area = \<lparr>files = [\<lparr>filename = ''README.md'', file_status = ''A'', checksum = ''c'', file_size = 10, last_modified = 0\<rparr>]\<rparr>, commits = [], head = None\<rparr> :: string repository)) \<and>
           parent_hash c = map_option hash (head (\<lparr>name = ''demo'', path = ''./demo'', branches = [(''main'', None)], current_branch = ''main'', staging_area = \<lparr>files = [\<lparr>filename = ''README.md'', file_status = ''A'', checksum = ''c'', file_size = 10, last_modified = 0\<rparr>]\<rparr>, commits = [], head = None\<rparr> :: string repository)) \<and>
           branch c = current_branch (\<lparr>name = ''demo'', path = ''./demo'', branches = [(''main'', None)], current_branch = ''main'', staging_area = \<lparr>files = [\<lparr>filename = ''README.md'', file_status = ''A'', checksum = ''c'', file_size = 10, last_modified = 0\<rparr>]\<rparr>, commits = [], head = None\<rparr> :: string repository) \<and>
           author_email c = ''a'' \<and> message c = ''m'' \<and> date c = ''t2'' \<and>
           map_of (commits r') (hash c) = Some c \<and>
           commits r' = dict_set (commits (\<lparr>name = ''demo'', path = ''./demo'', branches = [(''main'', None)], current_branch = ''main'', staging_area = \<lparr>files = [\<lparr>filename = ''README.md'', file_status = ''A'', checksum = ''c'', file_size = 10, last_modified = 0\<rparr>]\<rparr>, commits = [], head = None\<rparr> :: string repository)) (hash c) c \<and>
           map_of (branches r') (current_branch r') = Some (Some (hash c)) \<and>
           branches r' = dict_set (branches (\<lparr>name = ''demo'', path = ''./demo'', branches = [(''main'', None)], current_branch = ''main'', staging_area = \<lparr>files = [\<lparr>filename = ''README.md'', file_status = ''A'', checksum = ''c'', file_size = 10, last_modified = 0\<rparr>]\<rparr>, commits = [], head = None\<rparr> :: string repository)) (current_branch (\<lparr>name = ''demo'', path = ''./demo'', branches = [(''main'', None)], current_branch = ''main'', staging_area = \<lparr>files = [\<lparr>filename = ''README.md'', file_status = ''A'', checksum = ''c'', file_size = 10, last_modified = 0\<rparr>]\<rparr>, commits = [], head = None\<rparr> :: string repository)) (Some (hash c)) \<and>
           current_branch r' = current_branch (\<lparr>name = ''demo'', path = ''./demo'', branches = [(''main'', None)], current_branch = ''main'', staging_area = \<lparr>files = [\<lparr>filename = ''README.md'', file_status = ''A'', checksum = ''c'', file_size = 10, last_modified = 0\<rparr>]\<rparr>, commits = [], head = None\<rparr> :: string repository) \<and> name r' = name (\<lparr>name = ''demo'', path = ''./demo'', branches = [(''main'', None)], current_branch = ''main'', staging_area = \<lparr>files = [\<lparr>filename = ''README.md'', file_status = ''A'', checksum = ''c'', file_size = 10, last_modified = 0\<rparr>]\<rparr>, commits = [], head = None\<rparr> :: string repository) \<and> path r' = path (\<lparr>name = ''demo'', path = ''./demo'', branches = [(''main'', None)], current_branch = ''main'', staging_area = \<lparr>files = [\<lparr>filename = ''README.md'', file_status = ''A'', checksum = ''c'', file_size = 10, last_modified = 0\<rparr>]\<rparr>, commits = [], head = None\<rparr> :: string repository) \<and>
           get_files (staging_area r') = [] \<and>
           m = CommitCreated (take 6 (hash c)) (current_branch (\<lparr>name = ''demo'', path = ''./demo'', branches = [(''main'', None)], current_branch = ''main'', staging_area = \<lparr>files = [\<lparr>filename = ''README.md'', file_status = ''A'', checksum = ''c'', file_size = 10, last_modified = 0\<rparr>]\<rparr>, commits = [], head = None\<rparr> :: string repository))))"
proof -
  have h: "files (staging_area (\<lparr>name = ''demo'', path = ''./demo'', branches = [(''main'', None)], current_branch = ''main'', staging_area = \<lparr>files = [\<lparr>filename = ''README.md'', file_status = ''A'', checksum = ''c'', file_size = 10, last_modified = 0\<rparr>]\<rparr>, commits = [], head = None\<rparr> :: string repository)) \<noteq> []" by simp
  show ?thesis
    by (rule conjI [OF h commit_nonempty [of "\<lparr>name = ''demo'', path = ''./demo'', branches = [(''main'', None)], current_branch = ''main'', staging_area = \<lparr>files = [\<lparr>filename = ''README.md'', file_status = ''A'', checksum = ''c'', file_size = 10, last_modified = 0\<rparr>]\<rparr>, commits = [], head = None\<rparr> :: string repository"
          "(\<lparr>sha1 = (\<lambda>s. s), dt_str = (\<lambda>d. d), dt_iso = (\<lambda>d. d), dt_fromiso = Inr\<rparr> :: string runtime)" "''m''" "''a''" "''t1''" "''t2''", OF h]])
qed

theorem log_terminates_after_run_witness:
  "fresh_run (\<lparr>sha1 = (\<lambda>s. s), dt_str = (\<lambda>d. d), dt_iso = (\<lambda>d. d), dt_fromiso = Inr\<rparr> :: string runtime) [OpAddFile (\<lambda>p. if p = ''README.md'' then Some \<lparr>fcontent = ''0123456789'', fmtime = 0\<rparr> else None) ''README.md'', OpCommit ''t1'' ''t2'' ''m'' ''a'', OpAddFile (\<lambda>p. if p = ''README.md'' then Some \<lparr>fcontent = ''0123456789'', fmtime = 0\<rparr> else None) ''README.md'', OpCommit ''t3'' ''t4'' ''m'' ''a''] (new_repository ''demo'' ''./demo'') \<and>
   (case repo_run (\<lparr>sha1 = (\<lambda>s. s), dt_str = (\<lambda>d. d), dt_iso = (\<lambda>d. d), dt_fromiso = Inr\<rparr> :: string runtime) [OpAddFile (\<lambda>p. if p = ''README.md'' then Some \<lparr>fcontent = ''0123456789'', fmtime = 0\<rparr> else None) ''README.md'', OpCommit ''t1'' ''t2'' ''m'' ''a'', OpAddFile (\<lambda>p. if p = ''README.md'' then Some \<lparr>fcontent = ''0123456789'', fmtime = 0\<rparr> else None) ''README.md'', OpCommit ''t3'' ''t4'' ''m'' ''a''] (new_repository ''demo'' ''./demo'') of
      Inl e \<Rightarrow> True
    | Inr r \<Rightarrow> (\<exists>l. log_walk (commits r) (head r) = Some l \<and> distinct (map hash l) \<and>
                 set l \<subseteq> snd ` set (commits r)))"
proof -
  have h: "fresh_run (\<lparr>sha1 = (\<lambda>s. s), dt_str = (\<lambda>d. d), dt_iso = (\<lambda>d. d), dt_fromiso = Inr\<rparr> :: string runtime) [OpAddFile (\<lambda>p. if p = ''README.md'' then Some \<lparr>fcontent = ''0123456789'', fmtime = 0\<rparr> else None) ''README.md'', OpCommit ''t1'' ''t2'' ''m'' ''a'', OpAddFile (\<lambda>p. if p = ''README.md'' then Some \<lparr>fcontent = ''0123456789'', fmtime = 0\<rparr> else None) ''README.md'', OpCommit ''t3'' ''t4'' ''m'' ''a''] (new_repository ''demo'' ''./demo'')"
    by (simp add: new_repository_def new_staging_def repo_add_file_def add_file_def repo_commit_def
        generate_hash_def get_files_def clear_def Let_def)
  show ?thesis using h log_terminates_after_run [OF h] by blast
qed

theorem commit_same_inputs_log_diverges_witness:
  "head (\<lparr>name = ''demo'', path = ''./demo'', branches = [(''main'', Some ''mat1'')], current_branch = ''main'', staging_area = \<lparr>files = [\<lparr>filename = ''README.md'', file_status = ''A'', checksum = ''c'', file_size = 10, last_modified = 0\<rparr>]\<rparr>, commits = [(''mat1'', \<lparr>hash = ''mat1'', date = ''t2'', author_email = ''a'', message = ''m'', parent_hash = None, commit_files = [''README.md''], branch = ''main''\<rparr>)], head = Some \<lparr>hash = ''mat1'', date = ''t2'', author_email = ''a'', message = ''m'', parent_hash = None, commit_files = [''README.md''], branch = ''main''\<rparr>\<rparr> :: string repository) = Some \<lparr>hash = ''mat1'', date = ''t2'', author_email = ''a'', message = ''m'', parent_hash = None, commit_files = [''README.md''], branch = ''main''\<rparr> \<and>
   hash \<lparr>hash = ''mat1'', date = ''t2'', author_email = ''a'', message = ''m'', parent_hash = None, commit_files = [''README.md''], branch = ''main''\<rparr> = generate_hash (\<lparr>sha1 = (\<lambda>s. s), dt_str = (\<lambda>d. d), dt_iso = (\<lambda>d. d), dt_fromiso = Inr\<rparr> :: string runtime) (''m'' @ ''a'' @ dt_str \<lparr>sha1 = (\<lambda>s. s), dt_str = (\<lambda>d. d), dt_iso = (\<lambda>d. d), dt_fromiso = Inr\<rparr> ''t1'') \<and>
   hash (\<lparr>hash = ''mat1'', date = ''t2'', author_email = ''a'', message = ''m'', parent_hash = None, commit_files = [''README.md''], branch = ''main''\<rparr> :: string commit) \<noteq> [] \<and> files (staging_area (\<lparr>name = ''demo'', path = ''./demo'', branches = [(''main'', Some ''mat1'')], current_branch = ''main'', staging_area = \<lparr>files = [\<lparr>filename = ''README.md'', file_status = ''A'', checksum = ''c'', file_size = 10, last_modified = 0\<rparr>]\<rparr>, commits = [(''mat1'', \<lparr>hash = ''mat1'', date = ''t2'', author_email = ''a'', message = ''m'', parent_hash = None, commit_files = [''README.md''], branch = ''main''\<rparr>)], head = Some \<lparr>hash = ''mat1'', date = ''t2'', author_email = ''a'', message = ''m'', parent_hash = None, commit_files = [''README.md''], branch = ''main''\<rparr>\<rparr> :: string repository)) \<noteq> [] \<and>
   log_walk (commits (fst (repo_commit (\<lparr>sha1 = (\<lambda>s. s), dt_str = (\<lambda>d. d), dt_iso = (\<lambda>d. d), dt_fromiso = Inr\<rparr> :: string runtime) ''t1'' ''t5'' ''m'' ''a'' \<lparr>name = ''demo'', path = ''./demo'', branches = [(''main'', Some ''mat1'')], current_branch = ''main'', staging_area = \<lparr>files = [\<lparr>filename = ''README.md'', file_status = ''A'', checksum = ''c'', file_size = 10, last_modified = 0\<rparr>]\<rparr>, commits = [(''mat1'', \<lparr>hash = ''mat1'', date = ''t2'', author_email = ''a'', message = ''m'', parent_hash = None, commit_files = [''README.md''], branch = ''main''\<rparr>)], head = Some \<lparr>hash = ''mat1'', date = ''t2'', author_email = ''a'', message = ''m'', parent_hash = None, commit_files = [''README.md''], branch = ''main''\<rparr>\<rparr>)))
            (head (fst (repo_commit (\<lparr>sha1 = (\<lambda>s. s), dt_str = (\<lambda>d. d), dt_iso = (\<lambda>d. d), dt_fromiso = Inr\<rparr> :: string runtime) ''t1'' ''t5'' ''m'' ''a'' \<lparr>name = ''demo'', path = ''./demo'', branches = [(''main'', Some ''mat1'')], current_branch = ''main'', staging_area = \<lparr>files = [\<lparr>filename = ''README.md'', file_status = ''A'', checksum = ''c'', file_size = 10, last_modified = 0\<rparr>]\<rparr>, commits = [(''mat1'', \<lparr>hash = ''mat1'', date = ''t2'', author_email = ''a'', message = ''m'', parent_hash = None, commit_files = [''README.md''], branch = ''main''\<rparr>)], head = Some \<lparr>hash = ''mat1'', date = ''t2'', author_email = ''a'', message = ''m'', parent_hash = None, commit_files = [''README.md''], branch = ''main''\<rparr>\<rparr>))) = None"
proof -
  have h1: "head (\<lparr>name = ''demo'', path = ''./demo'', branches = [(''main'', Some ''mat1'')], current_branch = ''main'', staging_area = \<lparr>files = [\<lparr>filename = ''README.md'', file_status = ''A'', checksum = ''c'', file_size = 10, last_modified = 0\<rparr>]\<rparr>, commits = [(''mat1'', \<lparr>hash = ''mat1'', date = ''t2'', author_email = ''a'', message = ''m'', parent_hash = None, commit_files = [''README.md''], branch = ''main''\<rparr>)], head = Some \<lparr>hash = ''mat1'', date = ''t2'', author_email = ''a'', message = ''m'', parent_hash = None, commit_files = [''README.md''], branch = ''main''\<rparr>\<rparr> :: string repository) = Some \<lparr>hash = ''mat1'', date = ''t2'', author_email = ''a'', message = ''m'', parent_hash = None, commit_files = [''README.md''], branch = ''main''\<rparr>" by simp
  have h2: "hash \<lparr>hash = ''mat1'', date = ''t2'', author_email = ''a'', message = ''m'', parent_hash = None, commit_files = [''README.md''], branch = ''main''\<rparr> = generate_hash (\<lparr>sha1 = (\<lambda>s. s), dt_str = (\<lambda>d. d), dt_iso = (\<lambda>d. d), dt_fromiso = Inr\<rparr> :: string runtime) (''m'' @ ''a'' @ dt_str \<lparr>sha1 = (\<lambda>s. s), dt_str = (\<lambda>d. d), dt_iso = (\<lambda>d. d), dt_fromiso = Inr\<rparr> ''t1'')"
    by (simp add: generate_hash_def)
  have h3: "hash (\<lparr>hash = ''mat1'', date = ''t2'', author_email = ''a'', message = ''m'', parent_hash = None, commit_files = [''README.md''], branch = ''main''\<rparr> :: string commit) \<noteq> []" by simp
  have h4: "files (staging_area (\<lparr>name = ''demo'', path = ''./demo'', branches = [(''main'', Some ''mat1'')], current_branch = ''main'', staging_area = \<lparr>files = [\<lparr>filename = ''README.md'', file_status = ''A'', checksum = ''c'', file_size = 10, last_modified = 0\<rparr>]\<rparr>, commits = [(''mat1'', \<lparr>hash = ''mat1'', date = ''t2'', author_email = ''a'', message = ''m'', parent_hash = None, commit_files = [''README.md''], branch = ''main''\<rparr>)], head = Some \<lparr>hash = ''mat1'', date = ''t2'', author_email = ''a'', message = ''m'', parent_hash = None, commit_files = [''README.md''], branch = ''main''\<rparr>\<rparr> :: string repository)) \<noteq> []" by simp
  show ?thesis using h1 h2 h3 h4 commit_same_inputs_log_diverges [OF h1 h2 h3 h4] by blast
qed

theorem repo_roundtrip_witness:
  "iso_roundtrip (\<lparr>sha1 = (\<lambda>s. s), dt_str = (\<lambda>d. d), dt_iso = (\<lambda>d. d), dt_fromiso = Inr\<rparr> :: string runtime) \<and> repo_inv (\<lparr>name = ''demo'', path = ''./demo'', branches = [(''main'', Some ''mat1'')], current_branch = ''main'', staging_area = \<lparr>files = [\<lparr>filename = ''README.md'', file_status = ''A'', checksum = ''c'', file_size = 10, last_modified = 0\<rparr>]\<rparr>, commits = [(''mat1'', \<lparr>hash = ''mat1'', date = ''t2'', author_email = ''a'', message = ''m'', parent_hash = None, commit_files = [''README.md''], branch = ''main''\<rparr>)], head = Some \<lparr>hash = ''mat1'', date = ''t2'', author_email = ''a'', message = ''m'', parent_hash = None, commit_files = [''README.md''], branch = ''main''\<rparr>\<rparr> :: string repository) \<and>
   repo_from_dict (\<lparr>sha1 = (\<lambda>s. s), dt_str = (\<lambda>d. d), dt_iso = (\<lambda>d. d), dt_fromiso = Inr\<rparr> :: string runtime) (repo_to_dict \<lparr>sha1 = (\<lambda>s. s), dt_str = (\<lambda>d. d), dt_iso = (\<lambda>d. d), dt_fromiso = Inr\<rparr> \<lparr>name = ''demo'', path = ''./demo'', branches = [(''main'', Some ''mat1'')], current_branch = ''main'', staging_area = \<lparr>files = [\<lparr>filename = ''README.md'', file_status = ''A'', checksum = ''c'', file_size = 10, last_modified = 0\<rparr>]\<rparr>, commits = [(''mat1'', \<lparr>hash = ''mat1'', date = ''t2'', author_email = ''a'', message = ''m'', parent_hash = None, commit_files = [''README.md''], branch = ''main''\<rparr>)], head = Some \<lparr>hash = ''mat1'', date = ''t2'', author_email = ''a'', message = ''m'', parent_hash = None, commit_files = [''README.md''], branch = ''main''\<rparr>\<rparr>) =
     Inr ((\<lparr>name = ''demo'', path = ''./demo'', branches = [(''main'', Some ''mat1'')], current_branch = ''main'', staging_area = \<lparr>files = [\<lparr>filename = ''README.md'', file_status = ''A'', checksum = ''c'', file_size = 10, last_modified = 0\<rparr>]\<rparr>, commits = [(''mat1'', \<lparr>hash = ''mat1'', date = ''t2'', author_email = ''a'', message = ''m'', parent_hash = None, commit_files = [''README.md''], branch = ''main''\<rparr>)], head = Some \<lparr>hash = ''mat1'', date = ''t2'', author_email = ''a'', message = ''m'', parent_hash = None, commit_files = [''README.md''], branch = ''main''\<rparr>\<rparr> :: string repository)\<lparr>staging_area := new_staging\<rparr>)"
proof -
  have h1: "iso_roundtrip (\<lparr>sha1 = (\<lambda>s. s), dt_str = (\<lambda>d. d), dt_iso = (\<lambda>d. d), dt_fromiso = Inr\<rparr> :: string runtime)" by (simp add: iso_roundtrip_def)
  have h2: "repo_inv (\<lparr>name = ''demo'', path = ''./demo'', branches = [(''main'', Some ''mat1'')], current_branch = ''main'', staging_area = \<lparr>files = [\<lparr>filename = ''README.md'', file_status = ''A'', checksum = ''c'', file_size = 10, last_modified = 0\<rparr>]\<rparr>, commits = [(''mat1'', \<lparr>hash = ''mat1'', date = ''t2'', author_email = ''a'', message = ''m'', parent_hash = None, commit_files = [''README.md''], branch = ''main''\<rparr>)], head = Some \<lparr>hash = ''mat1'', date = ''t2'', author_email = ''a'', message = ''m'', parent_hash = None, commit_files = [''README.md''], branch = ''main''\<rparr>\<rparr> :: string repository)" by (simp add: repo_inv_def store_ok_def)
  show ?thesis using h1 h2 repo_roundtrip [OF h1 h2] by blast
qed

theorem commit_extends_log_witness:
  "repo_inv (\<lparr>name = ''demo'', path = ''./demo'', branches = [(''main'', Some ''mat1'')], current_branch = ''main'', staging_area = \<lparr>files = [\<lparr>filename = ''README.md'', file_status = ''A'', checksum = ''c'', file_size = 10, last_modified = 0\<rparr>]\<rparr>, commits = [(''mat1'', \<lparr>hash = ''mat1'', date = ''t2'', author_email = ''a'', message = ''m'', parent_hash = None, commit_files = [''README.md''], branch = ''main''\<rparr>)], head = Some \<lparr>hash = ''mat1'', date = ''t2'', author_email = ''a'', message = ''m'', parent_hash = None, commit_files = [''README.md''], branch = ''main''\<rparr>\<rparr> :: string repository) \<and> chain_ordered (commits (\<lparr>name = ''demo'', path = ''./demo'', branches = [(''main'', Some ''mat1'')], current_branch = ''main'', staging_area = \<lparr>files = [\<lparr>filename = ''README.md'', file_status = ''A'', checksum = ''c'', file_size = 10, last_modified = 0\<rparr>]\<rparr>, commits = [(''mat1'', \<lparr>hash = ''mat1'', date = ''t2'', author_email = ''a'', message = ''m'', parent_hash = None, commit_files = [''README.md''], branch = ''main''\<rparr>)], head = Some \<lparr>hash = ''mat1'', date = ''t2'', author_email = ''a'', message = ''m'', parent_hash = None, commit_files = [''README.md''], branch = ''main''\<rparr>\<rparr> :: string repository)) \<and> files (staging_area (\<lparr>name = ''demo'', path = ''./demo'', branches = [(''main'', Some ''mat1'')], current_branch = ''main'', staging_area = \<lparr>files = [\<lparr>filename = ''README.md'', file_status = ''A'', checksum = ''c'', file_size = 10, last_modified = 0\<rparr>]\<rparr>, commits = [(''mat1'', \<lparr>hash = ''mat1'', date = ''t2'', author_email = ''a'', message = ''m'', parent_hash = None, commit_files = [''README.md''], branch = ''main''\<rparr>)], head = Some \<lparr>hash = ''mat1'', date = ''t2'', author_email = ''a'', message = ''m'', parent_hash = None, commit_files = [''README.md''], branch = ''main''\<rparr>\<rparr> :: string repository)) \<noteq> [] \<and>
   generate_hash (\<lparr>sha1 = (\<lambda>s. s), dt_str = (\<lambda>d. d), dt_iso = (\<lambda>d. d), dt_fromiso = Inr\<rparr> :: string runtime) (''m2'' @ ''a'' @ dt_str (\<lparr>sha1 = (\<lambda>s. s), dt_str = (\<lambda>d. d), dt_iso = (\<lambda>d. d), dt_fromiso = Inr\<rparr> :: string runtime) ''t3'') \<notin> fst ` set (commits (\<lparr>name = ''demo'', path = ''./demo'', branches = [(''main'', Some ''mat1'')], current_branch = ''main'', staging_area = \<lparr>files = [\<lparr>filename = ''README.md'', file_status = ''A'', checksum = ''c'', file_size = 10, last_modified = 0\<rparr>]\<rparr>, commits = [(''mat1'', \<lparr>hash = ''mat1'', date = ''t2'', author_email = ''a'', message = ''m'', parent_hash = None, commit_files = [''README.md''], branch = ''main''\<rparr>)], head = Some \<lparr>hash = ''mat1'', date = ''t2'', author_email = ''a'', message = ''m'', parent_hash = None, commit_files = [''README.md''], branch = ''main''\<rparr>\<rparr> :: string repository)) \<and>
   (case head (\<lparr>name = ''demo'', path = ''./demo'', branches = [(''main'', Some ''mat1'')], current_branch = ''main'', staging_area = \<lparr>files = [\<lparr>filename = ''README.md'', file_status = ''A'', checksum = ''c'', file_size = 10, last_modified = 0\<rparr>]\<rparr>, commits = [(''mat1'', \<lparr>hash = ''mat1'', date = ''t2'', author_email = ''a'', message = ''m'', parent_hash = None, commit_files = [''README.md''], branch = ''main''\<rparr>)], head = Some \<lparr>hash = ''mat1'', date = ''t2'', author_email = ''a'', message = ''m'', parent_hash = None, commit_files = [''README.md''], branch = ''main''\<rparr>\<rparr> :: string repository) of None \<Rightarrow> True | Some c0 \<Rightarrow> hash c0 \<noteq> []) \<and>
   (\<exists>c l. log_walk (commits (\<lparr>name = ''demo'', path = ''./demo'', branches = [(''main'', Some ''mat1'')], current_branch = ''main'', staging_area = \<lparr>files = [\<lparr>filename = ''README.md'', file_status = ''A'', checksum = ''c'', file_size = 10, last_modified = 0\<rparr>]\<rparr>, commits = [(''mat1'', \<lparr>hash = ''mat1'', date = ''t2'', author_email = ''a'', message = ''m'', parent_hash = None, commit_files = [''README.md''], branch = ''main''\<rparr>)], head = Some \<lparr>hash = ''mat1'', date = ''t2'', author_email = ''a'', message = ''m'', parent_hash = None, commit_files = [''README.md''], branch = ''main''\<rparr>\<rparr> :: string repository)) (head (\<lparr>name = ''demo'', path = ''./demo'', branches = [(''main'', Some ''mat1'')], current_branch = ''main'', staging_area = \<lparr>files = [\<lparr>filename = ''README.md'', file_status = ''A'', checksum = ''c'', file_size = 10, last_modified = 0\<rparr>]\<rparr>, commits = [(''mat1'', \<lparr>hash = ''mat1'', date = ''t2'', author_email = ''a'', message = ''m'', parent_hash = None, commit_files = [''README.md''], branch = ''main''\<rparr>)], head = Some \<lparr>hash = ''mat1'', date = ''t2'', author_email = ''a'', message = ''m'', parent_hash = None, commit_files = [''README.md''], branch = ''main''\<rparr>\<rparr> :: string repository)) = Some l \<and>
      head (fst (repo_commit (\<lparr>sha1 = (\<lambda>s. s), dt_str = (\<lambda>d. d), dt_iso = (\<lambda>d. d), dt_fromiso = Inr\<rparr> :: string runtime) ''t3'' ''t4'' ''m2'' ''a'' (\<lparr>name = ''demo'', path = ''./demo'', branches = [(''main'', Some ''mat1'')], current_branch = ''main'', staging_area = \<lparr>files = [\<lparr>filename = ''README.md'', file_status = ''A'', checksum = ''c'', file_size = 10, last_modified = 0\<rparr>]\<rparr>, commits = [(''mat1'', \<lparr>hash = ''mat1'', date = ''t2'', author_email = ''a'', message = ''m'', parent_hash = None, commit_files = [''README.md''], branch = ''main''\<rparr>)], head = Some \<lparr>hash = ''mat1'', date = ''t2'', author_email = ''a'', message = ''m'', parent_hash = None, commit_files = [''README.md''], branch = ''main''\<rparr>\<rparr> :: string repository))) = Some c \<and>
      log_walk (commits (fst (repo_commit (\<lparr>sha1 = (\<lambda>s. s), dt_str = (\<lambda>d. d), dt_iso = (\<lambda>d. d), dt_fromiso = Inr\<rparr> :: string runtime) ''t3'' ''t4'' ''m2'' ''a'' (\<lparr>name = ''demo'', path = ''./demo'', branches = [(''main'', Some ''mat1'')], current_branch = ''main'', staging_area = \<lparr>files = [\<lparr>filename = ''README.md'', file_status = ''A'', checksum = ''c'', file_size = 10, last_modified = 0\<rparr>]\<rparr>, commits = [(''mat1'', \<lparr>hash = ''mat1'', date = ''t2'', author_email = ''a'', message = ''m'', parent_hash = None, commit_files = [''README.md''], branch = ''main''\<rparr>)], head = Some \<lparr>hash = ''mat1'', date = ''t2'', author_email = ''a'', message = ''m'', parent_hash = None, commit_files = [''README.md''], branch = ''main''\<rparr>\<rparr> :: string repository))))
               (head (fst (repo_commit (\<lparr>sha1 = (\<lambda>s. s), dt_str = (\<lambda>d. d), dt_iso = (\<lambda>d. d), dt_fromiso = Inr\<rparr> :: string runtime) ''t3'' ''t4'' ''m2'' ''a'' (\<lparr>name = ''demo'', path = ''./demo'', branches = [(''main'', Some ''mat1'')], current_branch = ''main'', staging_area = \<lparr>files = [\<lparr>filename = ''README.md'', file_status = ''A'', checksum = ''c'', file_size = 10, last_modified = 0\<rparr>]\<rparr>, commits = [(''mat1'', \<lparr>hash = ''mat1'', date = ''t2'', author_email = ''a'', message = ''m'', parent_hash = None, commit_files = [''README.md''], branch = ''main''\<rparr>)], head = Some \<lparr>hash = ''mat1'', date = ''t2'', author_email = ''a'', message = ''m'', parent_hash = None, commit_files = [''README.md''], branch = ''main''\<rparr>\<rparr> :: string repository)))) = Some (c # l))"
proof -
  have h1: "repo_inv (\<lparr>name = ''demo'', path = ''./demo'', branches = [(''main'', Some ''mat1'')], current_branch = ''main'', staging_area = \<lparr>files = [\<lparr>filename = ''README.md'', file_status = ''A'', checksum = ''c'', file_size = 10, last_modified = 0\<rparr>]\<rparr>, commits = [(''mat1'', \<lparr>hash = ''mat1'', date = ''t2'', author_email = ''a'', message = ''m'', parent_hash = None, commit_files = [''README.md''], branch = ''main''\<rparr>)], head = Some \<lparr>hash = ''mat1'', date = ''t2'', author_email = ''a'', message = ''m'', parent_hash = None, commit_files = [''README.md''], branch = ''main''\<rparr>\<rparr> :: string repository)" by (simp add: repo_inv_def store_ok_def)
  have h2: "chain_ordered (commits (\<lparr>name = ''demo'', path = ''./demo'', branches = [(''main'', Some ''mat1'')], current_branch = ''main'', staging_area = \<lparr>files = [\<lparr>filename = ''README.md'', file_status = ''A'', checksum = ''c'', file_size = 10, last_modified = 0\<rparr>]\<rparr>, commits = [(''mat1'', \<lparr>hash = ''mat1'', date = ''t2'', author_email = ''a'', message = ''m'', parent_hash = None, commit_files = [''README.md''], branch = ''main''\<rparr>)], head = Some \<lparr>hash = ''mat1'', date = ''t2'', author_email = ''a'', message = ''m'', parent_hash = None, commit_files = [''README.md''], branch = ''main''\<rparr>\<rparr> :: string repository))" by (simp add: chain_ordered_def parent_link_def)
  have h3: "files (staging_area (\<lparr>name = ''demo'', path = ''./demo'', branches = [(''main'', Some ''mat1'')], current_branch = ''main'', staging_area = \<lparr>files = [\<lparr>filename = ''README.md'', file_status = ''A'', checksum = ''c'', file_size = 10, last_modified = 0\<rparr>]\<rparr>, commits = [(''mat1'', \<lparr>hash = ''mat1'', date = ''t2'', author_email = ''a'', message = ''m'', parent_hash = None, commit_files = [''README.md''], branch = ''main''\<rparr>)], head = Some \<lparr>hash = ''mat1'', date = ''t2'', author_email = ''a'', message = ''m'', parent_hash = None, commit_files = [''README.md''], branch = ''main''\<rparr>\<rparr> :: string repository)) \<noteq> []" by simp
  have h4: "generate_hash (\<lparr>sha1 = (\<lambda>s. s), dt_str = (\<lambda>d. d), dt_iso = (\<lambda>d. d), dt_fromiso = Inr\<rparr> :: string runtime) (''m2'' @ ''a'' @ dt_str (\<lparr>sha1 = (\<lambda>s. s), dt_str = (\<lambda>d. d), dt_iso = (\<lambda>d. d), dt_fromiso = Inr\<rparr> :: string runtime) ''t3'') \<notin> fst ` set (commits (\<lparr>name = ''demo'', path = ''./demo'', branches = [(''main'', Some ''mat1'')], current_branch = ''main'', staging_area = \<lparr>files = [\<lparr>filename = ''README.md'', file_status = ''A'', checksum = ''c'', file_size = 10, last_modified = 0\<rparr>]\<rparr>, commits = [(''mat1'', \<lparr>hash = ''mat1'', date = ''t2'', author_email = ''a'', message = ''m'', parent_hash = None, commit_files = [''README.md''], branch = ''main''\<rparr>)], head = Some \<lparr>hash = ''mat1'', date = ''t2'', author_email = ''a'', message = ''m'', parent_hash = None, commit_files = [''README.md''], branch = ''main''\<rparr>\<rparr> :: string repository))"
    by (simp add: generate_hash_def)
  have h5: "case head (\<lparr>name = ''demo'', path = ''./demo'', branches = [(''main'', Some ''mat1'')], current_branch = ''main'', staging_area = \<lparr>files = [\<lparr>filename = ''README.md'', file_status = ''A'', checksum = ''c'', file_size = 10, last_modified = 0\<rparr>]\<rparr>, commits = [(''mat1'', \<lparr>hash = ''mat1'', date = ''t2'', author_email = ''a'', message = ''m'', parent_hash = None, commit_files = [''README.md''], branch = ''main''\<rparr>)], head = Some \<lparr>hash = ''mat1'', date = ''t2'', author_email = ''a'', message = ''m'', parent_hash = None, commit_files = [''README.md''], branch = ''main''\<rparr>\<rparr> :: string repository) of None \<Rightarrow> True | Some c0 \<Rightarrow> hash c0 \<noteq> []" by simp
  show ?thesis using h1 h2 h3 h4 h5 commit_extends_log [OF h1 h2 h3 h4 h5] by blast
qed

end
