(* ===== verification/Manager.thy ===== *)
theory Manager
  imports Repository
begin

text \<open>
  The registry of repositories of \<open>src/proyecto1/repository.py\<close> (class
  \<open>RepositoryManager\<close>): a list of repositories searched by linear scan.
  \<open>create_repository\<close> appends without checking the name, \<open>get_repository\<close> returns
  the first repository of that name, \<open>list_repositories\<close> lists names in creation
  order, \<open>load_repositories\<close> and \<open>to_dict\<close> convert the whole list.
\<close>

section \<open>State and operations\<close>

record 'd repo_manager =
  repositories :: "'d repository list"

definition new_manager :: "'d repo_manager" where
  "new_manager = \<lparr>repositories = []\<rparr>"

definition create_repository ::
  "string \<Rightarrow> string \<Rightarrow> 'd repo_manager \<Rightarrow> 'd repo_manager \<times> 'd repository" where
  "create_repository nm p m =
     (let r = new_repository nm p in (m\<lparr>repositories := repositories m @ [r]\<rparr>, r))"

definition get_repository :: "string \<Rightarrow> 'd repo_manager \<Rightarrow> 'd repository option" where
  "get_repository nm m = find (\<lambda>r. name r = nm) (repositories m)"

definition list_repositories :: "'d repo_manager \<Rightarrow> string list" where
  "list_repositories m = map name (repositories m)"

text \<open>\<open>self.repositories = [Repository.from_dict(d) for d in data]\<close>: the comprehension
  raises before the assignment, so a failed load leaves the registry unchanged.\<close>

definition load_repositories ::
  "'d runtime \<Rightarrow> json \<Rightarrow> 'd repo_manager \<Rightarrow> 'd repo_manager result" where
  "load_repositories R data m =
     rbind (json_iter data) (\<lambda>ds.
     rbind (rmap (repo_from_dict R) ds) (\<lambda>rs. Inr (m\<lparr>repositories := rs\<rparr>)))"

definition manager_to_dict :: "'d runtime \<Rightarrow> 'd repo_manager \<Rightarrow> json" where
  "manager_to_dict R m = JList (map (repo_to_dict R) (repositories m))"

section \<open>Lemmas\<close>

text \<open>C21: \<open>create_repository\<close> appends a fresh \<open>Repository(name, path)\<close> whatever the
  registry holds; \<open>get_repository\<close> then returns the first repository of that name,
  which is the new one only if the name was not taken, and the name list grows by the
  name.\<close>

theorem create_then_get:
  "case create_repository nm p m of (m', r) \<Rightarrow>
     r = new_repository nm p \<and>
     list_repositories m' = list_repositories m @ [nm] \<and>
     get_repository nm m' =
       (case get_repository nm m of None \<Rightarrow> Some (new_repository nm p) | Some r0 \<Rightarrow> Some r0)"
  by (simp add: create_repository_def get_repository_def list_repositories_def Let_def
      find_append_cases split: option.split) (simp add: new_repository_def)

lemma manager_from_to_dict:
  assumes "iso_roundtrip R" and "list_all repo_inv (repositories m)"
  shows "load_repositories R (manager_to_dict R m) m' =
           Inr (m'\<lparr>repositories := map (\<lambda>r. r\<lparr>staging_area := new_staging\<rparr>) (repositories m)\<rparr>)"
proof -
  have "rmap (repo_from_dict R) (map (repo_to_dict R) (repositories m)) =
      Inr (map (\<lambda>r. r\<lparr>staging_area := new_staging\<rparr>) (repositories m))"
    using assms by (intro rmap_map) (auto simp: repo_from_to_dict list_all_iff)
  then show ?thesis by (simp add: load_repositories_def manager_to_dict_def)
qed

text \<open>C22: saving the registry and loading it back gives every repository back with an
  empty staging area, when every repository satisfies the repository invariant.\<close>

theorem manager_roundtrip:
  assumes "iso_roundtrip R" and "list_all repo_inv (repositories m)"
  shows "load_repositories R (manager_to_dict R m) m' =
           Inr (m'\<lparr>repositories := map (\<lambda>r. r\<lparr>staging_area := new_staging\<rparr>) (repositories m)\<rparr>)"
  using assms by (rule manager_from_to_dict)

theorem manager_roundtrip_witness:
  "iso_roundtrip (\<lparr>sha1 = (\<lambda>s. s), dt_str = (\<lambda>d. d), dt_iso = (\<lambda>d. d), dt_fromiso = Inr\<rparr> :: string runtime) \<and> list_all repo_inv (repositories (\<lparr>repositories = [new_repository ''demo'' ''./demo'']\<rparr> :: string repo_manager)) \<and>
   load_repositories (\<lparr>sha1 = (\<lambda>s. s), dt_str = (\<lambda>d. d), dt_iso = (\<lambda>d. d), dt_fromiso = Inr\<rparr> :: string runtime) (manager_to_dict (\<lparr>sha1 = (\<lambda>s. s), dt_str = (\<lambda>d. d), dt_iso = (\<lambda>d. d), dt_fromiso = Inr\<rparr> :: string runtime) (\<lparr>repositories = [new_repository ''demo'' ''./demo'']\<rparr> :: string repo_manager)) new_manager = Inr (\<lparr>repositories = [new_repository ''demo'' ''./demo'']\<rparr> :: string repo_manager)"
proof -
  have h1: "iso_roundtrip (\<lparr>sha1 = (\<lambda>s. s), dt_str = (\<lambda>d. d), dt_iso = (\<lambda>d. d), dt_fromiso = Inr\<rparr> :: string runtime)" by (simp add: iso_roundtrip_def)
  have h2: "list_all repo_inv (repositories (\<lparr>repositories = [new_repository ''demo'' ''./demo'']\<rparr> :: string repo_manager))" by (simp add: repo_inv_new)
  have h3: "load_repositories (\<lparr>sha1 = (\<lambda>s. s), dt_str = (\<lambda>d. d), dt_iso = (\<lambda>d. d), dt_fromiso = Inr\<rparr> :: string runtime) (manager_to_dict (\<lparr>sha1 = (\<lambda>s. s), dt_str = (\<lambda>d. d), dt_iso = (\<lambda>d. d), dt_fromiso = Inr\<rparr> :: string runtime) (\<lparr>repositories = [new_repository ''demo'' ''./demo'']\<rparr> :: string repo_manager)) new_manager =
      Inr (new_manager\<lparr>repositories := map (\<lambda>r. r\<lparr>staging_area := new_staging\<rparr>) (repositories (\<lparr>repositories = [new_repository ''demo'' ''./demo'']\<rparr> :: string repo_manager))\<rparr>)"
    by (rule manager_roundtrip [OF h1 h2])
  show ?thesis using h1 h2 h3 by (simp add: new_manager_def new_repository_def)
qed

end
