(* ===== verification/Commands.thy ===== *)
theory Commands
  imports Manager
begin

text \<open>
  The commands of \<open>src/proyecto1/commands.py\<close> (\<open>GitInitCommand\<close>,
  \<open>GitStatusCommand\<close>, \<open>GitLogCommand\<close>) and the parts of \<open>GitSimulator\<close>
  (\<open>src/proyecto1/main.py\<close>) that decide what runs: the command table built from the
  configuration, \<open>execute_command\<close>, the start-up load of the repositories, the
  input loop \<open>run\<close> with \<open>save_data\<close>, the \<open>__main__\<close> block, and the strings
  the commands return (\<open>cmd_text\<close>).
  The simulator's \<open>current_repo\<close> is a reference to a repository object that is also
  in the registry's list; it is modelled as the index of that repository in the list,
  so that a change through either name is a change of the one stored repository.
  \<open>git log\<close> may not return, so the result of \<open>execute_command\<close> is an option.
\<close>

section \<open>State\<close>

record 'd simulator =
  repo_manager :: "'d repo_manager"
  current_repo :: "nat option"
  commands_enabled :: "(string, bool) pydict"

datatype 'd cmd_msg =
    InitUsage
  | RepoExists string
  | RepoInitialized string
  | StatusNoRepo
  | StatusReport string "(string \<times> string) list"
  | LogNoRepo
  | NoCommitsYet
  | LogReport string "'d commit list"
  | CommandUnavailable string

definition current :: "'d simulator \<Rightarrow> 'd repository option" where
  "current s =
     (case current_repo s of
        None \<Rightarrow> None
      | Some i \<Rightarrow> if i < length (repositories (repo_manager s))
                  then Some (repositories (repo_manager s) ! i) else None)"

section \<open>Commands\<close>

text \<open>\<open>GitInitCommand.execute\<close>; the repository object returned by
  \<open>get_repository\<close> is always true.\<close>

definition git_init :: "string list \<Rightarrow> 'd simulator \<Rightarrow> 'd simulator \<times> 'd cmd_msg" where
  "git_init args s =
     (case args of
        [] \<Rightarrow> (s, InitUsage)
      | nm # _ \<Rightarrow>
          if get_repository nm (repo_manager s) \<noteq> None then (s, RepoExists nm)
          else (s\<lparr>repo_manager := fst (create_repository nm (''./'' @ nm) (repo_manager s)),
                  current_repo := Some (length (repositories (repo_manager s)))\<rparr>,
                RepoInitialized nm))"

definition git_status :: "'d simulator \<Rightarrow> 'd cmd_msg" where
  "git_status s =
     (case current s of
        None \<Rightarrow> StatusNoRepo
      | Some r \<Rightarrow> StatusReport (current_branch r)
                   (map (\<lambda>f. (file_status f, filename f)) (files (staging_area r))))"

definition git_log :: "'d simulator \<Rightarrow> 'd cmd_msg option" where
  "git_log s =
     (case current s of
        None \<Rightarrow> Some LogNoRepo
      | Some r \<Rightarrow>
          if commits r = [] then Some NoCommitsYet
          else map_option (LogReport (current_branch r)) (log_walk (commits r) (head r)))"

section \<open>The simulator\<close>

definition default_config :: json where
  "default_config = JObj [(''commands'', JObj
     [(''init'', JBool True), (''add'', JBool True), (''commit'', JBool True),
      (''status'', JBool True), (''log'', JBool True), (''branch'', JBool True),
      (''checkout'', JBool True), (''merge'', JBool True), (''pr'', JBool True)])]"

fun json_items :: "json \<Rightarrow> (string \<times> json) list result" where
  "json_items (JObj kvs) = Inr kvs"
| "json_items _ = Inl (AttributeError ''items'')"

text \<open>The three command objects of \<open>_initialize_commands\<close>, each created with
  \<open>Command.__init__\<close>, which sets \<open>enabled = True\<close>.\<close>

definition initial_commands :: "(string, bool) pydict" where
  "initial_commands = [(''init'', True), (''status'', True), (''log'', True)]"

text \<open>\<open>_initialize_commands\<close>: a missing or corrupt configuration file gives the
  default configuration; each configured name that is a command sets its flag (read by
  truthiness when the command runs).\<close>

definition initialize_commands :: "json result \<Rightarrow> (string, bool) pydict result" where
  "initialize_commands cfg =
     rbind (case cfg of
              Inl (FileNotFoundError f) \<Rightarrow> Inr default_config
            | Inl JSONDecodeError \<Rightarrow> Inr default_config
            | Inl e \<Rightarrow> Inl e
            | Inr c \<Rightarrow> Inr c)
       (\<lambda>config. rbind (json_field config ''commands'' json_items) (\<lambda>items.
          Inr (fold (\<lambda>(n, v) en. if n \<in> fst ` set en then dict_set en n (py_truthy v) else en)
                 items initial_commands)))"

text \<open>The file \<open>_initialize_commands\<close> writes: the default configuration when
  \<open>config.json\<close> does not exist, nothing otherwise.\<close>

definition config_written :: "json result \<Rightarrow> json option" where
  "config_written cfg = (case cfg of Inl (FileNotFoundError f) \<Rightarrow> Some default_config | _ \<Rightarrow> None)"

text \<open>\<open>GitSimulator.__init__\<close>: the configuration file, then \<open>_load_data\<close>, whose
  \<open>repos.json\<close> is read only if it exists (\<open>None\<close> when it does not); a decode or
  I/O error while reading (\<open>FileNotFoundError\<close> is the model's I/O error) is reported
  and ignored; an exception of \<open>load_repositories\<close> escapes the constructor.\<close>

definition simulator_init ::
  "'d runtime \<Rightarrow> json result \<Rightarrow> json result option \<Rightarrow> 'd simulator result" where
  "simulator_init R cfg repos =
     rbind (initialize_commands cfg) (\<lambda>en.
       let s = \<lparr>repo_manager = new_manager, current_repo = None, commands_enabled = en\<rparr>
       in case repos of
            None \<Rightarrow> Inr s
          | Some (Inl JSONDecodeError) \<Rightarrow> Inr s
          | Some (Inl (FileNotFoundError f)) \<Rightarrow> Inr s
          | Some (Inl e) \<Rightarrow> Inl e
          | Some (Inr data) \<Rightarrow>
              rbind (load_repositories R data (repo_manager s))
                (\<lambda>m. Inr (s\<lparr>repo_manager := m\<rparr>)))"

definition execute_command ::
  "string \<Rightarrow> string list \<Rightarrow> 'd simulator \<Rightarrow> ('d simulator \<times> 'd cmd_msg) option" where
  "execute_command cmd args s =
     (if map_of (commands_enabled s) cmd = Some True then
        (if cmd = ''init'' then Some (git_init args s)
         else if cmd = ''status'' then Some (s, git_status s)
         else if cmd = ''log'' then map_option (Pair s) (git_log s)
         else Some (s, CommandUnavailable cmd))
      else Some (s, CommandUnavailable cmd))"

text \<open>\<open>save_data\<close>: the value \<open>json.dump\<close> writes to \<open>data/repos.json\<close>; an
  \<open>IOError\<close> while writing is printed and ignored.\<close>

definition save_data :: "'d runtime \<Rightarrow> 'd simulator \<Rightarrow> json" where
  "save_data R s = manager_to_dict R (repo_manager s)"

text \<open>The strings the commands return and \<open>run\<close> prints; the quote character
  and the accented letters (U+00ED, U+00FA) are written as their code points.\<close>

definition cmd_text :: "'d runtime \<Rightarrow> 'd cmd_msg \<Rightarrow> string" where
  "cmd_text R m =
     (case m of
        InitUsage \<Rightarrow> ''Uso: git init <nombre_repositorio>''
      | RepoExists nm \<Rightarrow> ''El repositorio '' @ [CHR 0x27] @ nm @ [CHR 0x27] @ '' ya existe.''
      | RepoInitialized nm \<Rightarrow>
          ''Repositorio vac'' @ [CHR 0xED] @ ''o '' @ [CHR 0x27] @ nm @ [CHR 0x27] @ '' inicializado.''
      | StatusNoRepo \<Rightarrow>
          ''No hay repositorio seleccionado. Use '' @ [CHR 0x27] @ ''git init'' @ [CHR 0x27] @
          '' o seleccione un repositorio.''
      | StatusReport b fs \<Rightarrow>
          ''En la rama '' @ b @ py_nl @
          (if fs \<noteq> []
           then py_nl @ ''Archivos en staging:'' @ py_nl @
                concat (map (\<lambda>(st, f). ''  '' @ st @ '': '' @ f @ py_nl) fs)
           else py_nl @ ''No hay archivos en staging'' @ py_nl)
      | LogNoRepo \<Rightarrow> ''No hay repositorio seleccionado.''
      | NoCommitsYet \<Rightarrow> ''No hay commits a'' @ [CHR 0xFA] @ ''n en este repositorio.''
      | LogReport b cs \<Rightarrow>
          ''Historial de commits (rama '' @ b @ ''):'' @ py_nl @
          concat (map (\<lambda>c. py_nl @ commit_str R c) cs)
      | CommandUnavailable c \<Rightarrow> ''Comando '' @ [CHR 0x27] @ c @ [CHR 0x27] @ '' no disponible.'')"

text \<open>A session of commands, as the loop of \<open>run\<close> issues them; \<open>None\<close> when one of
  them never returns.\<close>

fun run_commands ::
  "(string \<times> string list) list \<Rightarrow> 'd simulator \<Rightarrow> ('d simulator \<times> 'd cmd_msg list) option" where
  "run_commands [] s = Some (s, [])"
| "run_commands ((cmd, args) # cs) s =
     Option.bind (execute_command cmd args s) (\<lambda>(s1, msg).
       map_option (\<lambda>(s2, msgs). (s2, msg # msgs)) (run_commands cs s1))"

text \<open>\<open>GitSimulator.run\<close> on the lines the user types. A blank line is skipped; a line
  whose first word is \<open>exit\<close> saves the registry (the value written to \<open>repos.json\<close>
  is returned) and ends the loop; any other line runs \<open>execute_command\<close> on its words
  and prints the answer. When the input is exhausted \<open>input()\<close> raises \<open>EOFError\<close>,
  which the \<open>except Exception\<close> of the loop prints before reading again.\<close>

partial_function (option) run_loop ::
  "'d runtime \<Rightarrow> string list \<Rightarrow> 'd simulator \<Rightarrow> (json \<times> 'd cmd_msg list) option" where
  "run_loop R inp s =
     (case inp of
        [] \<Rightarrow> run_loop R [] s
      | l # rest \<Rightarrow>
          (case py_words (py_strip l) of
             [] \<Rightarrow> run_loop R rest s
           | cmd # args \<Rightarrow>
               if cmd = ''exit'' then Some (save_data R s, [])
               else Option.bind (execute_command cmd args s) (\<lambda>(s1, msg).
                      Option.bind (run_loop R rest s1) (\<lambda>(j, msgs). Some (j, msg # msgs)))))"

definition is_exit_line :: "string \<Rightarrow> bool" where
  "is_exit_line l = (case py_words (py_strip l) of [] \<Rightarrow> False | cmd # _ \<Rightarrow> cmd = ''exit'')"

text \<open>\<open>if __name__ == "__main__"\<close>: construct the simulator, then run the loop on the
  input; an exception of the constructor ends the program (\<open>Inl\<close>), a loop that never
  ends is \<open>None\<close>.\<close>

definition git_main ::
  "'d runtime \<Rightarrow> json result \<Rightarrow> json result option \<Rightarrow> string list \<Rightarrow>
   (py_error + json \<times> 'd cmd_msg list) option" where
  "git_main R cfg repos inp =
     (case simulator_init R cfg repos of
        Inl e \<Rightarrow> Some (Inl e)
      | Inr s \<Rightarrow> map_option Inr (run_loop R inp s))"

text \<open>The registry of a simulator lists each name once and the current repository,
  when set, is one of its entries.\<close>

definition sim_inv :: "'d simulator \<Rightarrow> bool" where
  "sim_inv s \<longleftrightarrow>
     distinct (list_repositories (repo_manager s)) \<and>
     (case current_repo s of None \<Rightarrow> True | Some i \<Rightarrow> i < length (repositories (repo_manager s)))"

text \<open>Every repository of the registry has a well-formed store whose parent links
  point backwards, so that \<open>git log\<close> ends on it.\<close>

definition repos_ok :: "'d simulator \<Rightarrow> bool" where
  "repos_ok s \<longleftrightarrow>
     list_all (\<lambda>r. repo_inv r \<and> chain_ordered (commits r)) (repositories (repo_manager s))"

section \<open>Lemmas\<close>

lemma current_in_set:
  "current s = Some r \<Longrightarrow> r \<in> set (repositories (repo_manager s))"
  by (auto simp: current_def split: option.splits if_splits)

lemma get_repository_None_iff:
  "get_repository nm m = None \<longleftrightarrow> nm \<notin> set (list_repositories m)"
  by (auto simp: get_repository_def list_repositories_def find_None_iff)

lemma git_init_cases:
  "git_init (nm # rest) s =
     (if nm \<in> set (list_repositories (repo_manager s)) then (s, RepoExists nm)
      else (s\<lparr>repo_manager := \<lparr>repositories = repositories (repo_manager s) @
                                   [new_repository nm (''./'' @ nm)]\<rparr>,
              current_repo := Some (length (repositories (repo_manager s)))\<rparr>,
            RepoInitialized nm))"
  by (simp add: git_init_def get_repository_None_iff [symmetric] create_repository_def Let_def)

lemma git_init_inv:
  assumes "sim_inv s" and "repos_ok s" and "git_init args s = (s', m)"
  shows "sim_inv s' \<and> repos_ok s'"
proof (cases args)
  case Nil
  with assms show ?thesis by (simp add: git_init_def)
next
  case (Cons nm rest)
  have fresh: "commits (new_repository nm p :: 'd repository) = []"
    "name (new_repository nm p :: 'd repository) = nm" for p
    by (simp_all add: new_repository_def)
  show ?thesis using assms repo_inv_new [of nm "''./'' @ nm"]
    by (auto simp: Cons git_init_cases sim_inv_def repos_ok_def list_repositories_def fresh
        chain_ordered_Nil split: if_splits)
qed

lemma execute_command_inv:
  assumes "sim_inv s" and "repos_ok s"
  shows "\<exists>s' m. execute_command cmd args s = Some (s', m) \<and> sim_inv s' \<and> repos_ok s'"
proof -
  have "\<exists>m. git_log s = Some m"
  proof (cases "current s")
    case (Some r)
    with assms(2) have "repo_inv r" "chain_ordered (commits r)"
      using current_in_set by (fastforce simp: repos_ok_def list_all_iff)+
    then show ?thesis using log_terminates_inv [of r] Some by (auto simp: git_log_def)
  qed (simp add: git_log_def)
  moreover obtain s1 m1 where "git_init args s = (s1, m1)" by fastforce
  moreover note git_init_inv [OF assms this]
  ultimately show ?thesis using assms by (auto simp: execute_command_def)
qed

lemma fold_enable:
  "map_of (fold (\<lambda>(n, v) en. if n \<in> fst ` set en then dict_set en n (py_truthy v) else en)
             items en) c =
     (if c \<in> fst ` set en
      then (case map_of (rev items) c of None \<Rightarrow> map_of en c | Some v \<Rightarrow> Some (py_truthy v))
      else None) \<and>
   map fst (fold (\<lambda>(n, v) en. if n \<in> fst ` set en then dict_set en n (py_truthy v) else en)
             items en) = map fst en"
proof (induction items arbitrary: en)
  case Nil
  then show ?case by (auto simp: map_of_eq_None_iff)
next
  case (Cons x items)
  obtain n v where x: "x = (n, v)" by fastforce
  show ?case
    using Cons.IH [of "dict_set en n (py_truthy v)"] Cons.IH [of en]
    by (auto simp: x keys_dict_set map_of_append split: option.splits)
qed

text \<open>C23: \<open>git init name\<close> with a fresh name reports the new repository, appends it to
  the registry and makes it the current repository; the command table is unchanged.\<close>

theorem git_init_fresh:
  assumes "nm \<notin> set (list_repositories (repo_manager s))"
  shows "git_init (nm # rest) s =
           (s\<lparr>repo_manager := \<lparr>repositories = repositories (repo_manager s) @
                                  [new_repository nm (''./'' @ nm)]\<rparr>,
              current_repo := Some (length (repositories (repo_manager s)))\<rparr>,
            RepoInitialized nm) \<and>
         current (fst (git_init (nm # rest) s)) = Some (new_repository nm (''./'' @ nm))"
  using assms by (simp add: git_init_cases current_def)

text \<open>C24: \<open>git init\<close> without a name prints the usage, and with a name already in the
  registry reports it; in both cases nothing changes.\<close>

theorem git_init_rejects:
  assumes "nm \<in> set (list_repositories (repo_manager s))"
  shows "git_init [] s = (s, InitUsage) \<and> git_init (nm # rest) s = (s, RepoExists nm)"
  using assms by (simp add: git_init_cases) (simp add: git_init_def)

text \<open>C25: from a simulator whose registry lists each name once and whose repositories have
  backward-pointing histories, every session of commands returns (no \<open>git log\<close> loops),
  answers each command, and keeps both properties.\<close>

theorem run_commands_total:
  assumes "sim_inv s" and "repos_ok s"
  shows "\<exists>s' ms. run_commands cs s = Some (s', ms) \<and> length ms = length cs \<and>
                 sim_inv s' \<and> repos_ok s'"
  using assms
proof (induction cs arbitrary: s)
  case Nil
  then show ?case by simp
next
  case (Cons c cs)
  obtain cmd args where c: "c = (cmd, args)" by fastforce
  from execute_command_inv [OF Cons.prems] obtain s1 m where
    "execute_command cmd args s = Some (s1, m)" "sim_inv s1" "repos_ok s1" by blast
  with Cons.IH [of s1] show ?case by (auto simp: c)
qed

text \<open>C26: the command table. A missing or corrupt configuration file enables
  \<open>init\<close>, \<open>status\<close> and \<open>log\<close>; otherwise each of the three takes the truthiness of
  its last entry under \<open>"commands"\<close> and stays enabled when it has none, and no other
  name becomes a command.\<close>

theorem initialize_commands_flags:
  "initialize_commands (Inl JSONDecodeError) = Inr [(''init'', True), (''status'', True), (''log'', True)] \<and>
   initialize_commands (Inl (FileNotFoundError f)) = Inr [(''init'', True), (''status'', True), (''log'', True)] \<and>
   (\<exists>en. initialize_commands (Inr (JObj [(''commands'', JObj items)])) = Inr en \<and>
     map fst en = [''init'', ''status'', ''log''] \<and>
     map_of en c = (if c \<in> {''init'', ''status'', ''log''}
                    then Some (case map_of (rev items) c of None \<Rightarrow> True | Some v \<Rightarrow> py_truthy v)
                    else None))"
proof -
  have d: "initialize_commands (Inr default_config) =
      Inr [(''init'', True), (''status'', True), (''log'', True)]"
    by (simp add: initialize_commands_def initial_commands_def default_config_def json_field_def)
  have e: "initialize_commands (Inl JSONDecodeError) = initialize_commands (Inr default_config)"
    "initialize_commands (Inl (FileNotFoundError f)) = initialize_commands (Inr default_config)"
    by (simp_all add: initialize_commands_def)
  have "initialize_commands (Inr (JObj [(''commands'', JObj items)])) =
      Inr (fold (\<lambda>(n, v) en. if n \<in> fst ` set en then dict_set en n (py_truthy v) else en)
             items [(''init'', True), (''status'', True), (''log'', True)])"
    by (simp add: initialize_commands_def initial_commands_def json_field_def)
  moreover note fold_enable [of items "[(''init'', True), (''status'', True), (''log'', True)]" c]
  ultimately show ?thesis by (simp add: e d split: option.split)
qed

text \<open>C27: start-up with the repositories file. A file that does not parse is reported
  and the simulator starts with an empty registry; a file that parses but whose
  repository entry lacks \<open>"name"\<close> makes the constructor raise \<open>KeyError\<close>.\<close>

theorem simulator_init_load:
  "simulator_init R (Inr default_config) (Some (Inl JSONDecodeError)) =
     Inr \<lparr>repo_manager = new_manager, current_repo = None,
          commands_enabled = [(''init'', True), (''status'', True), (''log'', True)]\<rparr> \<and>
   simulator_init R (Inr default_config)
     (Some (Inr (JList [JObj (filter (\<lambda>kv. fst kv \<noteq> ''name'') kvs)]))) = Inl (KeyError ''name'')"
proof -
  have d: "initialize_commands (Inr default_config) =
      Inr [(''init'', True), (''status'', True), (''log'', True)]"
    by (simp add: initialize_commands_def initial_commands_def default_config_def json_field_def)
  have n: "map_of (filter (\<lambda>kv. fst kv \<noteq> ''name'') kvs) ''name'' = None"
    by (induction kvs) auto
  show ?thesis
    by (simp add: simulator_init_def d load_repositories_def repo_from_dict_def json_field_def n)
qed

theorem git_init_fresh_witness:
  "''demo'' \<notin> set (list_repositories (repo_manager (\<lparr>repo_manager = \<lparr>repositories = []\<rparr>, current_repo = None, commands_enabled = [(''init'', True), (''status'', True), (''log'', True)]\<rparr> :: string simulator))) \<and>
   git_init [''demo''] (\<lparr>repo_manager = \<lparr>repositories = []\<rparr>, current_repo = None, commands_enabled = [(''init'', True), (''status'', True), (''log'', True)]\<rparr> :: string simulator) = ((\<lparr>repo_manager = \<lparr>repositories = [new_repository ''demo'' ''./demo'']\<rparr>, current_repo = Some 0, commands_enabled = [(''init'', True), (''status'', True), (''log'', True)]\<rparr> :: string simulator), RepoInitialized ''demo'')"
proof -
  have h: "''demo'' \<notin> set (list_repositories (repo_manager (\<lparr>repo_manager = \<lparr>repositories = []\<rparr>, current_repo = None, commands_enabled = [(''init'', True), (''status'', True), (''log'', True)]\<rparr> :: string simulator)))"
    by (simp add: list_repositories_def)
  show ?thesis using h git_init_fresh [OF h, of "[]"] by simp
qed

theorem git_init_rejects_witness:
  "''demo'' \<in> set (list_repositories (repo_manager (\<lparr>repo_manager = \<lparr>repositories = [new_repository ''demo'' ''./demo'']\<rparr>, current_repo = Some 0, commands_enabled = [(''init'', True), (''status'', True), (''log'', True)]\<rparr> :: string simulator))) \<and>
   git_init [''demo'', ''x''] (\<lparr>repo_manager = \<lparr>repositories = [new_repository ''demo'' ''./demo'']\<rparr>, current_repo = Some 0, commands_enabled = [(''init'', True), (''status'', True), (''log'', True)]\<rparr> :: string simulator) = ((\<lparr>repo_manager = \<lparr>repositories = [new_repository ''demo'' ''./demo'']\<rparr>, current_repo = Some 0, commands_enabled = [(''init'', True), (''status'', True), (''log'', True)]\<rparr> :: string simulator), RepoExists ''demo'')"
proof -
  have h: "''demo'' \<in> set (list_repositories (repo_manager (\<lparr>repo_manager = \<lparr>repositories = [new_repository ''demo'' ''./demo'']\<rparr>, current_repo = Some 0, commands_enabled = [(''init'', True), (''status'', True), (''log'', True)]\<rparr> :: string simulator)))"
    by (simp add: list_repositories_def new_repository_def)
  show ?thesis using h git_init_rejects [OF h, of "[''x'']"] by simp
qed

theorem run_commands_total_witness:
  "sim_inv (\<lparr>repo_manager = \<lparr>repositories = []\<rparr>, current_repo = None, commands_enabled = [(''init'', True), (''status'', True), (''log'', True)]\<rparr> :: string simulator) \<and> repos_ok (\<lparr>repo_manager = \<lparr>repositories = []\<rparr>, current_repo = None, commands_enabled = [(''init'', True), (''status'', True), (''log'', True)]\<rparr> :: string simulator) \<and>
   (\<exists>s' ms. run_commands [(''init'', [''demo'']), (''status'', []), (''log'', []), (''commit'', [])] (\<lparr>repo_manager = \<lparr>repositories = []\<rparr>, current_repo = None, commands_enabled = [(''init'', True), (''status'', True), (''log'', True)]\<rparr> :: string simulator) =
              Some (s', ms) \<and> length ms = 4 \<and> sim_inv s' \<and> repos_ok s')"
proof -
  have h1: "sim_inv (\<lparr>repo_manager = \<lparr>repositories = []\<rparr>, current_repo = None, commands_enabled = [(''init'', True), (''status'', True), (''log'', True)]\<rparr> :: string simulator)" by (simp add: sim_inv_def list_repositories_def)
  have h2: "repos_ok (\<lparr>repo_manager = \<lparr>repositories = []\<rparr>, current_repo = None, commands_enabled = [(''init'', True), (''status'', True), (''log'', True)]\<rparr> :: string simulator)" by (simp add: repos_ok_def)
  show ?thesis using h1 h2 run_commands_total [OF h1 h2,
      of "[(''init'', [''demo'']), (''status'', []), (''log'', []), (''commit'', [])]"]
    by (simp add: eval_nat_numeral)
qed

lemma run_loop_Cons:
  "run_loop R (l # rest) s =
     (case py_words (py_strip l) of
        [] \<Rightarrow> run_loop R rest s
      | cmd # args \<Rightarrow>
          if cmd = ''exit'' then Some (save_data R s, [])
          else Option.bind (execute_command cmd args s) (\<lambda>(s1, msg).
                 Option.bind (run_loop R rest s1) (\<lambda>(j, msgs). Some (j, msg # msgs))))"
  by (simp add: run_loop.simps [of R "l # rest"])

text \<open>Every returning run of the loop has read an \<open>exit\<close> line.\<close>

lemma run_loop_returns_exit:
  assumes "run_loop R inp s = Some r"
  shows "\<exists>k < length inp. is_exit_line (inp ! k) \<and> length (snd r) \<le> k"
proof (rule run_loop.raw_induct
    [where P = "\<lambda>R inp s r. \<exists>k < length inp. is_exit_line (inp ! k) \<and> length (snd r) \<le> k",
     OF _ assms])
  fix f :: "'d runtime \<Rightarrow> string list \<Rightarrow> 'd simulator \<Rightarrow> (json \<times> 'd cmd_msg list) option"
    and R inp s r
  assume IH: "\<And>R inp s r. f R inp s = Some r \<Longrightarrow>
      \<exists>k < length inp. is_exit_line (inp ! k) \<and> length (snd r) \<le> k"
    and eq: "(case inp of
        [] \<Rightarrow> f R [] s
      | l # rest \<Rightarrow>
          (case py_words (py_strip l) of
             [] \<Rightarrow> f R rest s
           | cmd # args \<Rightarrow>
               if cmd = ''exit'' then Some (save_data R s, [])
               else Option.bind (execute_command cmd args s) (\<lambda>(s1, msg).
                      Option.bind (f R rest s1) (\<lambda>(j, msgs). Some (j, msg # msgs))))) = Some r"
  show "\<exists>k < length inp. is_exit_line (inp ! k) \<and> length (snd r) \<le> k"
  proof (cases inp)
    case Nil
    with eq have "f R [] s = Some r" by simp
    from IH [OF this] show ?thesis by simp
  next
    case (Cons l rest)
    show ?thesis
    proof (cases "py_words (py_strip l)")
      case Nil
      with eq Cons have "f R rest s = Some r" by simp
      from IH [OF this] obtain k where "k < length rest" "is_exit_line (rest ! k)" "length (snd r) \<le> k"
        by blast
      with Cons show ?thesis by (intro exI [of _ "Suc k"]) simp
    next
      case (Cons cmd args)
      show ?thesis
      proof (cases "cmd = ''exit''")
        case True
        with eq Cons \<open>inp = l # rest\<close> show ?thesis by (auto simp: is_exit_line_def)
      next
        case False
        with eq Cons \<open>inp = l # rest\<close> obtain s1 msg j msgs where
          "f R rest s1 = Some (j, msgs)" "r = (j, msg # msgs)"
          by (auto split: Option.bind_splits prod.splits)
        moreover from IH [of R rest s1 "(j, msgs)"] this(1) obtain k where
          "k < length rest" "is_exit_line (rest ! k)" "length msgs \<le> k" by auto
        ultimately show ?thesis using \<open>inp = l # rest\<close> by (intro exI [of _ "Suc k"]) simp
      qed
    qed
  qed
qed

text \<open>C29: the loop ends only through \<open>exit\<close>: on an input with no \<open>exit\<close> line it never
  returns, since at the end of the input the \<open>EOFError\<close> of \<open>input()\<close> is caught and
  the loop reads again.\<close>

theorem run_loop_no_exit_diverges:
  assumes "\<not> list_ex is_exit_line inp"
  shows "run_loop R inp s = None"
proof (rule ccontr)
  assume "run_loop R inp s \<noteq> None"
  then obtain r where "run_loop R inp s = Some r" by blast
  from run_loop_returns_exit [OF this] assms show False by (auto simp: list_ex_iff)
qed

lemma run_loop_exit_state:
  assumes "sim_inv s" and "repos_ok s" and "list_ex is_exit_line inp"
  shows "\<exists>s' ms. run_loop R inp s = Some (save_data R s', ms) \<and> sim_inv s' \<and> repos_ok s' \<and>
           length ms = length (filter (\<lambda>l. py_words (py_strip l) \<noteq> []) (takeWhile (\<lambda>l. \<not> is_exit_line l) inp))"
  using assms
proof (induction inp arbitrary: s)
  case Nil
  then show ?case by simp
next
  case (Cons l rest)
  show ?case
  proof (cases "py_words (py_strip l)")
    case Nil
    with Cons show ?thesis by (simp add: run_loop_Cons is_exit_line_def)
  next
    case (Cons cmd args)
    show ?thesis
    proof (cases "cmd = ''exit''")
      case True
      with Cons \<open>sim_inv s\<close> \<open>repos_ok s\<close> show ?thesis by (auto simp: run_loop_Cons is_exit_line_def)
    next
      case False
      from execute_command_inv [OF \<open>sim_inv s\<close> \<open>repos_ok s\<close>] obtain s1 m where
        ex: "execute_command cmd args s = Some (s1, m)" "sim_inv s1" "repos_ok s1" by blast
      from False Cons \<open>list_ex is_exit_line (l # rest)\<close> have "list_ex is_exit_line rest"
        by (simp add: is_exit_line_def)
      with "Cons.IH" [OF ex(2,3)] obtain s' ms where
        "run_loop R rest s1 = Some (save_data R s', ms)"
        "sim_inv s'" "repos_ok s'"
        "length ms = length (filter (\<lambda>l. py_words (py_strip l) \<noteq> []) (takeWhile (\<lambda>l. \<not> is_exit_line l) rest))" by blast
      with False Cons ex(1) show ?thesis by (auto simp: run_loop_Cons is_exit_line_def)
    qed
  qed
qed

text \<open>C30: from a simulator whose names are unique and whose histories point backwards,
  an input with an \<open>exit\<close> line makes the loop return, writing the registry of the state
  reached, which keeps both properties.\<close>

theorem run_loop_exit_returns:
  assumes "sim_inv s" and "repos_ok s" and "list_ex is_exit_line inp"
  shows "\<exists>s' ms. run_loop R inp s = Some (manager_to_dict R (repo_manager s'), ms) \<and>
                 sim_inv s' \<and> repos_ok s'"
  using run_loop_exit_state [OF assms] unfolding save_data_def by blast

theorem run_loop_no_exit_diverges_witness:
  "\<not> list_ex is_exit_line [''init demo'', '' status '', '''', ''log''] \<and>
   run_loop (\<lparr>sha1 = (\<lambda>s. s), dt_str = (\<lambda>d. d), dt_iso = (\<lambda>d. d), dt_fromiso = Inr\<rparr> :: string runtime) [''init demo'', '' status '', '''', ''log''] (\<lparr>repo_manager = \<lparr>repositories = []\<rparr>, current_repo = None, commands_enabled = [(''init'', True), (''status'', True), (''log'', True)]\<rparr> :: string simulator) = None"
proof -
  have h: "\<not> list_ex is_exit_line [''init demo'', '' status '', '''', ''log'']"
    by (simp add: is_exit_line_def py_words_def py_strip_def is_py_space_def)
  show ?thesis using h run_loop_no_exit_diverges [OF h] by simp
qed

theorem run_loop_exit_returns_witness:
  "sim_inv (\<lparr>repo_manager = \<lparr>repositories = []\<rparr>, current_repo = None, commands_enabled = [(''init'', True), (''status'', True), (''log'', True)]\<rparr> :: string simulator) \<and> repos_ok (\<lparr>repo_manager = \<lparr>repositories = []\<rparr>, current_repo = None, commands_enabled = [(''init'', True), (''status'', True), (''log'', True)]\<rparr> :: string simulator) \<and> list_ex is_exit_line [''init demo'', ''  exit  ''] \<and>
   (\<exists>s' ms. run_loop (\<lparr>sha1 = (\<lambda>s. s), dt_str = (\<lambda>d. d), dt_iso = (\<lambda>d. d), dt_fromiso = Inr\<rparr> :: string runtime) [''init demo'', ''  exit  ''] (\<lparr>repo_manager = \<lparr>repositories = []\<rparr>, current_repo = None, commands_enabled = [(''init'', True), (''status'', True), (''log'', True)]\<rparr> :: string simulator) =
              Some (manager_to_dict (\<lparr>sha1 = (\<lambda>s. s), dt_str = (\<lambda>d. d), dt_iso = (\<lambda>d. d), dt_fromiso = Inr\<rparr> :: string runtime) (repo_manager s'), ms) \<and> sim_inv s' \<and> repos_ok s')"
proof -
  have h1: "sim_inv (\<lparr>repo_manager = \<lparr>repositories = []\<rparr>, current_repo = None, commands_enabled = [(''init'', True), (''status'', True), (''log'', True)]\<rparr> :: string simulator)" by (simp add: sim_inv_def list_repositories_def)
  have h2: "repos_ok (\<lparr>repo_manager = \<lparr>repositories = []\<rparr>, current_repo = None, commands_enabled = [(''init'', True), (''status'', True), (''log'', True)]\<rparr> :: string simulator)" by (simp add: repos_ok_def)
  have h3: "list_ex is_exit_line [''init demo'', ''  exit  '']"
    by (simp add: is_exit_line_def py_words_def py_strip_def is_py_space_def)
  show ?thesis using h1 h2 h3 run_loop_exit_returns [OF h1 h2 h3] by simp
qed

text \<open>C34: the answers \<open>run\<close> prints: from a simulator with unique names and ordered
  histories, on an input with an \<open>exit\<close> line, the loop returns having printed exactly
  one answer for each non-blank line before the first \<open>exit\<close> line, none for blank lines
  and none for the \<open>exit\<close> line or what follows it.\<close>

theorem run_loop_answer_count:
  assumes "sim_inv s" and "repos_ok s" and "list_ex is_exit_line inp"
  shows "\<exists>j ms. run_loop R inp s = Some (j, ms) \<and>
           length ms = length (filter (\<lambda>l. py_words (py_strip l) \<noteq> []) (takeWhile (\<lambda>l. \<not> is_exit_line l) inp))"
  using run_loop_exit_state [OF assms] by blast

theorem run_loop_answer_count_witness:
  "sim_inv (\<lparr>repo_manager = \<lparr>repositories = []\<rparr>, current_repo = None, commands_enabled = [(''init'', True), (''status'', True), (''log'', True)]\<rparr> :: string simulator) \<and> repos_ok (\<lparr>repo_manager = \<lparr>repositories = []\<rparr>, current_repo = None, commands_enabled = [(''init'', True), (''status'', True), (''log'', True)]\<rparr> :: string simulator) \<and> list_ex is_exit_line [''init demo'', ''  '', ''status'', ''exit'', ''log''] \<and>
   (\<exists>j ms. run_loop (\<lparr>sha1 = (\<lambda>s. s), dt_str = (\<lambda>d. d), dt_iso = (\<lambda>d. d), dt_fromiso = Inr\<rparr> :: string runtime) [''init demo'', ''  '', ''status'', ''exit'', ''log''] (\<lparr>repo_manager = \<lparr>repositories = []\<rparr>, current_repo = None, commands_enabled = [(''init'', True), (''status'', True), (''log'', True)]\<rparr> :: string simulator) = Some (j, ms) \<and>
      length ms = length (filter (\<lambda>l. py_words (py_strip l) \<noteq> []) (takeWhile (\<lambda>l. \<not> is_exit_line l) [''init demo'', ''  '', ''status'', ''exit'', ''log''])))"
proof -
  have h1: "sim_inv (\<lparr>repo_manager = \<lparr>repositories = []\<rparr>, current_repo = None, commands_enabled = [(''init'', True), (''status'', True), (''log'', True)]\<rparr> :: string simulator)" by (simp add: sim_inv_def list_repositories_def)
  have h2: "repos_ok (\<lparr>repo_manager = \<lparr>repositories = []\<rparr>, current_repo = None, commands_enabled = [(''init'', True), (''status'', True), (''log'', True)]\<rparr> :: string simulator)" by (simp add: repos_ok_def)
  have h3: "list_ex is_exit_line [''init demo'', ''  '', ''status'', ''exit'', ''log'']"
    by (simp add: is_exit_line_def py_words_def py_strip_def is_py_space_def)
  show ?thesis using h1 h2 h3 run_loop_answer_count [OF h1 h2 h3] by blast
qed

end
