(* ===== verification/Schema.thy ===== *)
theory Schema
  imports Manager
begin

text \<open>
  The shape of the data in \<open>data/repos.json\<close>. \<open>RepositoryManager.to_dict\<close> writes
  a list of repository dicts, and \<open>Repository.from_dict\<close> and \<open>Commit.from_dict\<close>
  read them back with \<open>data[key]\<close>, \<open>.items()\<close> and \<open>fromisoformat\<close>. The
  datatype \<open>jty\<close> is a small type language for JSON values, \<open>has_type\<close> its typing
  judgement, and \<open>repos_file_ty\<close> the type the loader expects. The theorems show that
  what is saved always has that type and that a value of that type loads without
  \<open>KeyError\<close>, \<open>TypeError\<close> or \<open>AttributeError\<close>: the only exception left is the
  one \<open>fromisoformat\<close> raises on a date string it rejects.
\<close>

section \<open>Types of JSON values\<close>

datatype jty = TStr | TOptStr | TStrList | TDict jty | TObj "(string \<times> jty) list" | TList jty

lemma size_json_obj: "(k, v) \<in> set kvs \<Longrightarrow> size v < size (JObj kvs)"
  by (induction kvs) auto

lemma size_map_of:
  "map_of (kvs :: (string \<times> json) list) k = Some v \<Longrightarrow>
   size v < Suc (size_list (size_prod (\<lambda>x. 0) size) kvs)"
  using size_json_obj [of k v kvs] by (auto dest: map_of_SomeD)

lemma size_json_list: "x \<in> set xs \<Longrightarrow> size x < size (JList xs)"
  by (induction xs) auto

text \<open>A dict type \<open>TDict t\<close> has values of type \<open>t\<close> under any keys; a record type
  \<open>TObj fs\<close> needs each listed key, read as \<open>data[key]\<close> reads it, with a value of its
  type; a nullable string is \<open>TOptStr\<close>.\<close>

function has_type :: "json \<Rightarrow> jty \<Rightarrow> bool" where
  "has_type (JStr s) TStr = True"
| "has_type JNull TOptStr = True"
| "has_type (JStr s) TOptStr = True"
| "has_type (JList xs) TStrList = list_all (\<lambda>x. case x of JStr s \<Rightarrow> True | _ \<Rightarrow> False) xs"
| "has_type (JObj kvs) (TDict t) = list_all (\<lambda>kv. has_type (snd kv) t) kvs"
| "has_type (JObj kvs) (TObj fs) =
     list_all (\<lambda>kt. case map_of kvs (fst kt) of None \<Rightarrow> False | Some v \<Rightarrow> has_type v (snd kt)) fs"
| "has_type (JList xs) (TList t) = list_all (\<lambda>x. has_type x t) xs"
| "has_type JNull TStr = False"
| "has_type (JBool b) _ = False"
| "has_type (JInt i) _ = False"
| "has_type (JStr s) TStrList = False"
| "has_type (JStr s) (TDict t) = False"
| "has_type (JStr s) (TObj fs) = False"
| "has_type (JStr s) (TList t) = False"
| "has_type JNull TStrList = False"
| "has_type JNull (TDict t) = False"
| "has_type JNull (TObj fs) = False"
| "has_type JNull (TList t) = False"
| "has_type (JList xs) TStr = False"
| "has_type (JList xs) TOptStr = False"
| "has_type (JList xs) (TDict t) = False"
| "has_type (JList xs) (TObj fs) = False"
| "has_type (JObj kvs) TStr = False"
| "has_type (JObj kvs) TOptStr = False"
| "has_type (JObj kvs) TStrList = False"
| "has_type (JObj kvs) (TList t) = False"
  by pat_completeness auto
termination
  by (relation "measure (\<lambda>(j, t). size j)")
     (auto dest: size_map_of size_json_obj size_json_list
           intro: size_json_obj [of "fst kv" "snd kv" for kv, simplified])

section \<open>The schema of the repositories file\<close>

definition commit_ty :: jty where
  "commit_ty = TObj [(''hash'', TStr), (''date'', TStr), (''author_email'', TStr),
     (''message'', TStr), (''parent_hash'', TOptStr), (''files'', TStrList), (''branch'', TStr)]"

definition repo_ty :: jty where
  "repo_ty = TObj [(''name'', TStr), (''path'', TStr), (''branches'', TDict TOptStr),
     (''current_branch'', TStr), (''commits'', TDict commit_ty), (''head'', TOptStr)]"

definition repos_file_ty :: jty where
  "repos_file_ty = TList repo_ty"

text \<open>A decoding result is an object, or an exception raised by the runtime's
  \<open>fromisoformat\<close> (CPython's raises \<open>ValueError\<close> on a string that is not ISO 8601).\<close>

definition date_errors_only :: "'d runtime \<Rightarrow> 'a result \<Rightarrow> bool" where
  "date_errors_only R x \<longleftrightarrow> (case x of Inr a \<Rightarrow> True | Inl e \<Rightarrow> \<exists>s. dt_fromiso R s = Inl e)"

lemma date_errors_only_Inr [simp]: "date_errors_only R (Inr a)"
  by (simp add: date_errors_only_def)

lemma date_errors_only_fromiso: "date_errors_only R (dt_fromiso R s)"
  by (cases "dt_fromiso R s") (auto simp: date_errors_only_def)

lemma date_errors_only_rbind:
  assumes "date_errors_only R m" and "\<And>a. m = Inr a \<Longrightarrow> date_errors_only R (f a)"
  shows "date_errors_only R (rbind m f)"
  using assms by (cases m) (auto simp: date_errors_only_def)

lemma date_errors_only_rmap:
  "(\<And>x. x \<in> set xs \<Longrightarrow> date_errors_only R (f x)) \<Longrightarrow> date_errors_only R (rmap f xs)"
proof (induction xs)
  case (Cons x xs)
  then show ?case by (auto intro!: date_errors_only_rbind)
qed simp

lemma rmap_total:
  "(\<And>x. x \<in> set xs \<Longrightarrow> \<exists>y. f x = Inr y) \<Longrightarrow> \<exists>ys. rmap f xs = Inr ys"
  by (induction xs) fastforce+

lemma opt_json_typed [simp]: "has_type (opt_json p) TOptStr"
  by (cases p) (simp_all add: opt_json_def)

lemma commit_to_dict_typed: "has_type (commit_to_dict R c) commit_ty"
  by (simp add: commit_to_dict_def commit_ty_def list.pred_map comp_def list_all_iff)

lemma repo_to_dict_typed: "has_type (repo_to_dict R r) repo_ty"
  by (simp add: repo_to_dict_def repo_ty_def list.pred_map comp_def case_prod_beta
      commit_to_dict_typed list_all_iff)

lemma typed_str: "has_type v TStr \<Longrightarrow> \<exists>s. json_str v = Inr s"
  by (cases v) auto

lemma typed_opt_str: "has_type v TOptStr \<Longrightarrow> \<exists>p. json_opt_str v = Inr p"
  by (cases v) auto

lemma typed_str_list: "has_type v TStrList \<Longrightarrow> \<exists>xs. json_str_list v = Inr xs"
proof (cases v)
  case (JList ys)
  moreover assume "has_type v TStrList"
  ultimately have all: "\<forall>x\<in>set ys. case x of JStr s \<Rightarrow> True | _ \<Rightarrow> False"
    by (simp add: list_all_iff)
  have "\<exists>y. json_str x = Inr y" if "x \<in> set ys" for x
    using bspec [OF all that] by (cases x) auto
  with JList show ?thesis by (auto intro!: rmap_total)
qed auto

lemma typed_field:
  assumes "has_type v (TObj fs)" and "(k, t) \<in> set fs"
  obtains kvs x where "v = JObj kvs" "map_of kvs k = Some x" "has_type x t"
proof -
  from assms(1) obtain kvs where v: "v = JObj kvs" by (cases v) auto
  with assms(1) have "\<forall>kt\<in>set fs. case map_of kvs (fst kt) of
      None \<Rightarrow> False | Some x \<Rightarrow> has_type x (snd kt)"
    by (simp add: list_all_iff)
  from bspec [OF this assms(2)]
  have "case map_of kvs k of None \<Rightarrow> False | Some x \<Rightarrow> has_type x t"
    by (simp split: option.splits)
  with v that show ?thesis by (auto split: option.splits)
qed

text \<open>A field of a record type decodes when its decoder accepts every value of the
  field's type.\<close>

lemma typed_field_dec:
  assumes "has_type v (TObj fs)" and "(k, t) \<in> set fs"
    and "\<And>x. has_type x t \<Longrightarrow> \<exists>y. dec x = Inr y"
  shows "\<exists>y. json_field v k dec = Inr y"
proof -
  obtain kvs x where "v = JObj kvs" "map_of kvs k = Some x" "has_type x t"
    using typed_field [OF assms(1,2)] by blast
  moreover obtain y where "dec x = Inr y" using assms(3) [OF \<open>has_type x t\<close>] by blast
  ultimately show ?thesis by (simp add: json_field_def)
qed

lemma typed_field_str:
  assumes "has_type v (TObj fs)" and "(k, TStr) \<in> set fs"
  shows "\<exists>s. json_field v k json_str = Inr s"
  by (rule typed_field_dec [OF assms typed_str])

lemma commit_decodes:
  assumes "has_type v commit_ty"
  shows "date_errors_only R (commit_from_dict R v)"
proof -
  have ty: "has_type v (TObj [(''hash'', TStr), (''date'', TStr), (''author_email'', TStr),
     (''message'', TStr), (''parent_hash'', TOptStr), (''files'', TStrList), (''branch'', TStr)])"
    using assms by (simp add: commit_ty_def)
  obtain h a m b where
    "json_field v ''hash'' json_str = Inr h" "json_field v ''author_email'' json_str = Inr a"
    "json_field v ''message'' json_str = Inr m" "json_field v ''branch'' json_str = Inr b"
    using typed_field_str [OF ty] by (metis list.set_intros)
  moreover obtain p where "json_field v ''parent_hash'' json_opt_str = Inr p"
    using typed_field_dec [where k = "''parent_hash''" and t = TOptStr and dec = json_opt_str,
        OF ty _ typed_opt_str] by auto
  moreover obtain fs where "json_field v ''files'' json_str_list = Inr fs"
    using typed_field_dec [where k = "''files''" and t = TStrList and dec = json_str_list,
        OF ty _ typed_str_list] by auto
  moreover obtain ds where "json_field v ''date'' json_str = Inr ds"
    using typed_field_str [OF ty] by (metis list.set_intros)
  then have "json_field v ''date'' (\<lambda>x. rbind (json_str x) (dt_fromiso R)) = dt_fromiso R ds"
    by (auto simp: json_field_def rbind_eq_Inr)
  ultimately show ?thesis
    by (simp add: commit_from_dict_def) (rule date_errors_only_rbind [OF date_errors_only_fromiso], simp)
qed

lemma typed_dict:
  assumes "has_type v (TDict t)"
  obtains kvs where "v = JObj kvs" "\<And>k x. (k, x) \<in> set kvs \<Longrightarrow> has_type x t"
proof -
  from assms obtain kvs where "v = JObj kvs" by (cases v) auto
  with assms that show ?thesis by (force simp: list_all_iff)
qed

lemma branches_decode:
  assumes "has_type v (TDict TOptStr)"
  shows "\<exists>bs. json_branches v = Inr bs"
proof -
  obtain kvs where v: "v = JObj kvs" and ty: "\<And>k x. (k, x) \<in> set kvs \<Longrightarrow> has_type x TOptStr"
    using typed_dict [OF assms] by blast
  have "\<exists>y. (\<lambda>(b, x). rbind (json_opt_str x) (\<lambda>h. Inr (b, h))) kv = Inr y"
    if "kv \<in> set kvs" for kv
    using typed_opt_str [OF ty [of "fst kv" "snd kv"]] that by (cases kv) auto
  then obtain bs where "rmap (\<lambda>(b, x). rbind (json_opt_str x) (\<lambda>h. Inr (b, h))) kvs = Inr bs"
    using rmap_total by blast
  with v show ?thesis by simp
qed

lemma commits_decode:
  assumes "has_type v (TDict commit_ty)"
  shows "date_errors_only R (json_commits R v)"
proof -
  obtain kvs where v: "v = JObj kvs" and ty: "\<And>k x. (k, x) \<in> set kvs \<Longrightarrow> has_type x commit_ty"
    using typed_dict [OF assms] by blast
  have "date_errors_only R ((\<lambda>(h, cd). rbind (commit_from_dict R cd) (\<lambda>c. Inr (h, c))) kv)"
    if "kv \<in> set kvs" for kv
    using commit_decodes [OF ty [of "fst kv" "snd kv"]] that
    by (cases kv) (auto intro!: date_errors_only_rbind)
  then show ?thesis by (simp add: v) (rule date_errors_only_rbind [OF date_errors_only_rmap], simp_all)
qed

lemma head_decode: "has_type v TOptStr \<Longrightarrow> \<exists>h. head_lookup cs v = Inr h"
  by (cases v) auto

lemma repo_decodes:
  assumes "has_type v repo_ty"
  shows "date_errors_only R (repo_from_dict R v)"
proof -
  have ty: "has_type v (TObj [(''name'', TStr), (''path'', TStr), (''branches'', TDict TOptStr),
     (''current_branch'', TStr), (''commits'', TDict commit_ty), (''head'', TOptStr)])"
    using assms by (simp add: repo_ty_def)
  obtain nm p cb where
    "json_field v ''name'' json_str = Inr nm" "json_field v ''path'' json_str = Inr p"
    "json_field v ''current_branch'' json_str = Inr cb"
    using typed_field_str [OF ty] by (metis list.set_intros)
  moreover obtain bs where "json_field v ''branches'' json_branches = Inr bs"
    using typed_field_dec [where k = "''branches''" and t = "TDict TOptStr" and dec = json_branches,
        OF ty _ branches_decode] by auto
  moreover obtain kvs hv where kv: "v = JObj kvs" and hv: "map_of kvs ''head'' = Some hv"
      "has_type hv TOptStr"
    by (rule typed_field [OF ty, of "''head''" TOptStr]) simp
  moreover obtain kvs' cv where "v = JObj kvs'" "map_of kvs' ''commits'' = Some cv"
      "has_type cv (TDict commit_ty)"
    by (rule typed_field [OF ty, of "''commits''" "TDict commit_ty"]) simp
  then have "date_errors_only R (json_field v ''commits'' (json_commits R))"
    using commits_decode by (simp add: json_field_def)
  moreover have "date_errors_only R (head_lookup cs hv)" for cs
    using head_decode [OF hv(2), of cs] by auto
  ultimately show ?thesis
    by (simp add: repo_from_dict_def)
       (rule date_errors_only_rbind, assumption, auto intro!: date_errors_only_rbind)
qed

text \<open>C32: what \<open>save_data\<close> writes, \<open>RepositoryManager.to_dict()\<close>, always has the type
  the loader reads: a list of repository dicts with all six keys, branch pointers that are
  strings or null, and commit dicts with all seven keys of \<open>Commit.to_dict\<close>.\<close>

theorem saved_data_typed: "has_type (manager_to_dict R m) repos_file_ty"
  by (simp add: manager_to_dict_def repos_file_ty_def list.pred_map comp_def
      repo_to_dict_typed list_all_iff)

text \<open>C33: a repositories file of that type loads unless a date string is rejected: on it
  \<open>load_repositories\<close> raises none of \<open>KeyError\<close>, \<open>TypeError\<close> or \<open>AttributeError\<close>,
  and either replaces the registry or raises the exception of \<open>fromisoformat\<close>.\<close>

theorem typed_data_loads:
  assumes "has_type j repos_file_ty"
  shows "(\<exists>m'. load_repositories R j m = Inr m') \<or>
         (\<exists>s e. dt_fromiso R s = Inl e \<and> load_repositories R j m = Inl e)"
proof -
  from assms obtain xs where j: "j = JList xs" and ty: "\<And>x. x \<in> set xs \<Longrightarrow> has_type x repo_ty"
    by (cases j) (auto simp: repos_file_ty_def list_all_iff)
  have "date_errors_only R (load_repositories R j m)"
    unfolding load_repositories_def j
    by (auto intro!: date_errors_only_rbind date_errors_only_rmap repo_decodes ty)
  then show ?thesis
    by (cases "load_repositories R j m") (auto simp: date_errors_only_def)
qed

theorem typed_data_loads_witness:
  "has_type (JList [repo_to_dict (\<lparr>sha1 = (\<lambda>s. s), dt_str = (\<lambda>d. d), dt_iso = (\<lambda>d. d), dt_fromiso = Inr\<rparr> :: string runtime) (new_repository ''demo'' ''./demo'')]) repos_file_ty \<and>
   ((\<exists>m'. load_repositories (\<lparr>sha1 = (\<lambda>s. s), dt_str = (\<lambda>d. d), dt_iso = (\<lambda>d. d), dt_fromiso = Inr\<rparr> :: string runtime) (JList [repo_to_dict (\<lparr>sha1 = (\<lambda>s. s), dt_str = (\<lambda>d. d), dt_iso = (\<lambda>d. d), dt_fromiso = Inr\<rparr> :: string runtime) (new_repository ''demo'' ''./demo'')]) new_manager = Inr m') \<or>
    (\<exists>s e. dt_fromiso (\<lparr>sha1 = (\<lambda>s. s), dt_str = (\<lambda>d. d), dt_iso = (\<lambda>d. d), dt_fromiso = Inr\<rparr> :: string runtime) s = Inl e \<and>
       load_repositories (\<lparr>sha1 = (\<lambda>s. s), dt_str = (\<lambda>d. d), dt_iso = (\<lambda>d. d), dt_fromiso = Inr\<rparr> :: string runtime) (JList [repo_to_dict (\<lparr>sha1 = (\<lambda>s. s), dt_str = (\<lambda>d. d), dt_iso = (\<lambda>d. d), dt_fromiso = Inr\<rparr> :: string runtime) (new_repository ''demo'' ''./demo'')]) new_manager = Inl e))"
proof -
  have h: "has_type (JList [repo_to_dict (\<lparr>sha1 = (\<lambda>s. s), dt_str = (\<lambda>d. d), dt_iso = (\<lambda>d. d), dt_fromiso = Inr\<rparr> :: string runtime) (new_repository ''demo'' ''./demo'')]) repos_file_ty"
    by (simp add: repos_file_ty_def repo_ty_def repo_to_dict_def new_repository_def opt_json_def)
  show ?thesis using h typed_data_loads [OF h, of "(\<lparr>sha1 = (\<lambda>s. s), dt_str = (\<lambda>d. d), dt_iso = (\<lambda>d. d), dt_fromiso = Inr\<rparr> :: string runtime)" new_manager] by blast
qed

end
