(* ===== verification/Spec2Isabelle.thy ===== *)
theory Spec2Isabelle
  imports PRQueue Commands Schema
begin

text \<open>
  \<^bold>\<open>A verification library for the git simulator of \<open>src/proyecto1\<close>.\<close>

  \<^bold>\<open>The program.\<close> An in-memory simulator of a version-control workflow, driven
  by a command loop (\<open>main.py\<close>, class \<open>GitSimulator\<close>). Its parts:
  \<^item> the staging area (\<open>staging.py\<close>, \<open>StagingArea\<close>): an ordered list of staged
    files, filled from the file system;
  \<^item> commits and their history (\<open>commit.py\<close>, \<open>Commit\<close>, \<open>CommitHistory\<close>):
    immutable records linked backwards by parent hash;
  \<^item> the repository (\<open>repository.py\<close>, \<open>Repository\<close>): one staging area, a
    commit store keyed by hash, branch pointers and a head; \<open>commit\<close> moves the
    staged files into a new commit;
  \<^item> the repository registry (\<open>repository.py\<close>, \<open>RepositoryManager\<close>);
  \<^item> pull requests and their FIFO queue (\<open>pull_request.py\<close>, \<open>PullRequest\<close>,
    \<open>PullRequestQueue\<close>), with a JSON file for the queue;
  \<^item> the commands \<open>git init\<close>, \<open>git status\<close>, \<open>git log\<close> (\<open>commands.py\<close>), which
    read and change the simulator's current repository, and the simulator itself
    (\<open>main.py\<close>): command table from \<open>config.json\<close>, registry loaded from
    \<open>repos.json\<close>, dispatch of each input line.
  Components call one another directly; persistence goes through \<open>to_dict\<close> and
  \<open>from_dict\<close> and the JSON library.

  \<^bold>\<open>How it is modelled.\<close> A shallow embedding, one theory per component, each
  importing the components it calls:
  \<^item> \<open>Prelude\<close>: Python exceptions as the datatype \<open>py_error\<close> and results as
    \<open>py_error + 'a\<close> threaded by \<open>rbind\<close> (\<open>rmap\<close> for comprehensions); JSON
    values (\<open>json\<close>) with the accessors \<open>data[k]\<close>, truthiness and iteration; dicts as
    insertion-ordered association lists with \<open>dict_set\<close> (in-place overwrite or append,
    as CPython does) and \<open>map_of\<close> for \<open>.get\<close>; the builtins \<open>str(int)\<close>,
    \<open>int(str)\<close>, \<open>str.split\<close>; and the standard-library services the code only
    calls (\<open>hashlib.sha1\<close>, \<open>datetime\<close> printing and parsing) as the record
    \<open>runtime\<close> of functions, so every theorem holds for any hash function and any
    datetime type \<open>'d\<close>. The clock is an explicit argument of each operation.
  \<^item> \<open>Staging\<close>: \<open>staging_area\<close> is the record of \<open>StagingArea\<close>, the file system
    a map from paths to contents and modification times; \<open>add_file\<close>,
    \<open>remove_file\<close> (search loop \<open>remove_first\<close>), \<open>get_files\<close>, \<open>clear\<close>,
    \<open>status\<close> are the methods.
  \<^item> \<open>Commit\<close>: the record \<open>commit\<close>, \<open>commit_str\<close> (\<open>__str__\<close>),
    \<open>commit_to_dict\<close>/\<open>commit_from_dict\<close>,
    \<open>CommitHistory\<close> as \<open>commit_history\<close> with \<open>add_commit\<close> and \<open>get_history\<close>
    (its loop is \<open>history_loop\<close>, a \<open>function\<close> terminating on the iteration bound),
    and the unbounded traversal of \<open>git log\<close> as the \<open>partial_function (option)\<close>
    \<open>log_walk\<close>, where \<open>None\<close> is a loop that never ends.
  \<^item> \<open>Repository\<close>: the record \<open>repository\<close>, \<open>repo_add_file\<close>, \<open>repo_commit\<close> (\<open>commit\<close>),
    \<open>repo_to_dict\<close>/\<open>repo_from_dict\<close>; sequences of calls as the datatype
    \<open>repo_op\<close> with \<open>repo_step\<close> and \<open>repo_run\<close> (a run stops at the first exception).
  \<^item> \<open>Manager\<close>: \<open>repo_manager\<close> with \<open>create_repository\<close>, \<open>get_repository\<close>,
    \<open>list_repositories\<close>, \<open>load_repositories\<close>, \<open>manager_to_dict\<close>.
  \<^item> \<open>PullRequest\<close>: the record \<open>pull_request\<close>, its mutators, the operations as
    \<open>pr_op\<close> with \<open>pr_step\<close>, the reachable states as the inductive \<open>pr_reachable\<close>,
    and the dict round trip.
  \<^item> \<open>PRQueue\<close>: \<open>pr_queue\<close> (list and id counter) with \<open>create_pr\<close>,
    \<open>process_next_pr\<close>, \<open>get_pr_by_id\<close>, \<open>list_prs\<close>, \<open>save_to_file\<close> and
    \<open>load_from_file\<close> (the file is a JSON value, \<open>Inl\<close> when it cannot be read);
    runs as \<open>queue_op\<close>/\<open>queue_run\<close>.
  \<^item> \<open>Commands\<close>: the record \<open>simulator\<close>, whose \<open>current_repo\<close> is the index of
    the shared repository object in the registry; \<open>git_init\<close>, \<open>git_status\<close>,
    \<open>git_log\<close> return a datatype of messages; \<open>initialize_commands\<close>,
    \<open>simulator_init\<close> and \<open>execute_command\<close> are the methods of \<open>GitSimulator\<close>,
    \<open>run_commands\<close> a session of already-split input lines, and \<open>run_loop\<close>
    the input loop of \<open>run\<close>, a \<open>partial_function (option)\<close> over the lines typed
    (\<open>str.strip\<close>/\<open>str.split\<close> as \<open>py_strip\<close>/\<open>py_words\<close>), which on
    \<open>exit\<close> returns the value \<open>save_data\<close> writes; \<open>cmd_text\<close> is the string each
    answer prints, \<open>config_written\<close> the file written when \<open>config.json\<close> is missing,
    and \<open>git_main\<close> the \<open>__main__\<close> block (constructor, then loop).
  \<^item> \<open>Schema\<close>: a type language \<open>jty\<close> for JSON values with the judgement
    \<open>has_type\<close>, and \<open>repos_file_ty\<close>, the shape \<open>Repository.from_dict\<close> reads; these
    are specifications, not code.
  Methods that mutate return the new state; methods that raise return \<open>Inl\<close> and no
  state, since every raising method of the program raises before it mutates
  (\<open>load_from_file\<close>, which may raise half-way, returns the state it leaves).

  \<^bold>\<open>What is proved.\<close>
  \<^item> Staging: \<open>add_file\<close> appends exactly the entry read from the file system or raises
    \<open>FileNotFoundError\<close>; \<open>remove_file\<close> acts as \<open>remove1\<close> on the names; adding a
    fresh name and removing it finds the new entry and restores the staging area.
  \<^item> Repository: the full behaviour of \<open>commit\<close> on both branches (every field of
    the new commit, the store and branch dicts after it); a fresh commit puts exactly the
    new commit on top of \<open>git log\<close>; the invariant
    \<open>repo_inv\<close> (well-formed store, the current branch points at the head, the head is
    stored) holds after every run from a new repository; when no commit reuses a stored
    hash the history stays ordered (\<open>chain_ordered\<close>) and \<open>git log\<close> terminates
    without repeating a hash; the JSON round trip gives back everything but the staging
    area; the registry's round trip likewise, and \<open>create_repository\<close> followed by
    \<open>get_repository\<close>.
  \<^item> Commits: the dict round trip, \<open>get_history\<close> on two commits, and the bound
    \<open>max_commits\<close> on the length of its loop's result.
  \<^item> Pull requests: every merged request built by the constructor and the mutators has
    a merge time; the queue hands requests out in FIFO order, its ids are distinct and
    below the counter, lookup by id finds every queued request, save and load give the
    queue back, and an emptied queue reloaded from its file reissues \<open>PR-1\<close>.
  \<^item> Commands: \<open>git init\<close> on a fresh and on a taken name; every session of commands
    returns, from a registry of unique names whose histories point backwards, and keeps
    both properties; the command table read from the configuration; start-up with a
    corrupt and with an ill-formed \<open>repos.json\<close>; the input loop returns when an
    \<open>exit\<close> line comes, printing one answer per non-blank line before it, and never
    returns otherwise.
  \<^item> Schema: what \<open>save_data\<close> writes always has the loader's type, and data of that
    type loads or raises only the exception of \<open>fromisoformat\<close> on a date string,
    never \<open>KeyError\<close>, \<open>TypeError\<close> or \<open>AttributeError\<close>.
  \<^item> Across components (this theory): two sessions of the program, the second loading
    what the first saved on \<open>exit\<close>. The example scenario of the specification is the
    witness of the log-extension theorem of \<open>Repository\<close>.
  \<^item> Findings: two commits with equal message, author and timestamp collide, the second
    becomes its own parent and the unguarded \<open>git log\<close> loop never ends;
    \<open>CommitHistory.get_history\<close> raises \<open>AttributeError\<close> once the history has two
    commits; a reloaded empty queue reissues an id; a \<open>repos.json\<close> that parses but misses
    a key crashes the simulator's constructor; at the end of the input the loop catches
    \<open>EOFError\<close> and reads again forever, without saving; no method sets the status
    \<open>in_review\<close>, and status changes are unchecked (a merged request can be approved).

  \<^bold>\<open>Bounds and fuel.\<close> No fuel is used: \<open>log_walk\<close> is a partial function, and its
  termination is a theorem under the ordered-store invariant; \<open>history_loop\<close>
  terminates on the measure \<open>max_commits - count\<close>. \<open>run_loop\<close> is a partial function too:
  the end of input is the list \<open>[]\<close>, on which it calls itself, so its \<open>None\<close> is
  the loop of the Python code. Integers are Python's unbounded
  \<open>int\<close> (the queue counter) or \<open>nat\<close> (sizes); no value of the program has a
  fixed width.

  \<^bold>\<open>Not modelled.\<close> The bytes of JSON files, \<open>print\<close> itself and the file paths
  of \<open>_get_config_path\<close>/\<open>_get_data_dir\<close> (the model starts from decoded values and
  returns the values written and the strings printed); the welcome line of \<open>run\<close> and
  the text of the caught exceptions; a path that exists but is a directory (the file
  system is a map from paths to file contents, so \<open>os.path.exists\<close> and \<open>open\<close>
  agree); \<open>PullRequest.from_dict\<close> is not a step of \<open>pr_reachable\<close>, which covers the
  constructor and the mutators only (a loaded file can carry any status); the catch-all of \<open>run\<close> matters only for \<open>EOFError\<close>, since no modelled
  command raises. The decoders reject values of the wrong JSON type
  with \<open>TypeError\<close>, where the Python code would store them unchecked; the values
  written by \<open>to_dict\<close> always have the right types, which is what the round-trip
  theorems are about.
\<close>

section \<open>Properties across components\<close>

lemma repos_ok_inv: "repos_ok s \<Longrightarrow> list_all repo_inv (repositories (repo_manager s))"
  by (simp add: repos_ok_def list_all_iff)

text \<open>C35: two sessions of the program. The first starts without \<open>repos.json\<close> and
  reads an input with an \<open>exit\<close> line: it returns, writing the registry it reached; the
  next start reads that file and has the same repositories, with empty staging areas
  (staging is not saved), no current repository and the same command table.\<close>

theorem two_sessions:
  assumes "iso_roundtrip R" and "initialize_commands cfg = Inr en"
    and "list_ex is_exit_line inp"
  shows "\<exists>s' ms. git_main R cfg None inp = Some (Inr (save_data R s', ms)) \<and>
           simulator_init R cfg (Some (Inr (save_data R s'))) =
             Inr \<lparr>repo_manager = \<lparr>repositories =
                    map (\<lambda>r. r\<lparr>staging_area := new_staging\<rparr>) (repositories (repo_manager s'))\<rparr>,
                  current_repo = None, commands_enabled = en\<rparr>"
proof -
  let ?s0 = "\<lparr>repo_manager = new_manager, current_repo = None, commands_enabled = en\<rparr> :: 'd simulator"
  have init: "simulator_init R cfg None = Inr ?s0"
    using assms(2) by (simp add: simulator_init_def)
  have "sim_inv ?s0" "repos_ok ?s0"
    by (simp_all add: sim_inv_def repos_ok_def new_manager_def list_repositories_def)
  from run_loop_exit_state [OF this assms(3)] obtain s' ms where
    run: "run_loop R inp ?s0 = Some (save_data R s', ms)" and ok: "repos_ok s'" by blast
  have "load_repositories R (save_data R s') new_manager =
      Inr (new_manager\<lparr>repositories := map (\<lambda>r. r\<lparr>staging_area := new_staging\<rparr>)
                                          (repositories (repo_manager s'))\<rparr>)"
    unfolding save_data_def by (rule manager_from_to_dict [OF assms(1) repos_ok_inv [OF ok]])
  with assms(2) have "simulator_init R cfg (Some (Inr (save_data R s'))) =
      Inr \<lparr>repo_manager = \<lparr>repositories =
             map (\<lambda>r. r\<lparr>staging_area := new_staging\<rparr>) (repositories (repo_manager s'))\<rparr>,
           current_repo = None, commands_enabled = en\<rparr>"
    by (simp add: simulator_init_def new_manager_def)
  with init run show ?thesis by (auto simp: git_main_def)
qed

theorem two_sessions_witness:
  "iso_roundtrip (\<lparr>sha1 = (\<lambda>s. s), dt_str = (\<lambda>d. d), dt_iso = (\<lambda>d. d), dt_fromiso = Inr\<rparr> :: string runtime) \<and>
   initialize_commands (Inr default_config) = Inr [(''init'', True), (''status'', True), (''log'', True)] \<and>
   list_ex is_exit_line [''init demo'', ''exit''] \<and>
   (\<exists>s' ms. git_main (\<lparr>sha1 = (\<lambda>s. s), dt_str = (\<lambda>d. d), dt_iso = (\<lambda>d. d), dt_fromiso = Inr\<rparr> :: string runtime) (Inr default_config) None [''init demo'', ''exit''] = Some (Inr (save_data (\<lparr>sha1 = (\<lambda>s. s), dt_str = (\<lambda>d. d), dt_iso = (\<lambda>d. d), dt_fromiso = Inr\<rparr> :: string runtime) s', ms)) \<and>
      simulator_init (\<lparr>sha1 = (\<lambda>s. s), dt_str = (\<lambda>d. d), dt_iso = (\<lambda>d. d), dt_fromiso = Inr\<rparr> :: string runtime) (Inr default_config) (Some (Inr (save_data (\<lparr>sha1 = (\<lambda>s. s), dt_str = (\<lambda>d. d), dt_iso = (\<lambda>d. d), dt_fromiso = Inr\<rparr> :: string runtime) s'))) =
        Inr \<lparr>repo_manager = \<lparr>repositories =
               map (\<lambda>r. r\<lparr>staging_area := new_staging\<rparr>) (repositories (repo_manager s'))\<rparr>,
             current_repo = None, commands_enabled = [(''init'', True), (''status'', True), (''log'', True)]\<rparr>)"
proof -
  have h1: "iso_roundtrip (\<lparr>sha1 = (\<lambda>s. s), dt_str = (\<lambda>d. d), dt_iso = (\<lambda>d. d), dt_fromiso = Inr\<rparr> :: string runtime)" by (simp add: iso_roundtrip_def)
  have h2: "initialize_commands (Inr default_config) = Inr [(''init'', True), (''status'', True), (''log'', True)]"
    by (simp add: initialize_commands_def initial_commands_def default_config_def json_field_def)
  have h3: "list_ex is_exit_line [''init demo'', ''exit'']"
    by (simp add: is_exit_line_def py_words_def py_strip_def is_py_space_def)
  show ?thesis using h1 h2 h3 two_sessions [OF h1 h2 h3] by simp
qed

end
